theory Spec2Isabelle
  imports Main
begin

section \<open>Python values and the external services\<close>

text \<open>
  The module \<open>dags/utils/dataproc.py\<close> builds Airflow sub-DAGs that create a Dataproc
  cluster, run one job on it and delete it. Keyword arguments whose default is
  \<open>None\<close> are options; the others have the type their docstring gives them.
  Exceptions are values: a builder returns \<open>Inl\<close> of the exception or \<open>Inr\<close> of the DAG.

  The code is read twice. First on values: a list is a HOL list and a dict a list of
  pairs. Then on a store, where a list or a dict is a reference into the store, to see
  which objects two DAGs share. The records of operators, DAGs and keyword arguments
  serve both readings: their type parameters \<open>'l\<close> and \<open>'d\<close> say how a list and how a
  dict is held.
\<close>

datatype error =
    AirflowException string
  | HookError string

text \<open>\<open>'{}'.format(x)\<close> of a string that may be \<open>None\<close>.\<close>

definition py_str :: "string option \<Rightarrow> string" where
  "py_str x = (case x of None \<Rightarrow> ''None'' | Some s \<Rightarrow> s)"

text \<open>\<open>sep.join(xs)\<close>.\<close>

fun join :: "string \<Rightarrow> string list \<Rightarrow> string" where
  "join sep [] = []"
| "join sep [x] = x"
| "join sep (x # y # ys) = x @ sep @ join sep (y # ys)"

text \<open>
  A \<open>dict\<close> of strings, in insertion order; \<open>d[k] = v\<close> replaces the value of a key
  that is present and appends a key that is not.
\<close>

type_synonym dict = "(string \<times> string) list"

fun dict_set :: "dict \<Rightarrow> string \<Rightarrow> string \<Rightarrow> dict" where
  "dict_set [] k v = [(k, v)]"
| "dict_set ((k', v') # d) k v =
     (if k' = k then (k', v) # d else (k', v') # dict_set d k v)"

text \<open>
  Modelled from the spec: the connection hooks are Airflow's, not this module's. The
  collaborator \<open>GoogleCloudBaseHook(gcp_conn_id=...)\<close> yields an object with a
  \<open>project_id\<close>, and \<open>AwsHook(conn).get_credentials()\<close> yields the sequence
  (access key, secret key, session token), each possibly \<open>None\<close>; either may raise.
  Airflow's \<open>models.DAG(..., default_args=d)\<close> keeps the dict \<open>d\<close> itself and rewrites it
  in place (it parses the start date and converts it to UTC): \<open>DAG_init_default_args\<close>
  gives the content it leaves for the content it finds. Only the reading on a store,
  where a dict is an object that can change, shows this.
\<close>

record GoogleCloudBaseHook =
  project_id :: "string option"

record external =
  GoogleCloudBaseHook_init :: "string \<Rightarrow> error + GoogleCloudBaseHook"
  AwsHook_get_credentials :: "string \<Rightarrow> error + string option list"
  DAG_init_default_args :: "dict \<Rightarrow> dict"

section \<open>Operators and DAGs\<close>

text \<open>
  Modelled from the spec: a task descriptor is opaque to this module; it has an
  identifier, a set of declared predecessors and a payload. The payload of each operator
  class is the keyword arguments its constructor is called with. The constructors are
  Airflow's and are taken to return: where Airflow raises in one (for a task of a DAG
  whose \<open>default_args\<close> carry no start date, for one), the builder returns no DAG, and
  what is proved of the DAGs a builder returns is not concerned.
\<close>

record ('l, 'd) DataprocClusterCreateOperator =
  create_task_id :: string
  create_cluster_name :: "string option"
  create_gcp_conn_id :: string
  create_service_account :: "string option"
  create_project_id :: "string option"
  create_storage_bucket :: string
  create_num_workers :: int
  create_image_version :: string
  create_properties :: 'd
  create_zone :: string
  create_idle_delete_ttl :: string
  create_auto_delete_ttl :: string
  create_master_machine_type :: string
  create_worker_machine_type :: string
  create_num_preemptible_workers :: int
  create_optional_components :: 'l
  create_install_component_gateway :: bool
  create_init_actions_uris :: 'l
  create_metadata :: 'd

record DataprocClusterDeleteOperator =
  delete_task_id :: string
  delete_cluster_name :: "string option"
  delete_gcp_conn_id :: string
  delete_project_id :: "string option"

record 'l DataProcPySparkOperator =
  pyspark_task_id :: string
  pyspark_job_name :: "string option"
  pyspark_cluster_name :: "string option"
  pyspark_main :: "string option"
  pyspark_arguments :: "'l option"
  pyspark_gcp_conn_id :: string

record 'l DataProcSparkOperator =
  spark_cluster_name :: "string option"
  spark_task_id :: string
  spark_job_name :: "string option"
  spark_dataproc_spark_jars :: "'l option"
  spark_main_class :: "string option"
  spark_arguments :: "'l option"
  spark_gcp_conn_id :: string

datatype ('l, 'd) operator =
    ClusterCreate "('l, 'd) DataprocClusterCreateOperator"
  | ClusterDelete DataprocClusterDeleteOperator
  | PySpark "'l DataProcPySparkOperator"
  | Spark "'l DataProcSparkOperator"

fun task_id :: "('l, 'd) operator \<Rightarrow> string" where
  "task_id (ClusterCreate c) = create_task_id c"
| "task_id (ClusterDelete d) = delete_task_id d"
| "task_id (PySpark p) = pyspark_task_id p"
| "task_id (Spark s) = spark_task_id s"

record ('l, 'd) task =
  operator :: "('l, 'd) operator"
  upstream_task_ids :: "string list"
  downstream_task_ids :: "string list"

record ('l, 'd) DAG =
  dag_id :: string
  dag_default_args :: "'d option"
  tasks :: "('l, 'd) task list"

definition DAG_init :: "string \<Rightarrow> 'd option \<Rightarrow> ('l, 'd) DAG" where
  "DAG_init name dargs = \<lparr>dag_id = name, dag_default_args = dargs, tasks = []\<rparr>"

text \<open>An operator constructed inside \<open>with models.DAG(...) as dag\<close> joins that DAG.\<close>

definition add_task :: "('l, 'd) DAG \<Rightarrow> ('l, 'd) operator \<Rightarrow> ('l, 'd) DAG" where
  "add_task dag opr =
     dag\<lparr>tasks := tasks dag @
        [\<lparr>operator = opr, upstream_task_ids = [], downstream_task_ids = []\<rparr>]\<rparr>"

text \<open>\<open>a >> b\<close>: \<open>b\<close> becomes a successor of \<open>a\<close> and \<open>a\<close> a predecessor of \<open>b\<close>.\<close>

definition set_downstream :: "('l, 'd) DAG \<Rightarrow> string \<Rightarrow> string \<Rightarrow> ('l, 'd) DAG" where
  "set_downstream dag a b =
     dag\<lparr>tasks := map (\<lambda>t.
        let t1 = (if task_id (operator t) = a
                  then t\<lparr>downstream_task_ids := downstream_task_ids t @ [b]\<rparr> else t)
        in (if task_id (operator t1) = b
            then t1\<lparr>upstream_task_ids := upstream_task_ids t1 @ [a]\<rparr> else t1))
        (tasks dag)\<rparr>"

definition get_task :: "('l, 'd) DAG \<Rightarrow> string \<Rightarrow> ('l, 'd) task option" where
  "get_task dag tid = find (\<lambda>t. task_id (operator t) = tid) (tasks dag)"

section \<open>DataProcHelper\<close>

record 'l DataProcHelper_kwargs =
  cluster_name :: "string option"
  num_workers :: int
  image_version :: string
  zone :: string
  idle_delete_ttl :: string
  auto_delete_ttl :: string
  master_machine_type :: string
  worker_machine_type :: string
  num_preemptible_workers :: int
  service_account :: "string option"
  artifact_bucket :: string
  optional_components :: 'l
  install_component_gateway :: bool
  aws_conn_id :: "string option"
  gcp_conn_id :: string

text \<open>The helper object: the attributes \<open>__init__\<close> stores, and the GCP connection.\<close>

record 'l DataProcHelper = "'l DataProcHelper_kwargs" +
  connection :: GoogleCloudBaseHook

definition DataProcHelper_init ::
  "external \<Rightarrow> 'l DataProcHelper_kwargs \<Rightarrow> error + 'l DataProcHelper" where
  "DataProcHelper_init ext kw =
     (case GoogleCloudBaseHook_init ext (gcp_conn_id kw) of
        Inl e \<Rightarrow> Inl e
      | Inr hook \<Rightarrow> Inr
          \<lparr>cluster_name = cluster_name kw,
           num_workers = num_workers kw,
           image_version = image_version kw,
           zone = zone kw,
           idle_delete_ttl = idle_delete_ttl kw,
           auto_delete_ttl = auto_delete_ttl kw,
           master_machine_type = master_machine_type kw,
           worker_machine_type = worker_machine_type kw,
           num_preemptible_workers = num_preemptible_workers kw,
           service_account = service_account kw,
           artifact_bucket = artifact_bucket kw,
           optional_components = optional_components kw,
           install_component_gateway = install_component_gateway kw,
           aws_conn_id = aws_conn_id kw,
           gcp_conn_id = gcp_conn_id kw,
           connection = hook\<rparr>)"

text \<open>
  The loop of \<open>create_cluster\<close> over \<open>zip(names, credentials)\<close>: a value that is not
  \<open>None\<close> is stored under \<open>"core:fs.s3a." + key\<close>.
\<close>

fun s3_properties :: "(string \<times> string option) list \<Rightarrow> dict \<Rightarrow> dict" where
  "s3_properties [] properties = properties"
| "s3_properties ((key, value) # rest) properties =
     s3_properties rest
       (case value of
          None \<Rightarrow> properties
        | Some v \<Rightarrow> dict_set properties (''core:fs.s3a.'' @ key) v)"

text \<open>
  \<open>if self.aws_conn_id:\<close> holds when the connection id is neither \<open>None\<close> nor empty; only
  then are the credentials fetched.
\<close>

definition create_cluster ::
  "external \<Rightarrow> string list DataProcHelper \<Rightarrow>
   error + (string list, dict) DataprocClusterCreateOperator" where
  "create_cluster ext self =
     (case (case aws_conn_id self of
              None \<Rightarrow> Inr []
            | Some conn \<Rightarrow>
                if conn = [] then Inr []
                else (case AwsHook_get_credentials ext conn of
                        Inl e \<Rightarrow> Inl e
                      | Inr creds \<Rightarrow> Inr (s3_properties
                          (zip [''access.key'', ''secret.key'', ''session.token''] creds)
                          []))) of
        Inl e \<Rightarrow> Inl e
      | Inr properties \<Rightarrow> Inr
          \<lparr>create_task_id = ''create_dataproc_cluster'',
           create_cluster_name = cluster_name self,
           create_gcp_conn_id = gcp_conn_id self,
           create_service_account = service_account self,
           create_project_id = project_id (connection self),
           create_storage_bucket = ''moz-fx-data-prod-dataproc-scratch'',
           create_num_workers = num_workers self,
           create_image_version = image_version self,
           create_properties = properties,
           create_zone = zone self,
           create_idle_delete_ttl = idle_delete_ttl self,
           create_auto_delete_ttl = auto_delete_ttl self,
           create_master_machine_type = master_machine_type self,
           create_worker_machine_type = worker_machine_type self,
           create_num_preemptible_workers = num_preemptible_workers self,
           create_optional_components = optional_components self,
           create_install_component_gateway = install_component_gateway self,
           create_init_actions_uris =
             [''gs://'' @ artifact_bucket self @ ''/bootstrap/dataproc_init.sh''],
           create_metadata =
             [(''gcs-connector-version'', ''1.9.16''),
              (''bigquery-connector-version'', ''0.13.6'')]\<rparr>)"

definition delete_cluster :: "'l DataProcHelper \<Rightarrow> DataprocClusterDeleteOperator" where
  "delete_cluster self =
     \<lparr>delete_task_id = ''delete_dataproc_cluster'',
      delete_cluster_name = cluster_name self,
      delete_gcp_conn_id = gcp_conn_id self,
      delete_project_id = project_id (connection self)\<rparr>"

section \<open>Flattening the environment\<close>

text \<open>\<open>(env or {}).items()\<close>, each entry formatted \<open>'{}={}'\<close>, joined by one space.\<close>

definition format_envvar :: "dict option \<Rightarrow> string" where
  "format_envvar env =
     join '' ''
       (map (\<lambda>(k, v). k @ ''='' @ v) (case env of None \<Rightarrow> [] | Some d \<Rightarrow> d))"

section \<open>The three builders\<close>

text \<open>The keyword arguments the three builders share, then those of each.\<close>

record ('l, 'd) runner_kwargs = "'l DataProcHelper_kwargs" +
  parent_dag_name :: "string option"
  dag_name :: string
  default_args :: "'d option"
  job_name :: "string option"

record ('l, 'd) pyspark_kwargs = "('l, 'd) runner_kwargs" +
  python_driver_code :: "string option"
  py_args :: "'l option"

record ('l, 'd) jar_kwargs = "('l, 'd) runner_kwargs" +
  jar_urls :: "'l option"
  main_class :: "string option"
  jar_args :: "'l option"

record ('l, 'd) script_kwargs = "('l, 'd) runner_kwargs" +
  uri :: "string option"
  env :: "'d option"
  arguments :: "string option"

text \<open>The call \<open>DataProcHelper(cluster_name=cluster_name, ...)\<close> every builder makes.\<close>

definition helper_kwargs ::
  "('l, 'd, 'a) runner_kwargs_scheme \<Rightarrow> 'l DataProcHelper_kwargs" where
  "helper_kwargs kw =
     \<lparr>cluster_name = cluster_name kw,
      num_workers = num_workers kw,
      image_version = image_version kw,
      zone = zone kw,
      idle_delete_ttl = idle_delete_ttl kw,
      auto_delete_ttl = auto_delete_ttl kw,
      master_machine_type = master_machine_type kw,
      worker_machine_type = worker_machine_type kw,
      num_preemptible_workers = num_preemptible_workers kw,
      service_account = service_account kw,
      artifact_bucket = artifact_bucket kw,
      optional_components = optional_components kw,
      install_component_gateway = install_component_gateway kw,
      aws_conn_id = aws_conn_id kw,
      gcp_conn_id = gcp_conn_id kw\<rparr>"

text \<open>
  The body of \<open>with models.DAG(_dag_name, default_args=default_args) as dag\<close>, the same
  in the three builders but for the run operator: create, run and delete join the DAG
  in this order, then \<open>create >> run >> delete\<close>.
\<close>

definition assemble ::
  "external \<Rightarrow> string list DataProcHelper \<Rightarrow> string \<Rightarrow> dict option \<Rightarrow>
   (string list, dict) operator \<Rightarrow> error + (string list, dict) DAG" where
  "assemble ext dataproc_helper name dargs run =
     (let dag = DAG_init name dargs in
      case create_cluster ext dataproc_helper of
        Inl e \<Rightarrow> Inl e
      | Inr create_dataproc_cluster \<Rightarrow>
          let dag = add_task dag (ClusterCreate create_dataproc_cluster);
              dag = add_task dag run;
              delete_dataproc_cluster = delete_cluster dataproc_helper;
              dag = add_task dag (ClusterDelete delete_dataproc_cluster);
              dag = set_downstream dag
                      (create_task_id create_dataproc_cluster) (task_id run);
              dag = set_downstream dag
                      (task_id run) (delete_task_id delete_dataproc_cluster)
          in Inr dag)"

definition moz_dataproc_pyspark_runner ::
  "external \<Rightarrow> (string list, dict) pyspark_kwargs \<Rightarrow> error + (string list, dict) DAG" where
  "moz_dataproc_pyspark_runner ext kw =
     (if cluster_name kw = None \<or> python_driver_code kw = None
      then Inl (AirflowException ''Please specify cluster_name and/or python_driver_code.'')
      else
        case DataProcHelper_init ext (helper_kwargs kw) of
          Inl e \<Rightarrow> Inl e
        | Inr dataproc_helper \<Rightarrow>
            let dag_name' = py_str (parent_dag_name kw) @ ''.'' @ dag_name kw;
                run_pyspark_on_dataproc =
                  \<lparr>pyspark_task_id = ''run_dataproc_pyspark'',
                   pyspark_job_name = job_name kw,
                   pyspark_cluster_name = cluster_name kw,
                   pyspark_main = python_driver_code kw,
                   pyspark_arguments = py_args kw,
                   pyspark_gcp_conn_id = gcp_conn_id kw\<rparr>
            in assemble ext dataproc_helper dag_name' (default_args kw)
                 (PySpark run_pyspark_on_dataproc))"

definition moz_dataproc_jar_runner ::
  "external \<Rightarrow> (string list, dict) jar_kwargs \<Rightarrow> error + (string list, dict) DAG" where
  "moz_dataproc_jar_runner ext kw =
     (if cluster_name kw = None \<or> jar_urls kw = None \<or> main_class kw = None
      then Inl (AirflowException
                  ''Please specify cluster_name, jar_urls, and/or main_class.'')
      else
        case DataProcHelper_init ext (helper_kwargs kw) of
          Inl e \<Rightarrow> Inl e
        | Inr dataproc_helper \<Rightarrow>
            let dag_name' = py_str (parent_dag_name kw) @ ''.'' @ dag_name kw;
                run_jar_on_dataproc =
                  \<lparr>spark_cluster_name = cluster_name kw,
                   spark_task_id = ''run_jar_on_dataproc'',
                   spark_job_name = job_name kw,
                   spark_dataproc_spark_jars = jar_urls kw,
                   spark_main_class = main_class kw,
                   spark_arguments = jar_args kw,
                   spark_gcp_conn_id = gcp_conn_id kw\<rparr>
            in assemble ext dataproc_helper dag_name' (default_args kw)
                 (Spark run_jar_on_dataproc))"

text \<open>
  \<open>if arguments:\<close> holds when the string is neither \<open>None\<close> nor empty.
\<close>

definition truthy :: "string option \<Rightarrow> bool" where
  "truthy x = (case x of None \<Rightarrow> False | Some s \<Rightarrow> s \<noteq> [])"

definition moz_dataproc_scriptrunner ::
  "external \<Rightarrow> (string list, dict) script_kwargs \<Rightarrow> error + (string list, dict) DAG" where
  "moz_dataproc_scriptrunner ext kw =
     (if job_name kw = None \<or> uri kw = None \<or> cluster_name kw = None
      then Inl (AirflowException ''Please specify job_name, uri, and cluster_name.'')
      else
        case DataProcHelper_init ext (helper_kwargs kw) of
          Inl e \<Rightarrow> Inl e
        | Inr dataproc_helper \<Rightarrow>
            let dag_name' = py_str (parent_dag_name kw) @ ''.'' @ dag_name kw;
                environment = format_envvar (env kw);
                jar_url = ''gs://'' @ artifact_bucket kw @ ''/bin/script-runner.jar'';
                args = [''gs://'' @ artifact_bucket kw @ ''/bootstrap/airflow_gcp.sh'',
                        ''--job-name'', py_str (job_name kw),
                        ''--uri'', py_str (uri kw),
                        ''--environment'', environment];
                args = (if truthy (arguments kw)
                        then args @ [''--arguments'', py_str (arguments kw)]
                        else args);
                run_script_on_dataproc =
                  \<lparr>spark_cluster_name = cluster_name kw,
                   spark_task_id = ''run_script_on_dataproc'',
                   spark_job_name = job_name kw,
                   spark_dataproc_spark_jars = Some [jar_url],
                   spark_main_class =
                     Some ''com.amazon.elasticmapreduce.scriptrunner.ScriptRunner'',
                   spark_arguments = Some args,
                   spark_gcp_conn_id = gcp_conn_id kw\<rparr>
            in assemble ext dataproc_helper dag_name' (default_args kw)
                 (Spark run_script_on_dataproc))"

section \<open>Default arguments and reading a DAG\<close>

text \<open>The defaults of the three signatures.\<close>

definition pyspark_defaults :: "(string list, dict) pyspark_kwargs" where
  "pyspark_defaults =
     \<lparr>cluster_name = None,
      num_workers = 2,
      image_version = ''1.4'',
      zone = ''us-west1-b'',
      idle_delete_ttl = ''10800'',
      auto_delete_ttl = ''21600'',
      master_machine_type = ''n1-standard-8'',
      worker_machine_type = ''n1-standard-4'',
      num_preemptible_workers = 0,
      service_account = None,
      artifact_bucket = ''moz-fx-data-prod-airflow-dataproc-artifacts'',
      optional_components = [''ANACONDA''],
      install_component_gateway = True,
      aws_conn_id = None,
      gcp_conn_id = ''google_cloud_airflow_dataproc'',
      parent_dag_name = None,
      dag_name = ''run_pyspark_on_dataproc'',
      default_args = None,
      job_name = None,
      python_driver_code = None,
      py_args = None\<rparr>"

definition jar_defaults :: "(string list, dict) jar_kwargs" where
  "jar_defaults =
     \<lparr>cluster_name = None,
      num_workers = 2,
      image_version = ''1.4'',
      zone = ''us-west1-b'',
      idle_delete_ttl = ''14400'',
      auto_delete_ttl = ''28800'',
      master_machine_type = ''n1-standard-8'',
      worker_machine_type = ''n1-standard-4'',
      num_preemptible_workers = 0,
      service_account = None,
      artifact_bucket = ''moz-fx-data-prod-airflow-dataproc-artifacts'',
      optional_components = [''ANACONDA''],
      install_component_gateway = True,
      aws_conn_id = None,
      gcp_conn_id = ''google_cloud_airflow_dataproc'',
      parent_dag_name = None,
      dag_name = ''run_script_on_dataproc'',
      default_args = None,
      job_name = None,
      jar_urls = None,
      main_class = None,
      jar_args = None\<rparr>"

definition script_defaults :: "(string list, dict) script_kwargs" where
  "script_defaults =
     \<lparr>cluster_name = None,
      num_workers = 2,
      image_version = ''1.4'',
      zone = ''us-west1-b'',
      idle_delete_ttl = ''14400'',
      auto_delete_ttl = ''28800'',
      master_machine_type = ''n1-standard-8'',
      worker_machine_type = ''n1-standard-4'',
      num_preemptible_workers = 0,
      service_account = None,
      artifact_bucket = ''moz-fx-data-prod-airflow-dataproc-artifacts'',
      optional_components = [''ANACONDA''],
      install_component_gateway = True,
      aws_conn_id = None,
      gcp_conn_id = ''google_cloud_airflow_dataproc'',
      parent_dag_name = None,
      dag_name = ''run_script_on_dataproc'',
      default_args = None,
      job_name = None,
      uri = None,
      env = None,
      arguments = None\<rparr>"

text \<open>The Spark operator a DAG holds under a task id, if it holds one.\<close>

definition spark_operator :: "('l, 'd) DAG \<Rightarrow> string \<Rightarrow> 'l DataProcSparkOperator option" where
  "spark_operator dag tid =
     (case get_task dag tid of
        None \<Rightarrow> None
      | Some t \<Rightarrow> (case operator t of Spark s \<Rightarrow> Some s | _ \<Rightarrow> None))"

text \<open>Three tasks in a row, each the sole predecessor of the next.\<close>

definition chain ::
  "('l, 'd) operator \<Rightarrow> ('l, 'd) operator \<Rightarrow> ('l, 'd) operator \<Rightarrow> ('l, 'd) task list" where
  "chain c r d =
     [\<lparr>operator = c, upstream_task_ids = [], downstream_task_ids = [task_id r]\<rparr>,
      \<lparr>operator = r, upstream_task_ids = [task_id c], downstream_task_ids = [task_id d]\<rparr>,
      \<lparr>operator = d, upstream_task_ids = [task_id r], downstream_task_ids = []\<rparr>]"

text \<open>
  Example services: a GCP connection of project \<open>proj\<close>, AWS credentials with an
  access key and a secret key but no session token, and a DAG constructor that
  replaces the start date \<open>2020-01-01\<close> by the UTC time it stands for.
\<close>

definition ext_ok :: external where
  "ext_ok =
     \<lparr>GoogleCloudBaseHook_init = (\<lambda>conn. Inr \<lparr>project_id = Some ''proj''\<rparr>),
      AwsHook_get_credentials = (\<lambda>conn. Inr [Some ''AK'', Some ''SK'', None]),
      DAG_init_default_args =
        map (\<lambda>(k, v). (k, if k = ''start_date'' \<and> v = ''2020-01-01''
                              then ''2020-01-01T00:00:00+00:00'' else v))\<rparr>"

text \<open>Services that always fail.\<close>

definition ext_down :: external where
  "ext_down =
     \<lparr>GoogleCloudBaseHook_init = (\<lambda>conn. Inl (HookError ''gcp'')),
      AwsHook_get_credentials = (\<lambda>conn. Inl (HookError ''aws'')),
      DAG_init_default_args = (\<lambda>d. d)\<rparr>"

text \<open>The run operator the script builder constructs from its keyword arguments.\<close>

definition script_run ::
  "(string list, dict) script_kwargs \<Rightarrow> string list DataProcSparkOperator" where
  "script_run kw =
     \<lparr>spark_cluster_name = cluster_name kw,
      spark_task_id = ''run_script_on_dataproc'',
      spark_job_name = job_name kw,
      spark_dataproc_spark_jars =
        Some [''gs://'' @ artifact_bucket kw @ ''/bin/script-runner.jar''],
      spark_main_class = Some ''com.amazon.elasticmapreduce.scriptrunner.ScriptRunner'',
      spark_arguments = Some
        ([''gs://'' @ artifact_bucket kw @ ''/bootstrap/airflow_gcp.sh'',
          ''--job-name'', py_str (job_name kw),
          ''--uri'', py_str (uri kw),
          ''--environment'', format_envvar (env kw)]
         @ (if truthy (arguments kw) then [''--arguments'', py_str (arguments kw)] else [])),
      spark_gcp_conn_id = gcp_conn_id kw\<rparr>"

text \<open>
  The credential lookup is not made, or it returns: no connection id, an empty one, or
  a lookup that does not raise.
\<close>

definition credentials_ok :: "external \<Rightarrow> string option \<Rightarrow> bool" where
  "credentials_ok ext conn_id =
     (case conn_id of
        None \<Rightarrow> True
      | Some conn \<Rightarrow> conn = [] \<or> \<not> isl (AwsHook_get_credentials ext conn))"

text \<open>
  A call of the script builder: the defaults, the five arguments given, and
  \<open>default_args\<close> with the start date the tasks of a DAG need.
\<close>

definition script_example :: "(string list, dict) script_kwargs" where
  "script_example =
     script_defaults\<lparr>cluster_name := Some ''c'', job_name := Some ''J'',
       uri := Some ''gs://b/s.py'', env := Some [(''k'', ''v'')],
       arguments := Some ''-d 1'',
       default_args := Some [(''start_date'', ''2020-01-01'')]\<rparr>"

text \<open>The run operators the Python and the jar builder construct.\<close>

definition pyspark_run :: "('l, 'd) pyspark_kwargs \<Rightarrow> 'l DataProcPySparkOperator" where
  "pyspark_run kw =
     \<lparr>pyspark_task_id = ''run_dataproc_pyspark'',
      pyspark_job_name = job_name kw,
      pyspark_cluster_name = cluster_name kw,
      pyspark_main = python_driver_code kw,
      pyspark_arguments = py_args kw,
      pyspark_gcp_conn_id = gcp_conn_id kw\<rparr>"

definition jar_run :: "('l, 'd) jar_kwargs \<Rightarrow> 'l DataProcSparkOperator" where
  "jar_run kw =
     \<lparr>spark_cluster_name = cluster_name kw,
      spark_task_id = ''run_jar_on_dataproc'',
      spark_job_name = job_name kw,
      spark_dataproc_spark_jars = jar_urls kw,
      spark_main_class = main_class kw,
      spark_arguments = jar_args kw,
      spark_gcp_conn_id = gcp_conn_id kw\<rparr>"

text \<open>
  Calls of the Python and the jar builder with their required arguments and
  \<open>default_args\<close> with a start date.
\<close>

definition pyspark_example :: "(string list, dict) pyspark_kwargs" where
  "pyspark_example =
     pyspark_defaults\<lparr>cluster_name := Some ''c'',
       python_driver_code := Some ''gs://b/d.py'',
       default_args := Some [(''start_date'', ''2020-01-01'')]\<rparr>"

definition jar_example :: "(string list, dict) jar_kwargs" where
  "jar_example =
     jar_defaults\<lparr>cluster_name := Some ''c'', jar_urls := Some [''gs://b/j.jar''],
       main_class := Some ''M'',
       default_args := Some [(''start_date'', ''2020-01-01'')]\<rparr>"

text \<open>The defaults of \<open>DataProcHelper.__init__\<close>, and the helper built from keyword
  arguments with the example services.\<close>

definition DataProcHelper_defaults :: "string list DataProcHelper_kwargs" where
  "DataProcHelper_defaults =
     \<lparr>cluster_name = None,
      num_workers = 2,
      image_version = ''1.4'',
      zone = ''us-west1-b'',
      idle_delete_ttl = ''14400'',
      auto_delete_ttl = ''28800'',
      master_machine_type = ''n1-standard-8'',
      worker_machine_type = ''n1-standard-4'',
      num_preemptible_workers = 0,
      service_account = None,
      artifact_bucket = ''moz-fx-data-prod-airflow-dataproc-artifacts'',
      optional_components = [''ANACONDA''],
      install_component_gateway = True,
      aws_conn_id = None,
      gcp_conn_id = ''google_cloud_airflow_dataproc''\<rparr>"

definition helper_of :: "'l DataProcHelper_kwargs \<Rightarrow> 'l DataProcHelper" where
  "helper_of kw = projr (DataProcHelper_init ext_ok kw)"

section \<open>The builders on a store of lists and dicts\<close>

text \<open>
  Python passes lists and dicts by reference. To tell which list and dict objects two
  DAGs share, the same code is read once more with every list and dict held in a store
  and named by a reference; a DAG and its operators then carry references. A list or
  dict display (\<open>[...]\<close>, \<open>{...}\<close>) takes the next free reference; temporaries that no
  object keeps (the operand \<open>{}\<close> of \<open>env or {}\<close>, the list that is joined) are not
  stored. An operator keeps the references its constructor is given, as it keeps the
  other keyword arguments.
\<close>

datatype list_ref = ListRef nat

datatype dict_ref = DictRef nat

record store =
  list_at :: "nat \<Rightarrow> string list"
  dict_at :: "nat \<Rightarrow> dict"
  next_list :: nat
  next_dict :: nat

definition new_list :: "store \<Rightarrow> string list \<Rightarrow> list_ref \<times> store" where
  "new_list s xs =
     (ListRef (next_list s),
      s\<lparr>list_at := (list_at s)(next_list s := xs), next_list := Suc (next_list s)\<rparr>)"

definition new_dict :: "store \<Rightarrow> dict \<Rightarrow> dict_ref \<times> store" where
  "new_dict s d =
     (DictRef (next_dict s),
      s\<lparr>dict_at := (dict_at s)(next_dict s := d), next_dict := Suc (next_dict s)\<rparr>)"

fun get_list :: "store \<Rightarrow> list_ref \<Rightarrow> string list" where
  "get_list s (ListRef a) = list_at s a"

fun get_dict :: "store \<Rightarrow> dict_ref \<Rightarrow> dict" where
  "get_dict s (DictRef a) = dict_at s a"

fun set_list :: "store \<Rightarrow> list_ref \<Rightarrow> string list \<Rightarrow> store" where
  "set_list s (ListRef a) xs = s\<lparr>list_at := (list_at s)(a := xs)\<rparr>"

fun set_dict :: "store \<Rightarrow> dict_ref \<Rightarrow> dict \<Rightarrow> store" where
  "set_dict s (DictRef a) d = s\<lparr>dict_at := (dict_at s)(a := d)\<rparr>"

text \<open>The loop of \<open>create_cluster\<close>, storing into the dict \<open>properties\<close> refers to.\<close>

fun s3_properties_ref ::
  "(string \<times> string option) list \<Rightarrow> dict_ref \<Rightarrow> store \<Rightarrow> store" where
  "s3_properties_ref [] properties s = s"
| "s3_properties_ref ((key, value) # rest) properties s =
     s3_properties_ref rest properties
       (case value of
          None \<Rightarrow> s
        | Some v \<Rightarrow> set_dict s properties
            (dict_set (get_dict s properties) (''core:fs.s3a.'' @ key) v))"

definition create_cluster_ref ::
  "external \<Rightarrow> store \<Rightarrow> list_ref DataProcHelper \<Rightarrow>
   (error + (list_ref, dict_ref) DataprocClusterCreateOperator) \<times> store" where
  "create_cluster_ref ext s self =
     (case new_dict s [] of (properties, s1) \<Rightarrow>
      (case (case aws_conn_id self of
               None \<Rightarrow> Inr s1
             | Some conn \<Rightarrow>
                 if conn = [] then Inr s1
                 else (case AwsHook_get_credentials ext conn of
                         Inl e \<Rightarrow> Inl e
                       | Inr creds \<Rightarrow> Inr (s3_properties_ref
                           (zip [''access.key'', ''secret.key'', ''session.token''] creds)
                           properties s1))) of
         Inl e \<Rightarrow> (Inl e, s1)
       | Inr s2 \<Rightarrow>
           (case new_list s2
                   [''gs://'' @ artifact_bucket self @ ''/bootstrap/dataproc_init.sh''] of
              (init_actions_uris, s3) \<Rightarrow>
           (case new_dict s3
                   [(''gcs-connector-version'', ''1.9.16''),
                    (''bigquery-connector-version'', ''0.13.6'')] of
              (metadata, s4) \<Rightarrow>
              (Inr
                \<lparr>create_task_id = ''create_dataproc_cluster'',
                 create_cluster_name = cluster_name self,
                 create_gcp_conn_id = gcp_conn_id self,
                 create_service_account = service_account self,
                 create_project_id = project_id (connection self),
                 create_storage_bucket = ''moz-fx-data-prod-dataproc-scratch'',
                 create_num_workers = num_workers self,
                 create_image_version = image_version self,
                 create_properties = properties,
                 create_zone = zone self,
                 create_idle_delete_ttl = idle_delete_ttl self,
                 create_auto_delete_ttl = auto_delete_ttl self,
                 create_master_machine_type = master_machine_type self,
                 create_worker_machine_type = worker_machine_type self,
                 create_num_preemptible_workers = num_preemptible_workers self,
                 create_optional_components = optional_components self,
                 create_install_component_gateway = install_component_gateway self,
                 create_init_actions_uris = init_actions_uris,
                 create_metadata = metadata\<rparr>,
               s4)))))"

text \<open>
  \<open>models.DAG(_dag_name, default_args=default_args)\<close> on the store: the DAG keeps the
  reference it is given, and the constructor rewrites the dict it refers to in place.
\<close>

definition DAG_init_ref ::
  "external \<Rightarrow> store \<Rightarrow> string \<Rightarrow> dict_ref option \<Rightarrow>
   (list_ref, dict_ref) DAG \<times> store" where
  "DAG_init_ref ext s name dargs =
     (DAG_init name dargs,
      case dargs of
        None \<Rightarrow> s
      | Some r \<Rightarrow> set_dict s r (DAG_init_default_args ext (get_dict s r)))"

text \<open>
  The body of \<open>with models.DAG(...) as dag\<close>. The run operator is constructed after the
  create operator, so the lists it displays are stored after those of
  \<open>create_cluster\<close>.
\<close>

definition assemble_ref ::
  "external \<Rightarrow> store \<Rightarrow> list_ref DataProcHelper \<Rightarrow> string \<Rightarrow> dict_ref option \<Rightarrow>
   (store \<Rightarrow> (list_ref, dict_ref) operator \<times> store) \<Rightarrow>
   (error + (list_ref, dict_ref) DAG) \<times> store" where
  "assemble_ref ext s dataproc_helper name dargs make_run =
     (case DAG_init_ref ext s name dargs of (dag, s0) \<Rightarrow>
      case create_cluster_ref ext s0 dataproc_helper of
        (Inl e, s1) \<Rightarrow> (Inl e, s1)
      | (Inr create_dataproc_cluster, s1) \<Rightarrow>
          (case make_run s1 of (run, s2) \<Rightarrow>
           let dag = add_task dag (ClusterCreate create_dataproc_cluster);
               dag = add_task dag run;
               delete_dataproc_cluster = delete_cluster dataproc_helper;
               dag = add_task dag (ClusterDelete delete_dataproc_cluster);
               dag = set_downstream dag
                       (create_task_id create_dataproc_cluster) (task_id run);
               dag = set_downstream dag
                       (task_id run) (delete_task_id delete_dataproc_cluster)
           in (Inr dag, s2)))"

definition moz_dataproc_pyspark_runner_ref ::
  "external \<Rightarrow> store \<Rightarrow> (list_ref, dict_ref) pyspark_kwargs \<Rightarrow>
   (error + (list_ref, dict_ref) DAG) \<times> store" where
  "moz_dataproc_pyspark_runner_ref ext s kw =
     (if cluster_name kw = None \<or> python_driver_code kw = None
      then (Inl (AirflowException
                   ''Please specify cluster_name and/or python_driver_code.''), s)
      else
        case DataProcHelper_init ext (helper_kwargs kw) of
          Inl e \<Rightarrow> (Inl e, s)
        | Inr dataproc_helper \<Rightarrow>
            let dag_name' = py_str (parent_dag_name kw) @ ''.'' @ dag_name kw
            in assemble_ref ext s dataproc_helper dag_name' (default_args kw)
                 (\<lambda>s1. (PySpark
                    \<lparr>pyspark_task_id = ''run_dataproc_pyspark'',
                     pyspark_job_name = job_name kw,
                     pyspark_cluster_name = cluster_name kw,
                     pyspark_main = python_driver_code kw,
                     pyspark_arguments = py_args kw,
                     pyspark_gcp_conn_id = gcp_conn_id kw\<rparr>, s1)))"

definition moz_dataproc_jar_runner_ref ::
  "external \<Rightarrow> store \<Rightarrow> (list_ref, dict_ref) jar_kwargs \<Rightarrow>
   (error + (list_ref, dict_ref) DAG) \<times> store" where
  "moz_dataproc_jar_runner_ref ext s kw =
     (if cluster_name kw = None \<or> jar_urls kw = None \<or> main_class kw = None
      then (Inl (AirflowException
                   ''Please specify cluster_name, jar_urls, and/or main_class.''), s)
      else
        case DataProcHelper_init ext (helper_kwargs kw) of
          Inl e \<Rightarrow> (Inl e, s)
        | Inr dataproc_helper \<Rightarrow>
            let dag_name' = py_str (parent_dag_name kw) @ ''.'' @ dag_name kw
            in assemble_ref ext s dataproc_helper dag_name' (default_args kw)
                 (\<lambda>s1. (Spark
                    \<lparr>spark_cluster_name = cluster_name kw,
                     spark_task_id = ''run_jar_on_dataproc'',
                     spark_job_name = job_name kw,
                     spark_dataproc_spark_jars = jar_urls kw,
                     spark_main_class = main_class kw,
                     spark_arguments = jar_args kw,
                     spark_gcp_conn_id = gcp_conn_id kw\<rparr>, s1)))"

text \<open>\<open>_format_envvar\<close> reads the dict \<open>env\<close> refers to.\<close>

definition format_envvar_ref :: "store \<Rightarrow> dict_ref option \<Rightarrow> string" where
  "format_envvar_ref s env_ref =
     join '' ''
       (map (\<lambda>(k, v). k @ ''='' @ v)
          (case env_ref of None \<Rightarrow> [] | Some r \<Rightarrow> get_dict s r))"

text \<open>
  \<open>args = [...]\<close> stores a new list and \<open>args += [...]\<close> extends that list in place; the
  jar list \<open>[jar_url]\<close> is displayed in the call of \<open>DataProcSparkOperator\<close>.
\<close>

definition moz_dataproc_scriptrunner_ref ::
  "external \<Rightarrow> store \<Rightarrow> (list_ref, dict_ref) script_kwargs \<Rightarrow>
   (error + (list_ref, dict_ref) DAG) \<times> store" where
  "moz_dataproc_scriptrunner_ref ext s kw =
     (if job_name kw = None \<or> uri kw = None \<or> cluster_name kw = None
      then (Inl (AirflowException ''Please specify job_name, uri, and cluster_name.''), s)
      else
        case DataProcHelper_init ext (helper_kwargs kw) of
          Inl e \<Rightarrow> (Inl e, s)
        | Inr dataproc_helper \<Rightarrow>
            let dag_name' = py_str (parent_dag_name kw) @ ''.'' @ dag_name kw;
                environment = format_envvar_ref s (env kw);
                jar_url = ''gs://'' @ artifact_bucket kw @ ''/bin/script-runner.jar''
            in (case new_list s
                       [''gs://'' @ artifact_bucket kw @ ''/bootstrap/airflow_gcp.sh'',
                        ''--job-name'', py_str (job_name kw),
                        ''--uri'', py_str (uri kw),
                        ''--environment'', environment] of
                  (args, s1) \<Rightarrow>
                let s2 = (if truthy (arguments kw)
                          then set_list s1 args
                                 (get_list s1 args @ [''--arguments'', py_str (arguments kw)])
                          else s1)
                in assemble_ref ext s2 dataproc_helper dag_name' (default_args kw)
                     (\<lambda>s3. case new_list s3 [jar_url] of
                        (jars, s4) \<Rightarrow>
                          (Spark
                             \<lparr>spark_cluster_name = cluster_name kw,
                              spark_task_id = ''run_script_on_dataproc'',
                              spark_job_name = job_name kw,
                              spark_dataproc_spark_jars = Some jars,
                              spark_main_class =
                                Some ''com.amazon.elasticmapreduce.scriptrunner.ScriptRunner'',
                              spark_arguments = Some args,
                              spark_gcp_conn_id = gcp_conn_id kw\<rparr>, s4))))"

text \<open>
  The store once the module is loaded: each of the four signatures has evaluated its
  default \<open>optional_components=['ANACONDA']\<close> once, in the order \<open>DataProcHelper.__init__\<close>,
  the Python, the jar and the script builder. The default of a call that omits
  \<open>optional_components\<close> is that one list.
\<close>

definition module_store :: store where
  "module_store =
     \<lparr>list_at = (\<lambda>a. if a < 4 then [''ANACONDA''] else []),
      dict_at = (\<lambda>a. []),
      next_list = 4,
      next_dict = 0\<rparr>"

definition script_defaults_ref :: "(list_ref, dict_ref) script_kwargs" where
  "script_defaults_ref =
     \<lparr>cluster_name = None,
      num_workers = 2,
      image_version = ''1.4'',
      zone = ''us-west1-b'',
      idle_delete_ttl = ''14400'',
      auto_delete_ttl = ''28800'',
      master_machine_type = ''n1-standard-8'',
      worker_machine_type = ''n1-standard-4'',
      num_preemptible_workers = 0,
      service_account = None,
      artifact_bucket = ''moz-fx-data-prod-airflow-dataproc-artifacts'',
      optional_components = ListRef 3,
      install_component_gateway = True,
      aws_conn_id = None,
      gcp_conn_id = ''google_cloud_airflow_dataproc'',
      parent_dag_name = None,
      dag_name = ''run_script_on_dataproc'',
      default_args = None,
      job_name = None,
      uri = None,
      env = None,
      arguments = None\<rparr>"

definition pyspark_defaults_ref :: "(list_ref, dict_ref) pyspark_kwargs" where
  "pyspark_defaults_ref =
     \<lparr>cluster_name = None,
      num_workers = 2,
      image_version = ''1.4'',
      zone = ''us-west1-b'',
      idle_delete_ttl = ''10800'',
      auto_delete_ttl = ''21600'',
      master_machine_type = ''n1-standard-8'',
      worker_machine_type = ''n1-standard-4'',
      num_preemptible_workers = 0,
      service_account = None,
      artifact_bucket = ''moz-fx-data-prod-airflow-dataproc-artifacts'',
      optional_components = ListRef 1,
      install_component_gateway = True,
      aws_conn_id = None,
      gcp_conn_id = ''google_cloud_airflow_dataproc'',
      parent_dag_name = None,
      dag_name = ''run_pyspark_on_dataproc'',
      default_args = None,
      job_name = None,
      python_driver_code = None,
      py_args = None\<rparr>"

definition jar_defaults_ref :: "(list_ref, dict_ref) jar_kwargs" where
  "jar_defaults_ref =
     \<lparr>cluster_name = None,
      num_workers = 2,
      image_version = ''1.4'',
      zone = ''us-west1-b'',
      idle_delete_ttl = ''14400'',
      auto_delete_ttl = ''28800'',
      master_machine_type = ''n1-standard-8'',
      worker_machine_type = ''n1-standard-4'',
      num_preemptible_workers = 0,
      service_account = None,
      artifact_bucket = ''moz-fx-data-prod-airflow-dataproc-artifacts'',
      optional_components = ListRef 2,
      install_component_gateway = True,
      aws_conn_id = None,
      gcp_conn_id = ''google_cloud_airflow_dataproc'',
      parent_dag_name = None,
      dag_name = ''run_script_on_dataproc'',
      default_args = None,
      job_name = None,
      jar_urls = None,
      main_class = None,
      jar_args = None\<rparr>"

section \<open>Reading a DAG through the store\<close>

text \<open>
  A reference is usable in a store when it was handed out before: it lies below the
  next free one.
\<close>

definition list_ok :: "store \<Rightarrow> list_ref \<Rightarrow> bool" where
  "list_ok s r = (case r of ListRef a \<Rightarrow> a < next_list s)"

definition dict_ok :: "store \<Rightarrow> dict_ref \<Rightarrow> bool" where
  "dict_ok s r = (case r of DictRef a \<Rightarrow> a < next_dict s)"

text \<open>
  The value a record stands for in a store: every reference replaced by the list or
  dict it refers to. Two DAGs read the same in a store when these values are equal.
\<close>

definition deref_helper_kwargs ::
  "store \<Rightarrow> list_ref DataProcHelper_kwargs \<Rightarrow> string list DataProcHelper_kwargs" where
  "deref_helper_kwargs s kw =
     \<lparr>cluster_name = cluster_name kw,
      num_workers = num_workers kw,
      image_version = image_version kw,
      zone = zone kw,
      idle_delete_ttl = idle_delete_ttl kw,
      auto_delete_ttl = auto_delete_ttl kw,
      master_machine_type = master_machine_type kw,
      worker_machine_type = worker_machine_type kw,
      num_preemptible_workers = num_preemptible_workers kw,
      service_account = service_account kw,
      artifact_bucket = artifact_bucket kw,
      optional_components = get_list s (optional_components kw),
      install_component_gateway = install_component_gateway kw,
      aws_conn_id = aws_conn_id kw,
      gcp_conn_id = gcp_conn_id kw\<rparr>"

definition deref_helper :: "store \<Rightarrow> list_ref DataProcHelper \<Rightarrow> string list DataProcHelper" where
  "deref_helper s self =
     \<lparr>cluster_name = cluster_name self,
      num_workers = num_workers self,
      image_version = image_version self,
      zone = zone self,
      idle_delete_ttl = idle_delete_ttl self,
      auto_delete_ttl = auto_delete_ttl self,
      master_machine_type = master_machine_type self,
      worker_machine_type = worker_machine_type self,
      num_preemptible_workers = num_preemptible_workers self,
      service_account = service_account self,
      artifact_bucket = artifact_bucket self,
      optional_components = get_list s (optional_components self),
      install_component_gateway = install_component_gateway self,
      aws_conn_id = aws_conn_id self,
      gcp_conn_id = gcp_conn_id self,
      connection = connection self\<rparr>"

definition deref_create ::
  "store \<Rightarrow> (list_ref, dict_ref) DataprocClusterCreateOperator \<Rightarrow>
   (string list, dict) DataprocClusterCreateOperator" where
  "deref_create s c =
     \<lparr>create_task_id = create_task_id c,
      create_cluster_name = create_cluster_name c,
      create_gcp_conn_id = create_gcp_conn_id c,
      create_service_account = create_service_account c,
      create_project_id = create_project_id c,
      create_storage_bucket = create_storage_bucket c,
      create_num_workers = create_num_workers c,
      create_image_version = create_image_version c,
      create_properties = get_dict s (create_properties c),
      create_zone = create_zone c,
      create_idle_delete_ttl = create_idle_delete_ttl c,
      create_auto_delete_ttl = create_auto_delete_ttl c,
      create_master_machine_type = create_master_machine_type c,
      create_worker_machine_type = create_worker_machine_type c,
      create_num_preemptible_workers = create_num_preemptible_workers c,
      create_optional_components = get_list s (create_optional_components c),
      create_install_component_gateway = create_install_component_gateway c,
      create_init_actions_uris = get_list s (create_init_actions_uris c),
      create_metadata = get_dict s (create_metadata c)\<rparr>"

definition deref_pyspark :: "store \<Rightarrow> list_ref DataProcPySparkOperator \<Rightarrow> string list DataProcPySparkOperator" where
  "deref_pyspark s p =
     \<lparr>pyspark_task_id = pyspark_task_id p,
      pyspark_job_name = pyspark_job_name p,
      pyspark_cluster_name = pyspark_cluster_name p,
      pyspark_main = pyspark_main p,
      pyspark_arguments = map_option (get_list s) (pyspark_arguments p),
      pyspark_gcp_conn_id = pyspark_gcp_conn_id p\<rparr>"

definition deref_spark :: "store \<Rightarrow> list_ref DataProcSparkOperator \<Rightarrow> string list DataProcSparkOperator" where
  "deref_spark s p =
     \<lparr>spark_cluster_name = spark_cluster_name p,
      spark_task_id = spark_task_id p,
      spark_job_name = spark_job_name p,
      spark_dataproc_spark_jars = map_option (get_list s) (spark_dataproc_spark_jars p),
      spark_main_class = spark_main_class p,
      spark_arguments = map_option (get_list s) (spark_arguments p),
      spark_gcp_conn_id = spark_gcp_conn_id p\<rparr>"

fun deref_operator :: "store \<Rightarrow> (list_ref, dict_ref) operator \<Rightarrow> (string list, dict) operator" where
  "deref_operator s (ClusterCreate c) = ClusterCreate (deref_create s c)"
| "deref_operator s (ClusterDelete d) = ClusterDelete d"
| "deref_operator s (PySpark p) = PySpark (deref_pyspark s p)"
| "deref_operator s (Spark p) = Spark (deref_spark s p)"

definition deref_task :: "store \<Rightarrow> (list_ref, dict_ref) task \<Rightarrow> (string list, dict) task" where
  "deref_task s t =
     \<lparr>operator = deref_operator s (operator t),
      upstream_task_ids = upstream_task_ids t,
      downstream_task_ids = downstream_task_ids t\<rparr>"

definition deref_dag :: "store \<Rightarrow> (list_ref, dict_ref) DAG \<Rightarrow> (string list, dict) DAG" where
  "deref_dag s dag =
     \<lparr>dag_id = dag_id dag,
      dag_default_args = map_option (get_dict s) (dag_default_args dag),
      tasks = map (deref_task s) (tasks dag)\<rparr>"

definition deref_script_kwargs ::
  "store \<Rightarrow> (list_ref, dict_ref) script_kwargs \<Rightarrow> (string list, dict) script_kwargs" where
  "deref_script_kwargs s kw =
     \<lparr>cluster_name = cluster_name kw,
      num_workers = num_workers kw,
      image_version = image_version kw,
      zone = zone kw,
      idle_delete_ttl = idle_delete_ttl kw,
      auto_delete_ttl = auto_delete_ttl kw,
      master_machine_type = master_machine_type kw,
      worker_machine_type = worker_machine_type kw,
      num_preemptible_workers = num_preemptible_workers kw,
      service_account = service_account kw,
      artifact_bucket = artifact_bucket kw,
      optional_components = get_list s (optional_components kw),
      install_component_gateway = install_component_gateway kw,
      aws_conn_id = aws_conn_id kw,
      gcp_conn_id = gcp_conn_id kw,
      parent_dag_name = parent_dag_name kw,
      dag_name = dag_name kw,
      default_args = map_option (get_dict s) (default_args kw),
      job_name = job_name kw,
      uri = uri kw,
      env = map_option (get_dict s) (env kw),
      arguments = arguments kw\<rparr>"

definition deref_pyspark_kwargs ::
  "store \<Rightarrow> (list_ref, dict_ref) pyspark_kwargs \<Rightarrow> (string list, dict) pyspark_kwargs" where
  "deref_pyspark_kwargs s kw =
     \<lparr>cluster_name = cluster_name kw,
      num_workers = num_workers kw,
      image_version = image_version kw,
      zone = zone kw,
      idle_delete_ttl = idle_delete_ttl kw,
      auto_delete_ttl = auto_delete_ttl kw,
      master_machine_type = master_machine_type kw,
      worker_machine_type = worker_machine_type kw,
      num_preemptible_workers = num_preemptible_workers kw,
      service_account = service_account kw,
      artifact_bucket = artifact_bucket kw,
      optional_components = get_list s (optional_components kw),
      install_component_gateway = install_component_gateway kw,
      aws_conn_id = aws_conn_id kw,
      gcp_conn_id = gcp_conn_id kw,
      parent_dag_name = parent_dag_name kw,
      dag_name = dag_name kw,
      default_args = map_option (get_dict s) (default_args kw),
      job_name = job_name kw,
      python_driver_code = python_driver_code kw,
      py_args = map_option (get_list s) (py_args kw)\<rparr>"

definition deref_jar_kwargs ::
  "store \<Rightarrow> (list_ref, dict_ref) jar_kwargs \<Rightarrow> (string list, dict) jar_kwargs" where
  "deref_jar_kwargs s kw =
     \<lparr>cluster_name = cluster_name kw,
      num_workers = num_workers kw,
      image_version = image_version kw,
      zone = zone kw,
      idle_delete_ttl = idle_delete_ttl kw,
      auto_delete_ttl = auto_delete_ttl kw,
      master_machine_type = master_machine_type kw,
      worker_machine_type = worker_machine_type kw,
      num_preemptible_workers = num_preemptible_workers kw,
      service_account = service_account kw,
      artifact_bucket = artifact_bucket kw,
      optional_components = get_list s (optional_components kw),
      install_component_gateway = install_component_gateway kw,
      aws_conn_id = aws_conn_id kw,
      gcp_conn_id = gcp_conn_id kw,
      parent_dag_name = parent_dag_name kw,
      dag_name = dag_name kw,
      default_args = map_option (get_dict s) (default_args kw),
      job_name = job_name kw,
      jar_urls = map_option (get_list s) (jar_urls kw),
      main_class = main_class kw,
      jar_args = map_option (get_list s) (jar_args kw)\<rparr>"

text \<open>
  The list and dict arguments of a call exist in the store the call starts from.
\<close>

definition runner_kwargs_ok :: "store \<Rightarrow> (list_ref, dict_ref, 'a) runner_kwargs_scheme \<Rightarrow> bool" where
  "runner_kwargs_ok s kw =
     (list_ok s (optional_components kw) \<and>
      (case default_args kw of None \<Rightarrow> True | Some r \<Rightarrow> dict_ok s r))"

definition script_kwargs_ok :: "store \<Rightarrow> (list_ref, dict_ref) script_kwargs \<Rightarrow> bool" where
  "script_kwargs_ok s kw =
     (runner_kwargs_ok s kw \<and> (case env kw of None \<Rightarrow> True | Some r \<Rightarrow> dict_ok s r))"

definition pyspark_kwargs_ok :: "store \<Rightarrow> (list_ref, dict_ref) pyspark_kwargs \<Rightarrow> bool" where
  "pyspark_kwargs_ok s kw =
     (runner_kwargs_ok s kw \<and> (case py_args kw of None \<Rightarrow> True | Some r \<Rightarrow> list_ok s r))"

definition jar_kwargs_ok :: "store \<Rightarrow> (list_ref, dict_ref) jar_kwargs \<Rightarrow> bool" where
  "jar_kwargs_ok s kw =
     (runner_kwargs_ok s kw \<and>
      (case jar_urls kw of None \<Rightarrow> True | Some r \<Rightarrow> list_ok s r) \<and>
      (case jar_args kw of None \<Rightarrow> True | Some r \<Rightarrow> list_ok s r))"

text \<open>
  The lists and the dicts a DAG holds: those of its operators, and its
  \<open>default_args\<close>.
\<close>

fun operator_list_refs :: "('l, 'd) operator \<Rightarrow> 'l set" where
  "operator_list_refs (ClusterCreate c) =
     {create_optional_components c, create_init_actions_uris c}"
| "operator_list_refs (ClusterDelete d) = {}"
| "operator_list_refs (PySpark p) = set_option (pyspark_arguments p)"
| "operator_list_refs (Spark p) =
     set_option (spark_dataproc_spark_jars p) \<union> set_option (spark_arguments p)"

fun operator_dict_refs :: "('l, 'd) operator \<Rightarrow> 'd set" where
  "operator_dict_refs (ClusterCreate c) = {create_properties c, create_metadata c}"
| "operator_dict_refs (ClusterDelete d) = {}"
| "operator_dict_refs (PySpark p) = {}"
| "operator_dict_refs (Spark p) = {}"

definition dag_list_refs :: "('l, 'd) DAG \<Rightarrow> 'l set" where
  "dag_list_refs dag = (\<Union>t \<in> set (tasks dag). operator_list_refs (operator t))"

definition dag_dict_refs :: "('l, 'd) DAG \<Rightarrow> 'd set" where
  "dag_dict_refs dag =
     set_option (dag_default_args dag) \<union>
     (\<Union>t \<in> set (tasks dag). operator_dict_refs (operator t))"

text \<open>
  A later store extends an earlier one when nothing handed out before has changed.
\<close>

definition extends :: "store \<Rightarrow> store \<Rightarrow> bool" where
  "extends s s' =
     (next_list s \<le> next_list s' \<and> next_dict s \<le> next_dict s' \<and>
      (\<forall>a < next_list s. list_at s' a = list_at s a) \<and>
      (\<forall>a < next_dict s. dict_at s' a = dict_at s a))"

text \<open>
  The store the DAG constructor leaves, and a later store that extends an earlier one
  but for the dicts \<open>D\<close>: nothing else handed out before has changed.
\<close>

definition dag_store :: "external \<Rightarrow> store \<Rightarrow> dict_ref option \<Rightarrow> store" where
  "dag_store ext s dargs = snd (DAG_init_ref ext s [] dargs)"

definition extends_but :: "dict_ref set \<Rightarrow> store \<Rightarrow> store \<Rightarrow> bool" where
  "extends_but D s s' =
     (next_list s \<le> next_list s' \<and> next_dict s \<le> next_dict s' \<and>
      (\<forall>a < next_list s. list_at s' a = list_at s a) \<and>
      (\<forall>a < next_dict s. DictRef a \<notin> D \<longrightarrow> dict_at s' a = dict_at s a))"

text \<open>
  The create operator of a DAG, if it holds one.
\<close>

definition create_operator ::
  "('l, 'd) DAG \<Rightarrow> ('l, 'd) DataprocClusterCreateOperator option" where
  "create_operator dag =
     (case get_task dag ''create_dataproc_cluster'' of
        None \<Rightarrow> None
      | Some t \<Rightarrow> (case operator t of ClusterCreate c \<Rightarrow> Some c | _ \<Rightarrow> None))"

text \<open>
  The script builder in steps: the complete argument list, the store once the list is
  complete, and the construction of the run operator, which displays the jar list.
\<close>

definition script_args :: "store \<Rightarrow> (list_ref, dict_ref) script_kwargs \<Rightarrow> string list" where
  "script_args s kw =
     [''gs://'' @ artifact_bucket kw @ ''/bootstrap/airflow_gcp.sh'',
      ''--job-name'', py_str (job_name kw),
      ''--uri'', py_str (uri kw),
      ''--environment'', format_envvar_ref s (env kw)]
     @ (if truthy (arguments kw) then [''--arguments'', py_str (arguments kw)] else [])"

definition script_store :: "store \<Rightarrow> (list_ref, dict_ref) script_kwargs \<Rightarrow> store" where
  "script_store s kw =
     s\<lparr>list_at := (list_at s)(next_list s := script_args s kw),
       next_list := Suc (next_list s)\<rparr>"

definition script_make_run ::
  "store \<Rightarrow> (list_ref, dict_ref) script_kwargs \<Rightarrow> store \<Rightarrow>
   (list_ref, dict_ref) operator \<times> store" where
  "script_make_run s kw s3 =
     (Spark
        \<lparr>spark_cluster_name = cluster_name kw,
         spark_task_id = ''run_script_on_dataproc'',
         spark_job_name = job_name kw,
         spark_dataproc_spark_jars = Some (ListRef (next_list s3)),
         spark_main_class = Some ''com.amazon.elasticmapreduce.scriptrunner.ScriptRunner'',
         spark_arguments = Some (ListRef (next_list s)),
         spark_gcp_conn_id = gcp_conn_id kw\<rparr>,
      s3\<lparr>list_at := (list_at s3)(next_list s3 :=
             [''gs://'' @ artifact_bucket kw @ ''/bin/script-runner.jar'']),
         next_list := Suc (next_list s3)\<rparr>)"

section \<open>Example calls on a store\<close>

text \<open>
  A caller's store: the module's, then the caller's lists \<open>["-d", "1"]\<close> and
  \<open>["gs://b/j.jar"]\<close> and its dicts \<open>{"start_date": "2020-01-01"}\<close> and \<open>{"k": "v"}\<close>.
\<close>

definition caller_store :: store where
  "caller_store =
     module_store\<lparr>list_at := (list_at module_store)
                      (4 := [''-d'', ''1''], 5 := [''gs://b/j.jar'']),
                   dict_at := (dict_at module_store)
                      (0 := [(''start_date'', ''2020-01-01'')], 1 := [(''k'', ''v'')]),
                   next_list := 6,
                   next_dict := 2\<rparr>"

text \<open>
  The script builder called twice with the same arguments, the second time in the store
  the first call left: \<open>optional_components\<close> is left to the default, \<open>default_args\<close> is
  the caller's dict with the start date and \<open>env\<close> the caller's other dict.
\<close>

definition script_example_ref :: "(list_ref, dict_ref) script_kwargs" where
  "script_example_ref =
     script_defaults_ref\<lparr>cluster_name := Some ''c'', job_name := Some ''J'',
       uri := Some ''gs://b/s.py'', default_args := Some (DictRef 0),
       env := Some (DictRef 1)\<rparr>"

definition first_build :: "(error + (list_ref, dict_ref) DAG) \<times> store" where
  "first_build = moz_dataproc_scriptrunner_ref ext_ok caller_store script_example_ref"

definition second_build :: "(error + (list_ref, dict_ref) DAG) \<times> store" where
  "second_build = moz_dataproc_scriptrunner_ref ext_ok (snd first_build) script_example_ref"

text \<open>
  Calls that pass the caller's lists as \<open>py_args\<close>, as \<open>jar_args\<close> and as \<open>jar_urls\<close>
  and its dict with the start date as \<open>default_args\<close>, each made twice.
\<close>

definition pyspark_example_ref :: "(list_ref, dict_ref) pyspark_kwargs" where
  "pyspark_example_ref =
     pyspark_defaults_ref\<lparr>cluster_name := Some ''c'',
       python_driver_code := Some ''gs://b/d.py'', py_args := Some (ListRef 4),
       default_args := Some (DictRef 0)\<rparr>"

definition jar_example_ref :: "(list_ref, dict_ref) jar_kwargs" where
  "jar_example_ref =
     jar_defaults_ref\<lparr>cluster_name := Some ''c'', jar_urls := Some (ListRef 5),
       main_class := Some ''M'', jar_args := Some (ListRef 4),
       default_args := Some (DictRef 0)\<rparr>"

definition pyspark_first_build :: "(error + (list_ref, dict_ref) DAG) \<times> store" where
  "pyspark_first_build =
     moz_dataproc_pyspark_runner_ref ext_ok caller_store pyspark_example_ref"

definition pyspark_second_build :: "(error + (list_ref, dict_ref) DAG) \<times> store" where
  "pyspark_second_build =
     moz_dataproc_pyspark_runner_ref ext_ok (snd pyspark_first_build) pyspark_example_ref"

definition jar_first_build :: "(error + (list_ref, dict_ref) DAG) \<times> store" where
  "jar_first_build = moz_dataproc_jar_runner_ref ext_ok caller_store jar_example_ref"

definition jar_second_build :: "(error + (list_ref, dict_ref) DAG) \<times> store" where
  "jar_second_build =
     moz_dataproc_jar_runner_ref ext_ok (snd jar_first_build) jar_example_ref"

section \<open>The helper and the assembly\<close>

lemma create_cluster_Inr:
  assumes "create_cluster ext h = Inr c"
  shows "create_task_id c = ''create_dataproc_cluster''"
    and "create_cluster_name c = cluster_name h"
    and "create_init_actions_uris c =
           [''gs://'' @ artifact_bucket h @ ''/bootstrap/dataproc_init.sh'']"
    and "create_optional_components c = optional_components h"
  using assms unfolding create_cluster_def
  by (simp_all split: sum.splits) auto

lemma create_cluster_succeeds:
  assumes "credentials_ok ext (aws_conn_id h)"
  shows "\<exists>c. create_cluster ext h = Inr c"
  using assms unfolding create_cluster_def credentials_ok_def
  by (auto split: option.splits sum.splits)

lemma delete_cluster_task_id:
  "delete_task_id (delete_cluster h) = ''delete_dataproc_cluster''"
  by (simp add: delete_cluster_def)

lemma helper_init_aws:
  assumes "DataProcHelper_init ext kw = Inr h"
  shows "aws_conn_id h = aws_conn_id kw"
  using assms unfolding DataProcHelper_init_def by (auto split: sum.splits)

lemma helper_kwargs_aws: "aws_conn_id (helper_kwargs kw) = aws_conn_id kw"
  and helper_kwargs_gcp: "gcp_conn_id (helper_kwargs kw) = gcp_conn_id kw"
  by (simp_all add: helper_kwargs_def)

lemma helper_init_succeeds:
  assumes "\<not> isl (GoogleCloudBaseHook_init ext (gcp_conn_id kw))"
  shows "\<exists>h. DataProcHelper_init ext kw = Inr h"
  using assms unfolding DataProcHelper_init_def by (auto split: sum.splits)

lemma link_three:
  assumes "a \<noteq> b" "b \<noteq> d" "a \<noteq> d" "task_id x = a" "task_id y = b" "task_id z = d"
  shows "tasks (set_downstream (set_downstream
            (add_task (add_task (add_task (DAG_init name dargs) x) y) z) a b) b d)
         = chain x y z"
  using assms
  by (simp add: set_downstream_def add_task_def DAG_init_def chain_def Let_def)

lemma tasks_assemble:
  assumes "assemble ext h name dargs run = Inr dag"
      and "task_id run \<noteq> ''create_dataproc_cluster''"
      and "task_id run \<noteq> ''delete_dataproc_cluster''"
  shows "\<exists>c. create_cluster ext h = Inr c \<and>
     tasks dag = chain (ClusterCreate c) run (ClusterDelete (delete_cluster h))"
proof (cases "create_cluster ext h")
  case (Inl e)
  with assms(1) show ?thesis by (simp add: assemble_def)
next
  case (Inr c)
  have ne: "''create_dataproc_cluster'' \<noteq> ''delete_dataproc_cluster''" by simp
  have cid: "create_task_id c = ''create_dataproc_cluster''"
    using Inr by (rule create_cluster_Inr(1))
  have "tasks dag = chain (ClusterCreate c) run (ClusterDelete (delete_cluster h))"
    using assms(1) Inr
      link_three [of "''create_dataproc_cluster''" "task_id run" "''delete_dataproc_cluster''"
        "ClusterCreate c" run "ClusterDelete (delete_cluster h)" name dargs]
      assms(2,3) ne cid delete_cluster_task_id [of h]
    by (auto simp: assemble_def Let_def simp del: list.inject char.inject)
  with Inr show ?thesis by simp
qed

lemma assemble_succeeds:
  assumes "create_cluster ext h = Inr c"
  shows "\<exists>dag. assemble ext h name dargs run = Inr dag"
  using assms by (simp add: assemble_def Let_def)

lemma get_task_chain_run:
  assumes "tasks dag = chain c r d" and "task_id c \<noteq> task_id r"
  shows "get_task dag (task_id r) =
     Some \<lparr>operator = r, upstream_task_ids = [task_id c],
          downstream_task_ids = [task_id d]\<rparr>"
  using assms by (simp add: get_task_def chain_def)

lemma ext_ok_gcp: "\<not> isl (GoogleCloudBaseHook_init ext_ok conn)"
  by (simp add: ext_ok_def)

lemma create_cluster_properties:
  assumes "create_cluster ext self = Inr c"
  shows "create_properties c =
     (case aws_conn_id self of
        None \<Rightarrow> []
      | Some conn \<Rightarrow>
          if conn = [] then []
          else s3_properties
                 (zip [''access.key'', ''secret.key'', ''session.token'']
                    (projr (AwsHook_get_credentials ext conn)))
                 [])"
proof (cases "aws_conn_id self")
  case None
  with assms show ?thesis by (simp add: create_cluster_def) auto
next
  case (Some conn)
  show ?thesis
  proof (cases "conn = []")
    case True
    with assms Some show ?thesis by (simp add: create_cluster_def) auto
  next
    case False
    show ?thesis
    proof (cases "AwsHook_get_credentials ext conn")
      case (Inl e)
      with assms Some False show ?thesis by (simp add: create_cluster_def)
    next
      case (Inr creds)
      with assms Some False show ?thesis by (simp add: create_cluster_def) auto
    qed
  qed
qed

lemma helper_of_fields:
  "cluster_name (helper_of kw) = cluster_name kw"
  "artifact_bucket (helper_of kw) = artifact_bucket kw"
  "aws_conn_id (helper_of kw) = aws_conn_id kw"
  by (simp_all add: helper_of_def DataProcHelper_init_def ext_ok_def)

lemma s3_properties_three:
  "map_of (s3_properties (zip [''access.key'', ''secret.key'', ''session.token''] [a, b, t]) [])
       n =
     (if n = ''core:fs.s3a.access.key'' then a
      else if n = ''core:fs.s3a.secret.key'' then b
      else if n = ''core:fs.s3a.session.token'' then t
      else None)"
  by (cases a; cases b; cases t) simp_all

lemma helper_of_builds:
  "create_cluster ext_ok (helper_of kw) = Inr (projr (create_cluster ext_ok (helper_of kw)))"
proof -
  have "credentials_ok ext_ok (aws_conn_id (helper_of kw))"
    by (simp add: credentials_ok_def ext_ok_def split: option.splits)
  from create_cluster_succeeds [OF this] show ?thesis by auto
qed

section \<open>The script builder\<close>

lemma scriptrunner_unfold:
  "moz_dataproc_scriptrunner ext kw =
     (if job_name kw = None \<or> uri kw = None \<or> cluster_name kw = None
      then Inl (AirflowException ''Please specify job_name, uri, and cluster_name.'')
      else case DataProcHelper_init ext (helper_kwargs kw) of
             Inl e \<Rightarrow> Inl e
           | Inr h \<Rightarrow> assemble ext h (py_str (parent_dag_name kw) @ ''.'' @ dag_name kw)
                        (default_args kw) (Spark (script_run kw)))"
  by (cases "truthy (arguments kw)")
     (simp_all add: moz_dataproc_scriptrunner_def Let_def script_run_def split: sum.split)

lemma scriptrunner_Inr:
  assumes "moz_dataproc_scriptrunner ext kw = Inr dag"
  shows "job_name kw \<noteq> None \<and> uri kw \<noteq> None \<and> cluster_name kw \<noteq> None \<and>
     (\<exists>h c. DataProcHelper_init ext (helper_kwargs kw) = Inr h \<and>
        create_cluster ext h = Inr c \<and>
        tasks dag = chain (ClusterCreate c) (Spark (script_run kw))
                      (ClusterDelete (delete_cluster h)))"
proof -
  from assms have req: "job_name kw \<noteq> None \<and> uri kw \<noteq> None \<and> cluster_name kw \<noteq> None"
    by (auto simp: scriptrunner_unfold split: if_splits)
  from assms req obtain h where h: "DataProcHelper_init ext (helper_kwargs kw) = Inr h"
    by (cases "DataProcHelper_init ext (helper_kwargs kw)")
       (auto simp: scriptrunner_unfold)
  have asm: "assemble ext h (py_str (parent_dag_name kw) @ ''.'' @ dag_name kw)
               (default_args kw) (Spark (script_run kw)) = Inr dag"
    using assms req h by (simp add: scriptrunner_unfold)
  have "task_id (Spark (script_run kw)) \<noteq> ''create_dataproc_cluster''"
       "task_id (Spark (script_run kw)) \<noteq> ''delete_dataproc_cluster''"
    by (simp_all add: script_run_def)
  from tasks_assemble [OF asm this] h req show ?thesis by blast
qed

lemma spark_operator_scriptrunner:
  assumes "moz_dataproc_scriptrunner ext kw = Inr dag"
  shows "spark_operator dag ''run_script_on_dataproc'' = Some (script_run kw)"
proof -
  from scriptrunner_Inr [OF assms] obtain h c where
    t: "tasks dag = chain (ClusterCreate c) (Spark (script_run kw))
                      (ClusterDelete (delete_cluster h))"
    and c: "create_cluster ext h = Inr c"
    by blast
  have id: "task_id (Spark (script_run kw)) = ''run_script_on_dataproc''"
    by (simp add: script_run_def)
  have "task_id (ClusterCreate c) \<noteq> task_id (Spark (script_run kw))"
    using create_cluster_Inr(1) [OF c] by (simp add: script_run_def)
  from get_task_chain_run [OF t this] id
  show ?thesis by (simp add: spark_operator_def)
qed

lemma scriptrunner_succeeds:
  assumes "job_name kw \<noteq> None" "uri kw \<noteq> None" "cluster_name kw \<noteq> None"
      and "\<not> isl (GoogleCloudBaseHook_init ext (gcp_conn_id kw))"
      and "credentials_ok ext (aws_conn_id kw)"
  shows "\<exists>dag. moz_dataproc_scriptrunner ext kw = Inr dag"
proof -
  from helper_init_succeeds [of ext "helper_kwargs kw"] assms(4)
  obtain h where h: "DataProcHelper_init ext (helper_kwargs kw) = Inr h"
    by (auto simp: helper_kwargs_gcp)
  from helper_init_aws [OF h] assms(5) have "credentials_ok ext (aws_conn_id h)"
    by (simp add: helper_kwargs_aws)
  from create_cluster_succeeds [OF this] obtain c where "create_cluster ext h = Inr c" ..
  from assemble_succeeds [OF this] assms(1-3) h show ?thesis
    by (simp add: scriptrunner_unfold)
qed

lemma script_example_fields:
  "job_name script_example = Some ''J''"
  "uri script_example = Some ''gs://b/s.py''"
  "env script_example = Some [(''k'', ''v'')]"
  "cluster_name script_example = Some ''c''"
  "arguments script_example = Some ''-d 1''"
  "artifact_bucket script_example = ''moz-fx-data-prod-airflow-dataproc-artifacts''"
  "aws_conn_id script_example = None"
  by (simp_all add: script_example_def script_defaults_def)

lemma script_example_builds:
  "moz_dataproc_scriptrunner ext_ok (script_example\<lparr>arguments := a\<rparr>) =
     Inr (projr (moz_dataproc_scriptrunner ext_ok (script_example\<lparr>arguments := a\<rparr>)))"
proof -
  have "\<exists>dag. moz_dataproc_scriptrunner ext_ok (script_example\<lparr>arguments := a\<rparr>) = Inr dag"
    by (rule scriptrunner_succeeds)
       (simp_all add: script_example_fields ext_ok_gcp credentials_ok_def)
  then show ?thesis by auto
qed

section \<open>The Python and the jar builder\<close>

lemma pyspark_unfold:
  "moz_dataproc_pyspark_runner ext kw =
     (if cluster_name kw = None \<or> python_driver_code kw = None
      then Inl (AirflowException ''Please specify cluster_name and/or python_driver_code.'')
      else case DataProcHelper_init ext (helper_kwargs kw) of
             Inl e \<Rightarrow> Inl e
           | Inr h \<Rightarrow> assemble ext h (py_str (parent_dag_name kw) @ ''.'' @ dag_name kw)
                        (default_args kw) (PySpark (pyspark_run kw)))"
  by (simp add: moz_dataproc_pyspark_runner_def Let_def pyspark_run_def split: sum.split)

lemma jar_unfold:
  "moz_dataproc_jar_runner ext kw =
     (if cluster_name kw = None \<or> jar_urls kw = None \<or> main_class kw = None
      then Inl (AirflowException ''Please specify cluster_name, jar_urls, and/or main_class.'')
      else case DataProcHelper_init ext (helper_kwargs kw) of
             Inl e \<Rightarrow> Inl e
           | Inr h \<Rightarrow> assemble ext h (py_str (parent_dag_name kw) @ ''.'' @ dag_name kw)
                        (default_args kw) (Spark (jar_run kw)))"
  by (simp add: moz_dataproc_jar_runner_def Let_def jar_run_def split: sum.split)

lemma pyspark_Inr:
  assumes "moz_dataproc_pyspark_runner ext kw = Inr dag"
  shows "cluster_name kw \<noteq> None \<and> python_driver_code kw \<noteq> None \<and>
     (\<exists>h c. DataProcHelper_init ext (helper_kwargs kw) = Inr h \<and>
        create_cluster ext h = Inr c \<and>
        tasks dag = chain (ClusterCreate c) (PySpark (pyspark_run kw))
                      (ClusterDelete (delete_cluster h)))"
proof -
  from assms have req: "cluster_name kw \<noteq> None \<and> python_driver_code kw \<noteq> None"
    by (auto simp: pyspark_unfold split: if_splits)
  from assms req obtain h where h: "DataProcHelper_init ext (helper_kwargs kw) = Inr h"
    by (cases "DataProcHelper_init ext (helper_kwargs kw)")
       (auto simp: pyspark_unfold)
  have asm: "assemble ext h (py_str (parent_dag_name kw) @ ''.'' @ dag_name kw)
               (default_args kw) (PySpark (pyspark_run kw)) = Inr dag"
    using assms req h by (simp add: pyspark_unfold)
  have "task_id (PySpark (pyspark_run kw)) \<noteq> ''create_dataproc_cluster''"
       "task_id (PySpark (pyspark_run kw)) \<noteq> ''delete_dataproc_cluster''"
    by (simp_all add: pyspark_run_def)
  from tasks_assemble [OF asm this] h req show ?thesis by blast
qed

lemma jar_Inr:
  assumes "moz_dataproc_jar_runner ext kw = Inr dag"
  shows "cluster_name kw \<noteq> None \<and> jar_urls kw \<noteq> None \<and> main_class kw \<noteq> None \<and>
     (\<exists>h c. DataProcHelper_init ext (helper_kwargs kw) = Inr h \<and>
        create_cluster ext h = Inr c \<and>
        tasks dag = chain (ClusterCreate c) (Spark (jar_run kw))
                      (ClusterDelete (delete_cluster h)))"
proof -
  from assms have req: "cluster_name kw \<noteq> None \<and> jar_urls kw \<noteq> None \<and> main_class kw \<noteq> None"
    by (auto simp: jar_unfold split: if_splits)
  from assms req obtain h where h: "DataProcHelper_init ext (helper_kwargs kw) = Inr h"
    by (cases "DataProcHelper_init ext (helper_kwargs kw)")
       (auto simp: jar_unfold)
  have asm: "assemble ext h (py_str (parent_dag_name kw) @ ''.'' @ dag_name kw)
               (default_args kw) (Spark (jar_run kw)) = Inr dag"
    using assms req h by (simp add: jar_unfold)
  have "task_id (Spark (jar_run kw)) \<noteq> ''create_dataproc_cluster''"
       "task_id (Spark (jar_run kw)) \<noteq> ''delete_dataproc_cluster''"
    by (simp_all add: jar_run_def)
  from tasks_assemble [OF asm this] h req show ?thesis by blast
qed

lemma runner_succeeds:
  assumes "\<not> isl (GoogleCloudBaseHook_init ext (gcp_conn_id kw))"
      and "credentials_ok ext (aws_conn_id kw)"
  shows "\<exists>h dag. DataProcHelper_init ext (helper_kwargs kw) = Inr h \<and>
           assemble ext h name dargs run = Inr dag"
proof -
  from helper_init_succeeds [of ext "helper_kwargs kw"] assms(1)
  obtain h where h: "DataProcHelper_init ext (helper_kwargs kw) = Inr h"
    by (auto simp: helper_kwargs_gcp)
  from helper_init_aws [OF h] assms(2) have "credentials_ok ext (aws_conn_id h)"
    by (simp add: helper_kwargs_aws)
  from create_cluster_succeeds [OF this] obtain c where "create_cluster ext h = Inr c" ..
  from assemble_succeeds [OF this] h show ?thesis by blast
qed

lemma pyspark_succeeds:
  assumes "cluster_name kw \<noteq> None" "python_driver_code kw \<noteq> None"
      and "\<not> isl (GoogleCloudBaseHook_init ext (gcp_conn_id kw))"
      and "credentials_ok ext (aws_conn_id kw)"
  shows "\<exists>dag. moz_dataproc_pyspark_runner ext kw = Inr dag"
  using runner_succeeds [OF assms(3,4)] assms(1,2)
  by (fastforce simp: pyspark_unfold)

lemma jar_succeeds:
  assumes "cluster_name kw \<noteq> None" "jar_urls kw \<noteq> None" "main_class kw \<noteq> None"
      and "\<not> isl (GoogleCloudBaseHook_init ext (gcp_conn_id kw))"
      and "credentials_ok ext (aws_conn_id kw)"
  shows "\<exists>dag. moz_dataproc_jar_runner ext kw = Inr dag"
  using runner_succeeds [OF assms(4,5)] assms(1-3)
  by (fastforce simp: jar_unfold)

lemma pyspark_example_builds:
  "moz_dataproc_pyspark_runner ext_ok pyspark_example =
     Inr (projr (moz_dataproc_pyspark_runner ext_ok pyspark_example))"
proof -
  have "\<exists>dag. moz_dataproc_pyspark_runner ext_ok pyspark_example = Inr dag"
    by (rule pyspark_succeeds)
       (simp_all add: pyspark_example_def pyspark_defaults_def ext_ok_gcp credentials_ok_def)
  then show ?thesis by auto
qed

lemma jar_example_builds:
  "moz_dataproc_jar_runner ext_ok (jar_example\<lparr>jar_urls := Some urls\<rparr>) =
     Inr (projr (moz_dataproc_jar_runner ext_ok (jar_example\<lparr>jar_urls := Some urls\<rparr>)))"
proof -
  have "\<exists>dag. moz_dataproc_jar_runner ext_ok (jar_example\<lparr>jar_urls := Some urls\<rparr>) = Inr dag"
    by (rule jar_succeeds)
       (simp_all add: jar_example_def jar_defaults_def ext_ok_gcp credentials_ok_def)
  then show ?thesis by auto
qed

lemma chain_shape:
  assumes "tasks dag = chain c r d"
  shows "map operator (tasks dag) = [c, r, d]"
    and "map (\<lambda>t. (task_id (operator t), upstream_task_ids t)) (tasks dag) =
           [(task_id c, []), (task_id r, [task_id c]), (task_id d, [task_id r])]"
  using assms by (simp_all add: chain_def)


section \<open>Joining strings\<close>

lemma join_append:
  "xs \<noteq> [] \<Longrightarrow> ys \<noteq> [] \<Longrightarrow> join sep (xs @ ys) = join sep xs @ sep @ join sep ys"
proof (induction sep xs rule: join.induct)
  case (1 sep)
  then show ?case by simp
next
  case (2 sep x)
  then show ?case by (cases ys) simp_all
next
  case (3 sep x y ys)
  then show ?case by simp
qed

section \<open>The builders on a store: what they return\<close>

lemma s3_properties_ref_eq:
  "s3_properties_ref zs (DictRef a) s =
     s\<lparr>dict_at := (dict_at s)(a := s3_properties zs (dict_at s a))\<rparr>"
proof (induction zs arbitrary: s)
  case Nil
  show ?case by simp
next
  case (Cons z zs)
  obtain key v where z: "z = (key, v)" by (cases z)
  show ?case
  proof (cases v)
    case None
    with z Cons show ?thesis by simp
  next
    case (Some x)
    with z Cons show ?thesis by (simp cong: if_cong)
  qed
qed

text \<open>What create_cluster_ref returns, in terms of create_cluster.\<close>

lemma create_cluster_ref_Inl:
  assumes "create_cluster_ref ext s h = (Inl e, s')"
  shows "create_cluster ext (deref_helper s h) = Inl e"
  using assms
  by (auto simp: create_cluster_ref_def create_cluster_def new_dict_def new_list_def
        deref_helper_def split: option.splits if_splits sum.splits)

lemma create_cluster_ref_Inr:
  assumes r: "create_cluster_ref ext s h = (Inr c, s')"
      and ok: "list_ok s (optional_components h)"
  shows "create_cluster ext (deref_helper s h) = Inr (deref_create s' c)"
    and "create_properties c = DictRef (next_dict s)"
    and "create_metadata c = DictRef (Suc (next_dict s))"
    and "create_init_actions_uris c = ListRef (next_list s)"
    and "create_optional_components c = optional_components h"
    and "next_list s' = Suc (next_list s)"
    and "next_dict s' = Suc (Suc (next_dict s))"
    and "\<And>a. a < next_list s \<Longrightarrow> list_at s' a = list_at s a"
    and "\<And>a. a < next_dict s \<Longrightarrow> dict_at s' a = dict_at s a"
proof -
  obtain oc where oc: "optional_components h = ListRef oc" by (cases "optional_components h")
  with ok have lt: "oc < next_list s" by (simp add: list_ok_def)
  define props where "props =
     (case aws_conn_id h of
        None \<Rightarrow> []
      | Some conn \<Rightarrow>
          if conn = [] then []
          else s3_properties
                 (zip [''access.key'', ''secret.key'', ''session.token'']
                    (projr (AwsHook_get_credentials ext conn))) [])"
  have ne: "\<not> (\<exists>conn. aws_conn_id h = Some conn \<and> conn \<noteq> [] \<and>
              isl (AwsHook_get_credentials ext conn))"
    using r by (auto simp: create_cluster_ref_def new_dict_def isl_def split: option.splits)
  have s': "s' = s\<lparr>list_at := (list_at s)(next_list s :=
                     [''gs://'' @ artifact_bucket h @ ''/bootstrap/dataproc_init.sh'']),
                 dict_at := (dict_at s)(next_dict s := props,
                     Suc (next_dict s) := [(''gcs-connector-version'', ''1.9.16''),
                        (''bigquery-connector-version'', ''0.13.6'')]),
                 next_list := Suc (next_list s),
                 next_dict := Suc (Suc (next_dict s))\<rparr>"
    using r ne unfolding props_def
    by (auto simp: create_cluster_ref_def new_dict_def new_list_def s3_properties_ref_eq
          fun_upd_twist
          split: option.splits if_splits sum.splits)
  show c1: "create_properties c = DictRef (next_dict s)"
    and c2: "create_metadata c = DictRef (Suc (next_dict s))"
    and c3: "create_init_actions_uris c = ListRef (next_list s)"
    and c4: "create_optional_components c = optional_components h"
    using r
    by (auto simp: create_cluster_ref_def new_dict_def new_list_def s3_properties_ref_eq
          split: option.splits if_splits sum.splits)
  show "next_list s' = Suc (next_list s)" "next_dict s' = Suc (Suc (next_dict s))"
    by (simp_all add: s')
  show "\<And>a. a < next_list s \<Longrightarrow> list_at s' a = list_at s a"
    by (simp add: s')
  show "\<And>a. a < next_dict s \<Longrightarrow> dict_at s' a = dict_at s a"
    by (simp add: s')
  have pure: "create_cluster ext (deref_helper s h) = Inr
          \<lparr>create_task_id = ''create_dataproc_cluster'',
           create_cluster_name = cluster_name h,
           create_gcp_conn_id = gcp_conn_id h,
           create_service_account = service_account h,
           create_project_id = project_id (connection h),
           create_storage_bucket = ''moz-fx-data-prod-dataproc-scratch'',
           create_num_workers = num_workers h,
           create_image_version = image_version h,
           create_properties = props,
           create_zone = zone h,
           create_idle_delete_ttl = idle_delete_ttl h,
           create_auto_delete_ttl = auto_delete_ttl h,
           create_master_machine_type = master_machine_type h,
           create_worker_machine_type = worker_machine_type h,
           create_num_preemptible_workers = num_preemptible_workers h,
           create_optional_components = list_at s oc,
           create_install_component_gateway = install_component_gateway h,
           create_init_actions_uris =
             [''gs://'' @ artifact_bucket h @ ''/bootstrap/dataproc_init.sh''],
           create_metadata =
             [(''gcs-connector-version'', ''1.9.16''),
              (''bigquery-connector-version'', ''0.13.6'')]\<rparr>"
    using ne oc unfolding props_def
    by (auto simp: create_cluster_def deref_helper_def isl_def
          split: option.splits sum.splits)
  have fields: "create_task_id c = ''create_dataproc_cluster''"
    "create_cluster_name c = cluster_name h"
    "create_gcp_conn_id c = gcp_conn_id h"
    "create_service_account c = service_account h"
    "create_project_id c = project_id (connection h)"
    "create_storage_bucket c = ''moz-fx-data-prod-dataproc-scratch''"
    "create_num_workers c = num_workers h"
    "create_image_version c = image_version h"
    "create_zone c = zone h"
    "create_idle_delete_ttl c = idle_delete_ttl h"
    "create_auto_delete_ttl c = auto_delete_ttl h"
    "create_master_machine_type c = master_machine_type h"
    "create_worker_machine_type c = worker_machine_type h"
    "create_num_preemptible_workers c = num_preemptible_workers h"
    "create_install_component_gateway c = install_component_gateway h"
    using r
    by (auto simp: create_cluster_ref_def new_dict_def new_list_def s3_properties_ref_eq
          split: option.splits if_splits sum.splits)
  show "create_cluster ext (deref_helper s h) = Inr (deref_create s' c)"
    unfolding pure using lt
    by (simp add: deref_create_def fields c1 c2 c3 c4 oc s')
qed

section \<open>Stores that extend one another\<close>

lemma extends_get_list: "extends s s' \<Longrightarrow> list_ok s r \<Longrightarrow> get_list s' r = get_list s r"
  by (cases r) (simp add: extends_def list_ok_def)

lemma extends_get_dict: "extends s s' \<Longrightarrow> dict_ok s r \<Longrightarrow> get_dict s' r = get_dict s r"
  by (cases r) (simp add: extends_def dict_ok_def)

lemma extends_list_ok: "extends s s' \<Longrightarrow> list_ok s r \<Longrightarrow> list_ok s' r"
  by (cases r) (simp add: extends_def list_ok_def)

lemma extends_deref_operator:
  assumes "extends s s'"
      and "\<forall>r \<in> operator_list_refs x. list_ok s r"
      and "\<forall>r \<in> operator_dict_refs x. dict_ok s r"
  shows "deref_operator s' x = deref_operator s x"
proof (cases x)
  case (ClusterCreate c)
  with assms show ?thesis
    by (simp add: deref_create_def extends_get_list extends_get_dict)
next
  case (ClusterDelete d)
  then show ?thesis by simp
next
  case (PySpark p)
  with assms show ?thesis
    by (cases "pyspark_arguments p") (simp_all add: deref_pyspark_def extends_get_list)
next
  case (Spark p)
  with assms show ?thesis
    by (cases "spark_dataproc_spark_jars p"; cases "spark_arguments p")
       (simp_all add: deref_spark_def extends_get_list)
qed

lemma task_id_deref_operator [simp]: "task_id (deref_operator s x) = task_id x"
  by (cases x) (simp_all add: deref_create_def deref_pyspark_def deref_spark_def)

lemma deref_chain:
  "map (deref_task s) (chain c r d) =
     chain (deref_operator s c) (deref_operator s r) (deref_operator s d)"
  by (simp add: chain_def deref_task_def)

section \<open>The DAG constructor on a store\<close>

lemma DAG_init_ref_eq:
  "DAG_init_ref ext s name dargs = (DAG_init name dargs, dag_store ext s dargs)"
  by (simp add: DAG_init_ref_def dag_store_def)

lemma dag_store_eq:
  "dag_store ext s None = s"
  "dag_store ext s (Some (DictRef a)) =
     s\<lparr>dict_at := (dict_at s)(a := DAG_init_default_args ext (dict_at s a))\<rparr>"
  by (simp_all add: dag_store_def DAG_init_ref_def)

lemma dag_store_simps:
  "next_list (dag_store ext s dargs) = next_list s"
  "next_dict (dag_store ext s dargs) = next_dict s"
  "list_at (dag_store ext s dargs) = list_at s"
  "get_list (dag_store ext s dargs) r = get_list s r"
  "list_ok (dag_store ext s dargs) r = list_ok s r"
  "dict_ok (dag_store ext s dargs) x = dict_ok s x"
proof -
  have "dargs = None \<or> (\<exists>a. dargs = Some (DictRef a))"
    by (cases dargs) (simp, metis dict_ref.exhaust)
  then show "next_list (dag_store ext s dargs) = next_list s"
    "next_dict (dag_store ext s dargs) = next_dict s"
    "list_at (dag_store ext s dargs) = list_at s"
    "get_list (dag_store ext s dargs) r = get_list s r"
    "list_ok (dag_store ext s dargs) r = list_ok s r"
    "dict_ok (dag_store ext s dargs) x = dict_ok s x"
    by (cases r; cases x; auto simp: dag_store_eq list_ok_def dict_ok_def)+
qed

lemma extends_extends_but: "extends s s' \<Longrightarrow> extends_but D s s'"
  by (simp add: extends_def extends_but_def)

lemma extends_but_refl: "extends_but D s s"
  by (simp add: extends_but_def)

lemma extends_but_trans: "extends_but D s s1 \<Longrightarrow> extends_but D s1 s2 \<Longrightarrow> extends_but D s s2"
  by (auto simp: extends_but_def)

lemma dag_store_extends_but: "extends_but (set_option dargs) s (dag_store ext s dargs)"
proof -
  have "dargs = None \<or> (\<exists>a. dargs = Some (DictRef a))"
    by (cases dargs) (simp, metis dict_ref.exhaust)
  then show ?thesis by (auto simp: dag_store_eq extends_but_def split: if_splits)
qed

lemma extends_but_get_list:
  "extends_but D s s' \<Longrightarrow> list_ok s r \<Longrightarrow> get_list s' r = get_list s r"
  by (cases r) (simp add: extends_but_def list_ok_def)

lemma extends_but_get_dict:
  "extends_but D s s' \<Longrightarrow> dict_ok s r \<Longrightarrow> r \<notin> D \<Longrightarrow> get_dict s' r = get_dict s r"
  by (cases r) (simp add: extends_but_def dict_ok_def)

lemma extends_but_list_ok: "extends_but D s s' \<Longrightarrow> list_ok s r \<Longrightarrow> list_ok s' r"
  by (cases r) (simp add: extends_but_def list_ok_def)

lemma extends_but_dict_ok: "extends_but D s s' \<Longrightarrow> dict_ok s r \<Longrightarrow> dict_ok s' r"
  by (cases r) (simp add: extends_but_def dict_ok_def)

lemma extends_but_deref_operator:
  assumes "extends_but D s s'"
      and "\<forall>r \<in> operator_list_refs x. list_ok s r"
      and "\<forall>r \<in> operator_dict_refs x. dict_ok s r \<and> r \<notin> D"
  shows "deref_operator s' x = deref_operator s x"
proof (cases x)
  case (ClusterCreate c)
  with assms show ?thesis
    by (simp add: deref_create_def extends_but_get_list extends_but_get_dict)
next
  case (ClusterDelete d)
  then show ?thesis by simp
next
  case (PySpark p)
  with assms show ?thesis
    by (cases "pyspark_arguments p") (simp_all add: deref_pyspark_def extends_but_get_list)
next
  case (Spark p)
  with assms show ?thesis
    by (cases "spark_dataproc_spark_jars p"; cases "spark_arguments p")
       (simp_all add: deref_spark_def extends_but_get_list)
qed

text \<open>
  Reading a DAG later, when only dicts its tasks do not hold have changed: the tasks
  read the same, \<open>default_args\<close> is read as it then is.
\<close>

lemma extends_but_deref_dag:
  assumes "extends_but D s s'"
      and "\<forall>r \<in> dag_list_refs d. list_ok s r"
      and "\<forall>t \<in> set (tasks d). \<forall>r \<in> operator_dict_refs (operator t). dict_ok s r \<and> r \<notin> D"
  shows "deref_dag s' d =
     (deref_dag s d)\<lparr>dag_default_args := map_option (get_dict s') (dag_default_args d)\<rparr>"
proof -
  have "map (deref_task s') (tasks d) = map (deref_task s) (tasks d)"
  proof (rule map_cong [OF refl])
    fix t assume t: "t \<in> set (tasks d)"
    with assms(2,3) have "\<forall>r \<in> operator_list_refs (operator t). list_ok s r"
      "\<forall>r \<in> operator_dict_refs (operator t). dict_ok s r \<and> r \<notin> D"
      by (auto simp: dag_list_refs_def)
    from extends_but_deref_operator [OF assms(1) this]
    show "deref_task s' t = deref_task s t" by (simp add: deref_task_def)
  qed
  then show ?thesis by (simp add: deref_dag_def)
qed

lemma dag_store_deref_operator:
  assumes "operator_dict_refs x = {}"
  shows "deref_operator (dag_store ext s dargs) x = deref_operator s x"
proof (cases x)
  case (ClusterCreate c)
  with assms show ?thesis by simp
next
  case (ClusterDelete d)
  then show ?thesis by simp
next
  case (PySpark p)
  then show ?thesis by (simp add: deref_pyspark_def dag_store_simps cong: map_option_cong)
next
  case (Spark p)
  then show ?thesis by (simp add: deref_spark_def dag_store_simps cong: map_option_cong)
qed

lemma dag_store_deref_helper: "deref_helper (dag_store ext s dargs) h = deref_helper s h"
  by (simp add: deref_helper_def dag_store_simps)

section \<open>The assembly, on values and on a store\<close>

lemma link_three_dag:
  assumes "a \<noteq> b" "b \<noteq> d" "a \<noteq> d" "task_id x = a" "task_id y = b" "task_id z = d"
  shows "set_downstream (set_downstream
            (add_task (add_task (add_task (DAG_init name dargs) x) y) z) a b) b d
         = \<lparr>dag_id = name, dag_default_args = dargs, tasks = chain x y z\<rparr>"
  using assms
  by (simp add: set_downstream_def add_task_def DAG_init_def chain_def Let_def)

lemma assemble_unfold:
  assumes "task_id run \<noteq> ''create_dataproc_cluster''"
      and "task_id run \<noteq> ''delete_dataproc_cluster''"
  shows "assemble ext h name dargs run =
     (case create_cluster ext h of
        Inl e \<Rightarrow> Inl e
      | Inr c \<Rightarrow> Inr \<lparr>dag_id = name, dag_default_args = dargs,
                      tasks = chain (ClusterCreate c) run (ClusterDelete (delete_cluster h))\<rparr>)"
proof (cases "create_cluster ext h")
  case (Inl e)
  then show ?thesis by (simp add: assemble_def)
next
  case (Inr c)
  have ne: "''create_dataproc_cluster'' \<noteq> ''delete_dataproc_cluster''" by simp
  have cid: "create_task_id c = ''create_dataproc_cluster''"
    using Inr by (rule create_cluster_Inr(1))
  show ?thesis
    using Inr
      link_three_dag [of "''create_dataproc_cluster''" "task_id run" "''delete_dataproc_cluster''"
        "ClusterCreate c" run "ClusterDelete (delete_cluster h)" name dargs]
      assms ne cid delete_cluster_task_id [of h]
    by (auto simp: assemble_def Let_def simp del: list.inject char.inject)
qed

text \<open>\<open>default_args\<close> is handed to the DAG and used for nothing else.\<close>

lemma assemble_default_args:
  assumes "task_id run \<noteq> ''create_dataproc_cluster''"
      and "task_id run \<noteq> ''delete_dataproc_cluster''"
  shows "assemble ext h name x run =
     map_sum id (\<lambda>d. d\<lparr>dag_default_args := x\<rparr>) (assemble ext h name y run)"
  by (simp add: assemble_unfold [OF assms] split: sum.split)

lemma scriptrunner_default_args:
  "moz_dataproc_scriptrunner ext (kw\<lparr>default_args := x\<rparr>) =
     map_sum id (\<lambda>d. d\<lparr>dag_default_args := x\<rparr>) (moz_dataproc_scriptrunner ext kw)"
proof -
  have pne: "task_id (Spark (script_run kw)) \<noteq> ''create_dataproc_cluster''"
    "task_id (Spark (script_run kw)) \<noteq> ''delete_dataproc_cluster''"
    by (simp_all add: script_run_def)
  have "script_run (kw\<lparr>default_args := x\<rparr>) = script_run kw"
    by (simp add: script_run_def)
  moreover have "helper_kwargs (kw\<lparr>default_args := x\<rparr>) = helper_kwargs kw"
    by (simp add: helper_kwargs_def)
  ultimately show ?thesis
    by (simp add: scriptrunner_unfold assemble_unfold [OF pne] split: sum.split)
qed

lemma pyspark_default_args:
  "moz_dataproc_pyspark_runner ext (kw\<lparr>default_args := x\<rparr>) =
     map_sum id (\<lambda>d. d\<lparr>dag_default_args := x\<rparr>) (moz_dataproc_pyspark_runner ext kw)"
proof -
  have pne: "task_id (PySpark (pyspark_run kw)) \<noteq> ''create_dataproc_cluster''"
    "task_id (PySpark (pyspark_run kw)) \<noteq> ''delete_dataproc_cluster''"
    by (simp_all add: pyspark_run_def)
  have "pyspark_run (kw\<lparr>default_args := x\<rparr>) = pyspark_run kw"
    by (simp add: pyspark_run_def)
  moreover have "helper_kwargs (kw\<lparr>default_args := x\<rparr>) = helper_kwargs kw"
    by (simp add: helper_kwargs_def)
  ultimately show ?thesis
    by (simp add: pyspark_unfold assemble_unfold [OF pne] split: sum.split)
qed

lemma jar_default_args:
  "moz_dataproc_jar_runner ext (kw\<lparr>default_args := x\<rparr>) =
     map_sum id (\<lambda>d. d\<lparr>dag_default_args := x\<rparr>) (moz_dataproc_jar_runner ext kw)"
proof -
  have pne: "task_id (Spark (jar_run kw)) \<noteq> ''create_dataproc_cluster''"
    "task_id (Spark (jar_run kw)) \<noteq> ''delete_dataproc_cluster''"
    by (simp_all add: jar_run_def)
  have "jar_run (kw\<lparr>default_args := x\<rparr>) = jar_run kw"
    by (simp add: jar_run_def)
  moreover have "helper_kwargs (kw\<lparr>default_args := x\<rparr>) = helper_kwargs kw"
    by (simp add: helper_kwargs_def)
  ultimately show ?thesis
    by (simp add: jar_unfold assemble_unfold [OF pne] split: sum.split)
qed

lemma create_cluster_ref_task_id:
  assumes "create_cluster_ref ext s h = (Inr c, s')"
  shows "create_task_id c = ''create_dataproc_cluster''"
  using assms
  by (auto simp: create_cluster_ref_def new_dict_def new_list_def s3_properties_ref_eq
        split: option.splits if_splits sum.splits)

lemma assemble_ref_unfold:
  assumes "\<And>s1. task_id (fst (make_run s1)) = rid"
      and "rid \<noteq> ''create_dataproc_cluster''"
      and "rid \<noteq> ''delete_dataproc_cluster''"
  shows "assemble_ref ext s h name dargs make_run =
     (case create_cluster_ref ext (dag_store ext s dargs) h of
        (Inl e, s1) \<Rightarrow> (Inl e, s1)
      | (Inr c, s1) \<Rightarrow>
          (Inr \<lparr>dag_id = name, dag_default_args = dargs,
                tasks = chain (ClusterCreate c) (fst (make_run s1))
                          (ClusterDelete (delete_cluster h))\<rparr>,
           snd (make_run s1)))"
proof (cases "create_cluster_ref ext (dag_store ext s dargs) h")
  case (Pair r s1)
  show ?thesis
  proof (cases r)
    case (Inl e)
    with Pair show ?thesis by (simp add: assemble_ref_def DAG_init_ref_eq)
  next
    case (Inr c)
    have ne: "''create_dataproc_cluster'' \<noteq> ''delete_dataproc_cluster''" by simp
    have cid: "create_task_id c = ''create_dataproc_cluster''"
      using Pair Inr create_cluster_ref_task_id by blast
    obtain run s2 where mr: "make_run s1 = (run, s2)" by (cases "make_run s1")
    with assms(1) [of s1] have rid: "task_id run = rid" by simp
    show ?thesis
      using Pair Inr mr rid
        link_three_dag [of "''create_dataproc_cluster''" rid "''delete_dataproc_cluster''"
          "ClusterCreate c" run "ClusterDelete (delete_cluster h)" name dargs]
        assms(2,3) ne cid delete_cluster_task_id [of h]
      by (auto simp: assemble_ref_def DAG_init_ref_eq Let_def
            simp del: list.inject char.inject)
  qed
qed

lemma create_cluster_ref_extends:
  assumes "create_cluster_ref ext s h = (r, s')"
  shows "extends s s'"
  using assms
  by (auto simp: create_cluster_ref_def new_dict_def new_list_def s3_properties_ref_eq
        extends_def split: option.splits if_splits sum.splits)

section \<open>The script builder on a store\<close>

lemma helper_init_ref:
  "DataProcHelper_init ext (helper_kwargs (deref_script_kwargs s kw)) =
     (case DataProcHelper_init ext (helper_kwargs kw) of
        Inl e \<Rightarrow> Inl e
      | Inr h \<Rightarrow> Inr (deref_helper s h))"
  by (simp add: DataProcHelper_init_def helper_kwargs_def deref_script_kwargs_def
        deref_helper_def split: sum.splits)

lemma helper_init_optional_components:
  assumes "DataProcHelper_init ext (helper_kwargs kw) = Inr h"
  shows "optional_components h = optional_components kw"
  using assms
  by (auto simp: DataProcHelper_init_def helper_kwargs_def split: sum.splits)

lemma delete_cluster_deref: "delete_cluster (deref_helper s h) = delete_cluster h"
  by (simp add: delete_cluster_def deref_helper_def)

lemma format_envvar_ref_eq:
  "format_envvar_ref s (env kw) = format_envvar (env (deref_script_kwargs s kw))"
  by (cases "env kw")
     (simp_all add: format_envvar_ref_def format_envvar_def deref_script_kwargs_def)

lemma scriptrunner_ref_unfold:
  "moz_dataproc_scriptrunner_ref ext s kw =
     (if job_name kw = None \<or> uri kw = None \<or> cluster_name kw = None
      then (Inl (AirflowException ''Please specify job_name, uri, and cluster_name.''), s)
      else case DataProcHelper_init ext (helper_kwargs kw) of
             Inl e \<Rightarrow> (Inl e, s)
           | Inr h \<Rightarrow> assemble_ref ext (script_store s kw) h
                        (py_str (parent_dag_name kw) @ ''.'' @ dag_name kw)
                        (default_args kw) (script_make_run s kw))"
proof -
  have "(\<lambda>s3. case new_list s3 [''gs://'' @ artifact_bucket kw @ ''/bin/script-runner.jar''] of
          (jars, s4) \<Rightarrow>
            (Spark
               \<lparr>spark_cluster_name = cluster_name kw,
                spark_task_id = ''run_script_on_dataproc'',
                spark_job_name = job_name kw,
                spark_dataproc_spark_jars = Some jars,
                spark_main_class =
                  Some ''com.amazon.elasticmapreduce.scriptrunner.ScriptRunner'',
                spark_arguments = Some (ListRef (next_list s)),
                spark_gcp_conn_id = gcp_conn_id kw\<rparr>, s4)) = script_make_run s kw"
    by (simp add: fun_eq_iff new_list_def script_make_run_def)
  moreover have "(if truthy (arguments kw)
       then set_list
              (s\<lparr>list_at := (list_at s)(next_list s :=
                    [''gs://'' @ artifact_bucket kw @ ''/bootstrap/airflow_gcp.sh'',
                     ''--job-name'', py_str (job_name kw),
                     ''--uri'', py_str (uri kw),
                     ''--environment'', format_envvar_ref s (env kw)]),
                 next_list := Suc (next_list s)\<rparr>)
              (ListRef (next_list s))
              (get_list
                 (s\<lparr>list_at := (list_at s)(next_list s :=
                    [''gs://'' @ artifact_bucket kw @ ''/bootstrap/airflow_gcp.sh'',
                     ''--job-name'', py_str (job_name kw),
                     ''--uri'', py_str (uri kw),
                     ''--environment'', format_envvar_ref s (env kw)]),
                 next_list := Suc (next_list s)\<rparr>)
                 (ListRef (next_list s)) @ [''--arguments'', py_str (arguments kw)])
       else s\<lparr>list_at := (list_at s)(next_list s :=
                    [''gs://'' @ artifact_bucket kw @ ''/bootstrap/airflow_gcp.sh'',
                     ''--job-name'', py_str (job_name kw),
                     ''--uri'', py_str (uri kw),
                     ''--environment'', format_envvar_ref s (env kw)]),
                 next_list := Suc (next_list s)\<rparr>) = script_store s kw"
    by (simp add: script_store_def script_args_def)
  ultimately show ?thesis
    by (simp add: moz_dataproc_scriptrunner_ref_def Let_def new_list_def
          cong: sum.case_cong if_cong)
qed

lemma script_store_extends: "extends s (script_store s kw)"
  by (simp add: extends_def script_store_def)

lemma script_make_run_extends: "extends s3 (snd (script_make_run s kw s3))"
  by (simp add: extends_def script_make_run_def)

lemma deref_script_kwargs_fields:
  "job_name (deref_script_kwargs s kw) = job_name kw"
  "uri (deref_script_kwargs s kw) = uri kw"
  "cluster_name (deref_script_kwargs s kw) = cluster_name kw"
  "parent_dag_name (deref_script_kwargs s kw) = parent_dag_name kw"
  "dag_name (deref_script_kwargs s kw) = dag_name kw"
  "arguments (deref_script_kwargs s kw) = arguments kw"
  "artifact_bucket (deref_script_kwargs s kw) = artifact_bucket kw"
  "gcp_conn_id (deref_script_kwargs s kw) = gcp_conn_id kw"
  "default_args (deref_script_kwargs s kw) = map_option (get_dict s) (default_args kw)"
  by (simp_all add: deref_script_kwargs_def)

lemma script_run_deref:
  assumes "list_at s4 (next_list s) = script_args s kw"
      and "list_at s4 n = [''gs://'' @ artifact_bucket kw @ ''/bin/script-runner.jar'']"
  shows "deref_spark s4
           \<lparr>spark_cluster_name = cluster_name kw,
            spark_task_id = ''run_script_on_dataproc'',
            spark_job_name = job_name kw,
            spark_dataproc_spark_jars = Some (ListRef n),
            spark_main_class = Some ''com.amazon.elasticmapreduce.scriptrunner.ScriptRunner'',
            spark_arguments = Some (ListRef (next_list s)),
            spark_gcp_conn_id = gcp_conn_id kw\<rparr>
         = script_run (deref_script_kwargs s kw)"
  using assms
  by (simp add: deref_spark_def script_run_def script_args_def deref_script_kwargs_fields
        format_envvar_ref_eq)

lemma scriptrunner_ref_refines:
  assumes call: "moz_dataproc_scriptrunner_ref ext s kw = (r, s')"
      and ok: "script_kwargs_ok s kw"
  shows "map_sum id (deref_dag s') r =
           moz_dataproc_scriptrunner ext
             ((deref_script_kwargs s kw)
                \<lparr>default_args := map_option (get_dict s') (default_args kw)\<rparr>)"
    and "extends_but (set_option (default_args kw)) s s'"
    and "\<And>d. r = Inr d \<Longrightarrow>
           dag_list_refs d =
             {optional_components kw, ListRef (next_list s), ListRef (Suc (next_list s)),
              ListRef (Suc (Suc (next_list s)))} \<and>
           dag_dict_refs d =
             set_option (default_args kw) \<union>
             {DictRef (next_dict s), DictRef (Suc (next_dict s))} \<and>
           (\<Union>t \<in> set (tasks d). operator_dict_refs (operator t)) =
             {DictRef (next_dict s), DictRef (Suc (next_dict s))} \<and>
           dag_default_args d = default_args kw \<and>
           next_list s' = Suc (Suc (Suc (next_list s))) \<and>
           next_dict s' = Suc (Suc (next_dict s))"
proof -
  let ?kwp = "deref_script_kwargs s kw"
  let ?D = "set_option (default_args kw)"
  let ?name = "py_str (parent_dag_name kw) @ ''.'' @ dag_name kw"
  have oc: "list_ok s (optional_components kw)"
    using ok by (simp add: script_kwargs_ok_def runner_kwargs_ok_def)
  have rid: "\<And>s1. task_id (fst (script_make_run s kw s1)) = ''run_script_on_dataproc''"
    by (simp add: script_make_run_def)
  have rne: "''run_script_on_dataproc'' \<noteq> ''create_dataproc_cluster''"
    "''run_script_on_dataproc'' \<noteq> ''delete_dataproc_cluster''"
    by simp_all
  have pne: "task_id (Spark (script_run ?kwp)) \<noteq> ''create_dataproc_cluster''"
    "task_id (Spark (script_run ?kwp)) \<noteq> ''delete_dataproc_cluster''"
    by (simp_all add: script_run_def)
  have "map_sum id (deref_dag s') r =
          map_sum id (\<lambda>d. d\<lparr>dag_default_args := map_option (get_dict s') (default_args kw)\<rparr>)
            (moz_dataproc_scriptrunner ext ?kwp) \<and>
        extends_but ?D s s' \<and>
        (\<forall>d. r = Inr d \<longrightarrow>
           dag_list_refs d =
             {optional_components kw, ListRef (next_list s), ListRef (Suc (next_list s)),
              ListRef (Suc (Suc (next_list s)))} \<and>
           dag_dict_refs d =
             set_option (default_args kw) \<union>
             {DictRef (next_dict s), DictRef (Suc (next_dict s))} \<and>
           (\<Union>t \<in> set (tasks d). operator_dict_refs (operator t)) =
             {DictRef (next_dict s), DictRef (Suc (next_dict s))} \<and>
           dag_default_args d = default_args kw \<and>
           next_list s' = Suc (Suc (Suc (next_list s))) \<and>
           next_dict s' = Suc (Suc (next_dict s)))"
  proof (cases "job_name kw = None \<or> uri kw = None \<or> cluster_name kw = None")
    case True
    note missing = this
    with call have "r = Inl (AirflowException ''Please specify job_name, uri, and cluster_name.'')"
      "s' = s"
      by (simp_all add: scriptrunner_ref_unfold)
    with missing show ?thesis
      by (simp add: scriptrunner_unfold deref_script_kwargs_fields extends_but_refl)
  next
    case False
    note req = this
    show ?thesis
    proof (cases "DataProcHelper_init ext (helper_kwargs kw)")
      case (Inl e)
      note nohelper = req this
      with call have "r = Inl e" "s' = s"
        by (simp_all add: scriptrunner_ref_unfold)
      with nohelper show ?thesis
        by (auto simp: scriptrunner_unfold deref_script_kwargs_fields extends_but_refl
              helper_init_ref)
    next
      case (Inr h)
      note helper = req this
      let ?s2 = "dag_store ext (script_store s kw) (default_args kw)"
      have e2: "extends_but ?D s ?s2"
        using extends_extends_but [OF script_store_extends] dag_store_extends_but
          extends_but_trans by blast
      have hoc: "optional_components h = optional_components kw"
        using helper(2) by (rule helper_init_optional_components)
      have oc2: "list_ok ?s2 (optional_components h)"
        using extends_but_list_ok [OF e2 oc] hoc by simp
      have dh: "deref_helper ?s2 h = deref_helper s h"
        using oc hoc by (simp add: deref_helper_def extends_but_get_list [OF e2])
      have pure: "moz_dataproc_scriptrunner ext ?kwp =
          (case create_cluster ext (deref_helper s h) of
             Inl e \<Rightarrow> Inl e
           | Inr c \<Rightarrow> Inr \<lparr>dag_id = ?name,
                  dag_default_args = map_option (get_dict s) (default_args kw),
                  tasks = chain (ClusterCreate c) (Spark (script_run ?kwp))
                            (ClusterDelete (delete_cluster h))\<rparr>)"
        using helper
        by (auto simp: scriptrunner_unfold deref_script_kwargs_fields helper_init_ref
              assemble_unfold [OF pne] delete_cluster_deref cong: sum.case_cong)
      obtain rc s3 where cc: "create_cluster_ref ext ?s2 h = (rc, s3)"
        by (cases "create_cluster_ref ext ?s2 h")
      have e3: "extends ?s2 s3" using cc by (rule create_cluster_ref_extends)
      have refc: "moz_dataproc_scriptrunner_ref ext s kw =
          (case rc of
             Inl e \<Rightarrow> (Inl e, s3)
           | Inr c \<Rightarrow>
               (Inr \<lparr>dag_id = ?name, dag_default_args = default_args kw,
                     tasks = chain (ClusterCreate c) (fst (script_make_run s kw s3))
                               (ClusterDelete (delete_cluster h))\<rparr>,
                snd (script_make_run s kw s3)))"
        using helper cc
        by (auto simp: scriptrunner_ref_unfold assemble_ref_unfold [OF rid rne]
              split: sum.splits)
      show ?thesis
      proof (cases rc)
        case (Inl e)
        with refc call have r: "r = Inl e" "s' = s3" by simp_all
        from cc Inl have "create_cluster ext (deref_helper ?s2 h) = Inl e"
          using create_cluster_ref_Inl by blast
        with dh pure r extends_but_trans [OF e2 extends_extends_but [OF e3]]
        show ?thesis by simp
      next
        case (Inr c)
        let ?s4 = "snd (script_make_run s kw s3)"
        let ?run = "fst (script_make_run s kw s3)"
        let ?d = "\<lparr>dag_id = ?name, dag_default_args = default_args kw,
                     tasks = chain (ClusterCreate c) ?run
                               (ClusterDelete (delete_cluster h))\<rparr>"
        from refc call Inr have r: "r = Inr ?d" "s' = ?s4" by simp_all
        have ccr: "create_cluster_ref ext ?s2 h = (Inr c, s3)" using cc Inr by simp
        note cf = create_cluster_ref_Inr [OF ccr oc2]
        have e4: "extends s3 ?s4" by (rule script_make_run_extends)
        have e: "extends_but ?D s ?s4"
          using e2 extends_extends_but [OF e3] extends_extends_but [OF e4] extends_but_trans
          by blast
        have nl2: "next_list ?s2 = Suc (next_list s)" "next_dict ?s2 = next_dict s"
          by (simp_all add: script_store_def dag_store_simps)
        have cp: "create_cluster ext (deref_helper s h) = Inr (deref_create s3 c)"
          using cf(1) dh by simp
        have crefs: "\<forall>r \<in> operator_list_refs (ClusterCreate c). list_ok s3 r"
          "\<forall>r \<in> operator_dict_refs (ClusterCreate c). dict_ok s3 r"
          using cf(2-7) extends_list_ok [OF e3 oc2]
          by (auto simp: list_ok_def dict_ok_def)
        have dc: "deref_create ?s4 c = deref_create s3 c"
          using extends_deref_operator [OF e4 crefs] by simp
        have a3: "list_at s3 (next_list s) = script_args s kw"
          using cf(8) [of "next_list s"] nl2 by (simp add: script_store_def dag_store_simps)
        have run: "deref_operator ?s4 ?run = Spark (script_run ?kwp)"
          using script_run_deref [of ?s4 s kw "next_list s3"] a3 cf(6) nl2
          by (simp add: script_make_run_def)
        have "deref_dag ?s4 ?d =
            \<lparr>dag_id = ?name,
              dag_default_args = map_option (get_dict ?s4) (default_args kw),
              tasks = chain (ClusterCreate (deref_create s3 c)) (Spark (script_run ?kwp))
                        (ClusterDelete (delete_cluster h))\<rparr>"
          using run dc
          by (simp add: deref_dag_def deref_chain)
        with pure cp r have 1: "map_sum id (deref_dag s') r =
            map_sum id (\<lambda>d. d\<lparr>dag_default_args := map_option (get_dict s') (default_args kw)\<rparr>)
              (moz_dataproc_scriptrunner ext ?kwp)"
          by simp
        have 2: "dag_list_refs ?d =
             {optional_components kw, ListRef (next_list s), ListRef (Suc (next_list s)),
              ListRef (Suc (Suc (next_list s)))}"
          using cf(4,5,6) hoc nl2
          by (auto simp: dag_list_refs_def chain_def script_make_run_def)
        have 5: "(\<Union>t \<in> set (tasks ?d). operator_dict_refs (operator t)) =
             {DictRef (next_dict s), DictRef (Suc (next_dict s))}"
          using cf(2,3) nl2
          by (auto simp: chain_def script_make_run_def)
        have 3: "dag_dict_refs ?d =
             set_option (default_args kw) \<union>
             {DictRef (next_dict s), DictRef (Suc (next_dict s))}"
          using cf(2,3) nl2
          by (auto simp: dag_dict_refs_def chain_def script_make_run_def)
        have 4: "next_list ?s4 = Suc (Suc (Suc (next_list s)))"
          "next_dict ?s4 = Suc (Suc (next_dict s))"
          using cf(6,7) nl2 by (simp_all add: script_make_run_def)
        from 1 2 3 4 5 e r show ?thesis by simp
      qed
    qed
  qed
  then show "map_sum id (deref_dag s') r =
           moz_dataproc_scriptrunner ext
             ((deref_script_kwargs s kw)
                \<lparr>default_args := map_option (get_dict s') (default_args kw)\<rparr>)"
    and "extends_but (set_option (default_args kw)) s s'"
    and "\<And>d. r = Inr d \<Longrightarrow>
           dag_list_refs d =
             {optional_components kw, ListRef (next_list s), ListRef (Suc (next_list s)),
              ListRef (Suc (Suc (next_list s)))} \<and>
           dag_dict_refs d =
             set_option (default_args kw) \<union>
             {DictRef (next_dict s), DictRef (Suc (next_dict s))} \<and>
           (\<Union>t \<in> set (tasks d). operator_dict_refs (operator t)) =
             {DictRef (next_dict s), DictRef (Suc (next_dict s))} \<and>
           dag_default_args d = default_args kw \<and>
           next_list s' = Suc (Suc (Suc (next_list s))) \<and>
           next_dict s' = Suc (Suc (next_dict s))"
    by (simp_all add: scriptrunner_default_args)
qed

text \<open>
  The arguments of a call read later, when of the dicts only that of \<open>default_args\<close>
  may have changed and \<open>env\<close> is another dict.
\<close>

lemma deref_script_kwargs_extends:
  assumes "extends_but (set_option (default_args kw)) s s'" and "script_kwargs_ok s kw"
      and "env kw = None \<or> env kw \<noteq> default_args kw"
  shows "deref_script_kwargs s' kw =
     (deref_script_kwargs s kw)
        \<lparr>default_args := map_option (get_dict s') (default_args kw)\<rparr>"
proof -
  from assms(1,2)
  have "get_list s' (optional_components kw) = get_list s (optional_components kw)"
    by (simp add: script_kwargs_ok_def runner_kwargs_ok_def extends_but_get_list)
  moreover
  have "map_option (get_dict s') (env kw) = map_option (get_dict s) (env kw)"
  proof (cases "env kw")
    case None
    then show ?thesis by simp
  next
    case (Some r)
    with assms(2) have "dict_ok s r" by (simp add: script_kwargs_ok_def)
    moreover from Some assms(3) have "r \<notin> set_option (default_args kw)" by auto
    ultimately show ?thesis using Some extends_but_get_dict [OF assms(1)] by simp
  qed
  ultimately show ?thesis by (simp add: deref_script_kwargs_def)
qed

lemma script_kwargs_ok_extends:
  assumes "extends_but D s s'" and "script_kwargs_ok s kw"
  shows "script_kwargs_ok s' kw"
  using assms
  by (auto simp: script_kwargs_ok_def runner_kwargs_ok_def extends_but_list_ok
        extends_but_dict_ok split: option.splits)

lemma get_task_chain_create:
  assumes "tasks dag = chain c r d"
  shows "get_task dag (task_id c) =
     Some \<lparr>operator = c, upstream_task_ids = [], downstream_task_ids = [task_id r]\<rparr>"
  using assms by (simp add: get_task_def chain_def)

lemma scriptrunner_ref_create_operator:
  assumes call: "moz_dataproc_scriptrunner_ref ext s kw = (Inr d, s')"
  shows "map_option create_optional_components (create_operator d) =
           Some (optional_components kw)"
proof -
  have rid: "\<And>s1. task_id (fst (script_make_run s kw s1)) = ''run_script_on_dataproc''"
    by (simp add: script_make_run_def)
  have rne: "''run_script_on_dataproc'' \<noteq> ''create_dataproc_cluster''"
    "''run_script_on_dataproc'' \<noteq> ''delete_dataproc_cluster''"
    by simp_all
  from call obtain h where h: "DataProcHelper_init ext (helper_kwargs kw) = Inr h"
    and a: "assemble_ref ext (script_store s kw) h
              (py_str (parent_dag_name kw) @ ''.'' @ dag_name kw)
              (default_args kw) (script_make_run s kw) = (Inr d, s')"
    by (auto simp: scriptrunner_ref_unfold split: if_splits sum.splits)
  from a obtain c s3 where
    c: "create_cluster_ref ext (dag_store ext (script_store s kw) (default_args kw)) h =
          (Inr c, s3)"
    and t: "tasks d = chain (ClusterCreate c) (fst (script_make_run s kw s3))
              (ClusterDelete (delete_cluster h))"
    by (auto simp: assemble_ref_unfold [OF rid rne] split: prod.splits sum.splits)
  have oc: "create_optional_components c = optional_components h"
    using c
    by (auto simp: create_cluster_ref_def new_dict_def new_list_def s3_properties_ref_eq
          split: option.splits if_splits sum.splits)
  have "task_id (ClusterCreate c) = ''create_dataproc_cluster''"
    using create_cluster_ref_task_id [OF c] by simp
  with get_task_chain_create [OF t] have "create_operator d = Some c"
    by (simp add: create_operator_def)
  with oc helper_init_optional_components [OF h] show ?thesis by simp
qed

lemma create_operator_deref:
  "create_operator (deref_dag s d) = map_option (deref_create s) (create_operator d)"
proof -
  have "find (\<lambda>t. task_id (operator t) = i) (map (deref_task s) ts) =
      map_option (deref_task s) (find (\<lambda>t. task_id (operator t) = i) ts)" for i ts
    by (induction ts) (simp_all add: deref_task_def)
  then show ?thesis
    by (auto simp: create_operator_def get_task_def deref_dag_def deref_task_def
          split: option.splits operator.splits)
qed

section \<open>The example calls of the script builder\<close>

lemma script_example_ref_fields:
  "optional_components script_example_ref = ListRef 3"
  "default_args script_example_ref = Some (DictRef 0)"
  "env script_example_ref = Some (DictRef 1)"
  by (simp_all add: script_example_ref_def script_defaults_ref_def)

lemma script_example_ref_ok: "script_kwargs_ok caller_store script_example_ref"
  by (simp add: script_kwargs_ok_def runner_kwargs_ok_def script_example_ref_def
        script_defaults_ref_def caller_store_def module_store_def list_ok_def dict_ok_def)

lemma script_example_ref_pure:
  "\<not> isl (moz_dataproc_scriptrunner ext_ok
            ((deref_script_kwargs s script_example_ref)\<lparr>default_args := x\<rparr>))"
proof -
  have "\<exists>dag. moz_dataproc_scriptrunner ext_ok
      ((deref_script_kwargs s script_example_ref)\<lparr>default_args := x\<rparr>) = Inr dag"
    by (rule scriptrunner_succeeds)
       (simp_all add: deref_script_kwargs_def script_example_ref_def script_defaults_ref_def
          ext_ok_gcp credentials_ok_def)
  then show ?thesis by auto
qed

lemma builds_pair:
  "moz_dataproc_scriptrunner_ref ext_ok caller_store script_example_ref =
     (fst first_build, snd first_build)"
  "moz_dataproc_scriptrunner_ref ext_ok (snd first_build) script_example_ref =
     (fst second_build, snd second_build)"
  by (simp_all add: first_build_def second_build_def)

lemma first_build_Inr: "fst first_build = Inr (projr (fst first_build))"
proof -
  have "\<not> isl (map_sum id (deref_dag (snd first_build)) (fst first_build))"
    unfolding scriptrunner_ref_refines(1) [OF builds_pair(1) script_example_ref_ok]
    by (rule script_example_ref_pure)
  then show ?thesis by (cases "fst first_build") auto
qed

lemma first_build_extends: "extends_but {DictRef 0} caller_store (snd first_build)"
  using scriptrunner_ref_refines(2) [OF builds_pair(1) script_example_ref_ok]
  by (simp add: script_example_ref_fields)

lemma second_build_ok: "script_kwargs_ok (snd first_build) script_example_ref"
  using first_build_extends script_example_ref_ok by (rule script_kwargs_ok_extends)

lemma second_build_Inr: "fst second_build = Inr (projr (fst second_build))"
proof -
  have "\<not> isl (map_sum id (deref_dag (snd second_build)) (fst second_build))"
    unfolding scriptrunner_ref_refines(1) [OF builds_pair(2) second_build_ok]
    by (rule script_example_ref_pure)
  then show ?thesis by (cases "fst second_build") auto
qed

lemma second_build_extends: "extends_but {DictRef 0} caller_store (snd second_build)"
proof -
  have "extends_but {DictRef 0} (snd first_build) (snd second_build)"
    using scriptrunner_ref_refines(2) [OF builds_pair(2) second_build_ok]
    by (simp add: script_example_ref_fields)
  with first_build_extends show ?thesis by (rule extends_but_trans)
qed

section \<open>The Python and the jar builder on a store\<close>

lemma helper_init_deref:
  "DataProcHelper_init ext (deref_helper_kwargs s kw) =
     (case DataProcHelper_init ext kw of
        Inl e \<Rightarrow> Inl e
      | Inr h \<Rightarrow> Inr (deref_helper s h))"
  by (simp add: DataProcHelper_init_def deref_helper_kwargs_def deref_helper_def
        split: sum.splits)

lemma helper_kwargs_deref:
  "helper_kwargs (deref_pyspark_kwargs s kp) = deref_helper_kwargs s (helper_kwargs kp)"
  "helper_kwargs (deref_jar_kwargs s kj) = deref_helper_kwargs s (helper_kwargs kj)"
  by (simp_all add: helper_kwargs_def deref_helper_kwargs_def deref_pyspark_kwargs_def
        deref_jar_kwargs_def)

text \<open>The assembly when the run operator displays no list of its own.\<close>

lemma assemble_ref_refines:
  assumes call: "assemble_ref ext s h name dargs (\<lambda>s1. (run, s1)) = (r, s')"
      and oc: "list_ok s (optional_components h)"
      and rid: "task_id run \<noteq> ''create_dataproc_cluster''"
               "task_id run \<noteq> ''delete_dataproc_cluster''"
      and rl: "\<forall>x \<in> operator_list_refs run. list_ok s x"
      and rd: "operator_dict_refs run = {}"
  shows "map_sum id (deref_dag s') r =
           assemble ext (deref_helper s h) name (map_option (get_dict s') dargs)
             (deref_operator s run)"
    and "extends (dag_store ext s dargs) s'"
    and "\<And>d. r = Inr d \<Longrightarrow>
           dag_list_refs d =
             {optional_components h, ListRef (next_list s)} \<union> operator_list_refs run \<and>
           dag_dict_refs d =
             set_option dargs \<union> {DictRef (next_dict s), DictRef (Suc (next_dict s))} \<and>
           (\<Union>t \<in> set (tasks d). operator_dict_refs (operator t)) =
             {DictRef (next_dict s), DictRef (Suc (next_dict s))} \<and>
           dag_default_args d = dargs \<and>
           next_list s' = Suc (next_list s) \<and>
           next_dict s' = Suc (Suc (next_dict s))"
proof -
  let ?s0 = "dag_store ext s dargs"
  obtain rc s3 where cc: "create_cluster_ref ext ?s0 h = (rc, s3)"
    by (cases "create_cluster_ref ext ?s0 h")
  have e3: "extends ?s0 s3" using cc by (rule create_cluster_ref_extends)
  have oc0: "list_ok ?s0 (optional_components h)" using oc by (simp add: dag_store_simps)
  have rl0: "\<forall>x \<in> operator_list_refs run. list_ok ?s0 x"
    using rl by (simp add: dag_store_simps)
  have dh: "deref_helper ?s0 h = deref_helper s h" by (rule dag_store_deref_helper)
  have n0: "next_list ?s0 = next_list s" "next_dict ?s0 = next_dict s"
    by (simp_all add: dag_store_simps)
  have pne: "task_id (deref_operator s run) \<noteq> ''create_dataproc_cluster''"
    "task_id (deref_operator s run) \<noteq> ''delete_dataproc_cluster''"
    using rid by simp_all
  have refc: "assemble_ref ext s h name dargs (\<lambda>s1. (run, s1)) =
      (case rc of
         Inl e \<Rightarrow> (Inl e, s3)
       | Inr c \<Rightarrow>
           (Inr \<lparr>dag_id = name, dag_default_args = dargs,
                 tasks = chain (ClusterCreate c) run (ClusterDelete (delete_cluster h))\<rparr>,
            s3))"
    using cc rid
      assemble_ref_unfold [of "\<lambda>s1. (run, s1)" "task_id run" ext s h name dargs]
    by (auto split: sum.splits)
  have "map_sum id (deref_dag s') r =
           assemble ext (deref_helper s h) name (map_option (get_dict s') dargs)
             (deref_operator s run) \<and>
        extends ?s0 s' \<and>
        (\<forall>d. r = Inr d \<longrightarrow>
           dag_list_refs d =
             {optional_components h, ListRef (next_list s)} \<union> operator_list_refs run \<and>
           dag_dict_refs d =
             set_option dargs \<union> {DictRef (next_dict s), DictRef (Suc (next_dict s))} \<and>
           (\<Union>t \<in> set (tasks d). operator_dict_refs (operator t)) =
             {DictRef (next_dict s), DictRef (Suc (next_dict s))} \<and>
           dag_default_args d = dargs \<and>
           next_list s' = Suc (next_list s) \<and>
           next_dict s' = Suc (Suc (next_dict s)))"
  proof (cases rc)
    case (Inl e)
    with refc call have r: "r = Inl e" "s' = s3" by simp_all
    from cc Inl have "create_cluster ext (deref_helper ?s0 h) = Inl e"
      using create_cluster_ref_Inl by blast
    with r e3 dh show ?thesis by (simp add: assemble_unfold [OF pne])
  next
    case (Inr c)
    let ?d = "\<lparr>dag_id = name, dag_default_args = dargs,
                 tasks = chain (ClusterCreate c) run (ClusterDelete (delete_cluster h))\<rparr>"
    from refc call Inr have r: "r = Inr ?d" "s' = s3" by simp_all
    have ccr: "create_cluster_ref ext ?s0 h = (Inr c, s3)" using cc Inr by simp
    note cf = create_cluster_ref_Inr [OF ccr oc0]
    have run: "deref_operator s3 run = deref_operator s run"
      using extends_deref_operator [OF e3 rl0] rd dag_store_deref_operator [OF rd] by simp
    have "deref_dag s3 ?d =
        \<lparr>dag_id = name, dag_default_args = map_option (get_dict s3) dargs,
          tasks = chain (ClusterCreate (deref_create s3 c)) (deref_operator s run)
                    (ClusterDelete (delete_cluster h))\<rparr>"
      using run by (simp add: deref_dag_def deref_chain)
    with cf(1) r dh have 1: "map_sum id (deref_dag s') r =
           assemble ext (deref_helper s h) name (map_option (get_dict s') dargs)
             (deref_operator s run)"
      by (simp add: assemble_unfold [OF pne] delete_cluster_deref)
    have 2: "dag_list_refs ?d =
        {optional_components h, ListRef (next_list s)} \<union> operator_list_refs run"
      using cf(4,5) n0 by (auto simp: dag_list_refs_def chain_def)
    have 5: "(\<Union>t \<in> set (tasks ?d). operator_dict_refs (operator t)) =
        {DictRef (next_dict s), DictRef (Suc (next_dict s))}"
      using cf(2,3) rd n0 by (auto simp: chain_def)
    have 3: "dag_dict_refs ?d =
        set_option dargs \<union> {DictRef (next_dict s), DictRef (Suc (next_dict s))}"
      using cf(2,3) rd n0 by (auto simp: dag_dict_refs_def chain_def)
    from 1 2 3 5 cf(6,7) n0 e3 r show ?thesis by simp
  qed
  then show "map_sum id (deref_dag s') r =
           assemble ext (deref_helper s h) name (map_option (get_dict s') dargs)
             (deref_operator s run)"
    and "extends (dag_store ext s dargs) s'"
    and "\<And>d. r = Inr d \<Longrightarrow>
           dag_list_refs d =
             {optional_components h, ListRef (next_list s)} \<union> operator_list_refs run \<and>
           dag_dict_refs d =
             set_option dargs \<union> {DictRef (next_dict s), DictRef (Suc (next_dict s))} \<and>
           (\<Union>t \<in> set (tasks d). operator_dict_refs (operator t)) =
             {DictRef (next_dict s), DictRef (Suc (next_dict s))} \<and>
           dag_default_args d = dargs \<and>
           next_list s' = Suc (next_list s) \<and>
           next_dict s' = Suc (Suc (next_dict s))"
    by blast+
qed

lemma pyspark_ref_unfold:
  "moz_dataproc_pyspark_runner_ref ext s kw =
     (if cluster_name kw = None \<or> python_driver_code kw = None
      then (Inl (AirflowException ''Please specify cluster_name and/or python_driver_code.''), s)
      else case DataProcHelper_init ext (helper_kwargs kw) of
             Inl e \<Rightarrow> (Inl e, s)
           | Inr h \<Rightarrow> assemble_ref ext s h
                        (py_str (parent_dag_name kw) @ ''.'' @ dag_name kw)
                        (default_args kw) (\<lambda>s1. (PySpark (pyspark_run kw), s1)))"
  by (simp add: moz_dataproc_pyspark_runner_ref_def Let_def pyspark_run_def split: sum.split)

lemma deref_pyspark_kwargs_fields:
  "cluster_name (deref_pyspark_kwargs s kw) = cluster_name kw"
  "parent_dag_name (deref_pyspark_kwargs s kw) = parent_dag_name kw"
  "dag_name (deref_pyspark_kwargs s kw) = dag_name kw"
  "default_args (deref_pyspark_kwargs s kw) = map_option (get_dict s) (default_args kw)"
  "python_driver_code (deref_pyspark_kwargs s kw) = python_driver_code kw"
  by (simp_all add: deref_pyspark_kwargs_def)

lemma pyspark_run_deref:
  "deref_pyspark s (pyspark_run kw) = pyspark_run (deref_pyspark_kwargs s kw)"
  by (simp add: pyspark_run_def deref_pyspark_kwargs_def deref_pyspark_def deref_spark_def)

lemma pyspark_ref_refines:
  assumes call: "moz_dataproc_pyspark_runner_ref ext s kw = (r, s')"
      and ok: "pyspark_kwargs_ok s kw"
  shows "map_sum id (deref_dag s') r =
           moz_dataproc_pyspark_runner ext
             ((deref_pyspark_kwargs s kw)
                \<lparr>default_args := map_option (get_dict s') (default_args kw)\<rparr>)"
    and "extends_but (set_option (default_args kw)) s s'"
    and "\<And>d. r = Inr d \<Longrightarrow>
           dag_list_refs d =
             {optional_components kw, ListRef (next_list s)} \<union> set_option (py_args kw) \<and>
           dag_dict_refs d =
             set_option (default_args kw) \<union>
             {DictRef (next_dict s), DictRef (Suc (next_dict s))} \<and>
           (\<Union>t \<in> set (tasks d). operator_dict_refs (operator t)) =
             {DictRef (next_dict s), DictRef (Suc (next_dict s))} \<and>
           dag_default_args d = default_args kw \<and>
           next_list s' = Suc (next_list s) \<and>
           next_dict s' = Suc (Suc (next_dict s))"
proof -
  let ?kwp = "deref_pyspark_kwargs s kw"
  let ?D = "set_option (default_args kw)"
  let ?X = "map_option (get_dict s') (default_args kw)"
  let ?name = "py_str (parent_dag_name kw) @ ''.'' @ dag_name kw"
  let ?run = "PySpark (pyspark_run kw) :: (list_ref, dict_ref) operator"
  have oc: "list_ok s (optional_components kw)"
    using ok by (simp add: pyspark_kwargs_ok_def runner_kwargs_ok_def)
  have rl: "\<forall>x \<in> operator_list_refs ?run. list_ok s x"
    using ok by (auto simp: pyspark_kwargs_ok_def pyspark_run_def split: option.splits)
  have rlist: "operator_list_refs ?run = set_option (py_args kw)"
    by (simp add: pyspark_run_def)
  have rd: "operator_dict_refs ?run = {}" by simp
  have rid: "task_id ?run \<noteq> ''create_dataproc_cluster''"
    "task_id ?run \<noteq> ''delete_dataproc_cluster''"
    by (simp_all add: pyspark_run_def)
  have "map_sum id (deref_dag s') r =
          map_sum id (\<lambda>d. d\<lparr>dag_default_args := ?X\<rparr>) (moz_dataproc_pyspark_runner ext ?kwp) \<and>
        extends_but ?D s s' \<and>
        (\<forall>d. r = Inr d \<longrightarrow>
           dag_list_refs d =
             {optional_components kw, ListRef (next_list s)} \<union> set_option (py_args kw) \<and>
           dag_dict_refs d =
             set_option (default_args kw) \<union>
             {DictRef (next_dict s), DictRef (Suc (next_dict s))} \<and>
           (\<Union>t \<in> set (tasks d). operator_dict_refs (operator t)) =
             {DictRef (next_dict s), DictRef (Suc (next_dict s))} \<and>
           dag_default_args d = default_args kw \<and>
           next_list s' = Suc (next_list s) \<and>
           next_dict s' = Suc (Suc (next_dict s)))"
  proof (cases "cluster_name kw = None \<or> python_driver_code kw = None")
    case True
    with call have "r = Inl (AirflowException ''Please specify cluster_name and/or python_driver_code.'')" "s' = s"
      by (simp_all add: pyspark_ref_unfold)
    with True show ?thesis
      by (simp add: pyspark_unfold deref_pyspark_kwargs_fields extends_but_refl)
  next
    case False
    note req = this
    show ?thesis
    proof (cases "DataProcHelper_init ext (helper_kwargs kw)")
      case (Inl e)
      with call req have "r = Inl e" "s' = s"
        by (simp_all add: pyspark_ref_unfold)
      with req Inl show ?thesis
        by (auto simp: pyspark_unfold deref_pyspark_kwargs_fields extends_but_refl
              helper_kwargs_deref helper_init_deref)
    next
      case (Inr h)
      have hoc: "optional_components h = optional_components kw"
        using Inr by (rule helper_init_optional_components)
      have a: "assemble_ref ext s h ?name (default_args kw) (\<lambda>s1. (?run, s1)) = (r, s')"
        using call req Inr by (simp add: pyspark_ref_unfold)
      have och: "list_ok s (optional_components h)" using oc hoc by simp
      note f = assemble_ref_refines [OF a och rid rl rd]
      have pne: "task_id (deref_operator s ?run) \<noteq> ''create_dataproc_cluster''"
        "task_id (deref_operator s ?run) \<noteq> ''delete_dataproc_cluster''"
        using rid task_id_deref_operator [of s ?run] by (simp_all del: deref_operator.simps)
      have pure: "moz_dataproc_pyspark_runner ext ?kwp =
          assemble ext (deref_helper s h) ?name (map_option (get_dict s) (default_args kw))
            (deref_operator s ?run)"
        using req Inr
        by (auto simp: pyspark_unfold deref_pyspark_kwargs_fields helper_kwargs_deref
              helper_init_deref pyspark_run_deref)
      have 1: "map_sum id (deref_dag s') r =
          map_sum id (\<lambda>d. d\<lparr>dag_default_args := ?X\<rparr>) (moz_dataproc_pyspark_runner ext ?kwp)"
        unfolding pure f(1)
        by (rule assemble_default_args [OF pne])
      have 2: "extends_but ?D s s'"
        using dag_store_extends_but extends_extends_but [OF f(2)] extends_but_trans
        by blast
      from 1 2 f(3) hoc rlist show ?thesis by simp
    qed
  qed
  then show "map_sum id (deref_dag s') r =
           moz_dataproc_pyspark_runner ext
             ((deref_pyspark_kwargs s kw)
                \<lparr>default_args := map_option (get_dict s') (default_args kw)\<rparr>)"
    and "extends_but (set_option (default_args kw)) s s'"
    and "\<And>d. r = Inr d \<Longrightarrow>
           dag_list_refs d =
             {optional_components kw, ListRef (next_list s)} \<union> set_option (py_args kw) \<and>
           dag_dict_refs d =
             set_option (default_args kw) \<union>
             {DictRef (next_dict s), DictRef (Suc (next_dict s))} \<and>
           (\<Union>t \<in> set (tasks d). operator_dict_refs (operator t)) =
             {DictRef (next_dict s), DictRef (Suc (next_dict s))} \<and>
           dag_default_args d = default_args kw \<and>
           next_list s' = Suc (next_list s) \<and>
           next_dict s' = Suc (Suc (next_dict s))"
    by (simp_all add: pyspark_default_args)
qed

lemma jar_ref_unfold:
  "moz_dataproc_jar_runner_ref ext s kw =
     (if cluster_name kw = None \<or> jar_urls kw = None \<or> main_class kw = None
      then (Inl (AirflowException ''Please specify cluster_name, jar_urls, and/or main_class.''), s)
      else case DataProcHelper_init ext (helper_kwargs kw) of
             Inl e \<Rightarrow> (Inl e, s)
           | Inr h \<Rightarrow> assemble_ref ext s h
                        (py_str (parent_dag_name kw) @ ''.'' @ dag_name kw)
                        (default_args kw) (\<lambda>s1. (Spark (jar_run kw), s1)))"
  by (simp add: moz_dataproc_jar_runner_ref_def Let_def jar_run_def split: sum.split)

lemma deref_jar_kwargs_fields:
  "cluster_name (deref_jar_kwargs s kw) = cluster_name kw"
  "parent_dag_name (deref_jar_kwargs s kw) = parent_dag_name kw"
  "dag_name (deref_jar_kwargs s kw) = dag_name kw"
  "default_args (deref_jar_kwargs s kw) = map_option (get_dict s) (default_args kw)"
  "main_class (deref_jar_kwargs s kw) = main_class kw"
  "(jar_urls (deref_jar_kwargs s kw) = None) = (jar_urls kw = None)"
  by (simp_all add: deref_jar_kwargs_def)

lemma jar_run_deref:
  "deref_spark s (jar_run kw) = jar_run (deref_jar_kwargs s kw)"
  by (simp add: jar_run_def deref_jar_kwargs_def deref_pyspark_def deref_spark_def)

lemma jar_ref_refines:
  assumes call: "moz_dataproc_jar_runner_ref ext s kw = (r, s')"
      and ok: "jar_kwargs_ok s kw"
  shows "map_sum id (deref_dag s') r =
           moz_dataproc_jar_runner ext
             ((deref_jar_kwargs s kw)
                \<lparr>default_args := map_option (get_dict s') (default_args kw)\<rparr>)"
    and "extends_but (set_option (default_args kw)) s s'"
    and "\<And>d. r = Inr d \<Longrightarrow>
           dag_list_refs d =
             {optional_components kw, ListRef (next_list s)} \<union> (set_option (jar_urls kw) \<union> set_option (jar_args kw)) \<and>
           dag_dict_refs d =
             set_option (default_args kw) \<union>
             {DictRef (next_dict s), DictRef (Suc (next_dict s))} \<and>
           (\<Union>t \<in> set (tasks d). operator_dict_refs (operator t)) =
             {DictRef (next_dict s), DictRef (Suc (next_dict s))} \<and>
           dag_default_args d = default_args kw \<and>
           next_list s' = Suc (next_list s) \<and>
           next_dict s' = Suc (Suc (next_dict s))"
proof -
  let ?kwp = "deref_jar_kwargs s kw"
  let ?D = "set_option (default_args kw)"
  let ?X = "map_option (get_dict s') (default_args kw)"
  let ?name = "py_str (parent_dag_name kw) @ ''.'' @ dag_name kw"
  let ?run = "Spark (jar_run kw) :: (list_ref, dict_ref) operator"
  have oc: "list_ok s (optional_components kw)"
    using ok by (simp add: jar_kwargs_ok_def runner_kwargs_ok_def)
  have rl: "\<forall>x \<in> operator_list_refs ?run. list_ok s x"
    using ok by (auto simp: jar_kwargs_ok_def jar_run_def split: option.splits)
  have rlist: "operator_list_refs ?run = (set_option (jar_urls kw) \<union> set_option (jar_args kw))"
    by (simp add: jar_run_def)
  have rd: "operator_dict_refs ?run = {}" by simp
  have rid: "task_id ?run \<noteq> ''create_dataproc_cluster''"
    "task_id ?run \<noteq> ''delete_dataproc_cluster''"
    by (simp_all add: jar_run_def)
  have "map_sum id (deref_dag s') r =
          map_sum id (\<lambda>d. d\<lparr>dag_default_args := ?X\<rparr>) (moz_dataproc_jar_runner ext ?kwp) \<and>
        extends_but ?D s s' \<and>
        (\<forall>d. r = Inr d \<longrightarrow>
           dag_list_refs d =
             {optional_components kw, ListRef (next_list s)} \<union> (set_option (jar_urls kw) \<union> set_option (jar_args kw)) \<and>
           dag_dict_refs d =
             set_option (default_args kw) \<union>
             {DictRef (next_dict s), DictRef (Suc (next_dict s))} \<and>
           (\<Union>t \<in> set (tasks d). operator_dict_refs (operator t)) =
             {DictRef (next_dict s), DictRef (Suc (next_dict s))} \<and>
           dag_default_args d = default_args kw \<and>
           next_list s' = Suc (next_list s) \<and>
           next_dict s' = Suc (Suc (next_dict s)))"
  proof (cases "cluster_name kw = None \<or> jar_urls kw = None \<or> main_class kw = None")
    case True
    with call have "r = Inl (AirflowException ''Please specify cluster_name, jar_urls, and/or main_class.'')" "s' = s"
      by (simp_all add: jar_ref_unfold)
    with True show ?thesis
      by (simp add: jar_unfold deref_jar_kwargs_fields extends_but_refl)
  next
    case False
    note req = this
    show ?thesis
    proof (cases "DataProcHelper_init ext (helper_kwargs kw)")
      case (Inl e)
      with call req have "r = Inl e" "s' = s"
        by (simp_all add: jar_ref_unfold)
      with req Inl show ?thesis
        by (auto simp: jar_unfold deref_jar_kwargs_fields extends_but_refl
              helper_kwargs_deref helper_init_deref)
    next
      case (Inr h)
      have hoc: "optional_components h = optional_components kw"
        using Inr by (rule helper_init_optional_components)
      have a: "assemble_ref ext s h ?name (default_args kw) (\<lambda>s1. (?run, s1)) = (r, s')"
        using call req Inr by (simp add: jar_ref_unfold)
      have och: "list_ok s (optional_components h)" using oc hoc by simp
      note f = assemble_ref_refines [OF a och rid rl rd]
      have pne: "task_id (deref_operator s ?run) \<noteq> ''create_dataproc_cluster''"
        "task_id (deref_operator s ?run) \<noteq> ''delete_dataproc_cluster''"
        using rid task_id_deref_operator [of s ?run] by (simp_all del: deref_operator.simps)
      have pure: "moz_dataproc_jar_runner ext ?kwp =
          assemble ext (deref_helper s h) ?name (map_option (get_dict s) (default_args kw))
            (deref_operator s ?run)"
        using req Inr
        by (auto simp: jar_unfold deref_jar_kwargs_fields helper_kwargs_deref
              helper_init_deref jar_run_deref)
      have 1: "map_sum id (deref_dag s') r =
          map_sum id (\<lambda>d. d\<lparr>dag_default_args := ?X\<rparr>) (moz_dataproc_jar_runner ext ?kwp)"
        unfolding pure f(1)
        by (rule assemble_default_args [OF pne])
      have 2: "extends_but ?D s s'"
        using dag_store_extends_but extends_extends_but [OF f(2)] extends_but_trans
        by blast
      from 1 2 f(3) hoc rlist show ?thesis by simp
    qed
  qed
  then show "map_sum id (deref_dag s') r =
           moz_dataproc_jar_runner ext
             ((deref_jar_kwargs s kw)
                \<lparr>default_args := map_option (get_dict s') (default_args kw)\<rparr>)"
    and "extends_but (set_option (default_args kw)) s s'"
    and "\<And>d. r = Inr d \<Longrightarrow>
           dag_list_refs d =
             {optional_components kw, ListRef (next_list s)} \<union> (set_option (jar_urls kw) \<union> set_option (jar_args kw)) \<and>
           dag_dict_refs d =
             set_option (default_args kw) \<union>
             {DictRef (next_dict s), DictRef (Suc (next_dict s))} \<and>
           (\<Union>t \<in> set (tasks d). operator_dict_refs (operator t)) =
             {DictRef (next_dict s), DictRef (Suc (next_dict s))} \<and>
           dag_default_args d = default_args kw \<and>
           next_list s' = Suc (next_list s) \<and>
           next_dict s' = Suc (Suc (next_dict s))"
    by (simp_all add: jar_default_args)
qed

section \<open>Two calls in a row\<close>

text \<open>
  Between the two calls only the dict of \<open>default_args\<close> changes among the objects that
  existed before: every other argument reads the same in the second call, and the
  first DAG reads the same after it but for its \<open>default_args\<close>, which both DAGs hold.
\<close>

lemma deref_pyspark_kwargs_extends:
  assumes "extends_but D s s'" and "pyspark_kwargs_ok s kw"
  shows "deref_pyspark_kwargs s' kw =
     (deref_pyspark_kwargs s kw)
        \<lparr>default_args := map_option (get_dict s') (default_args kw)\<rparr>"
    and "pyspark_kwargs_ok s' kw"
proof -
  from assms have "get_list s' (optional_components kw) = get_list s (optional_components kw)"
    by (simp add: pyspark_kwargs_ok_def runner_kwargs_ok_def extends_but_get_list)
  moreover from assms
  have "map_option (get_list s') (py_args kw) = map_option (get_list s) (py_args kw)"
    by (cases "py_args kw") (simp_all add: pyspark_kwargs_ok_def extends_but_get_list)
  ultimately show "deref_pyspark_kwargs s' kw =
     (deref_pyspark_kwargs s kw)
        \<lparr>default_args := map_option (get_dict s') (default_args kw)\<rparr>"
    by (simp add: deref_pyspark_kwargs_def)
  from assms show "pyspark_kwargs_ok s' kw"
    by (auto simp: pyspark_kwargs_ok_def runner_kwargs_ok_def extends_but_list_ok
          extends_but_dict_ok split: option.splits)
qed

lemma deref_jar_kwargs_extends:
  assumes "extends_but D s s'" and "jar_kwargs_ok s kw"
  shows "deref_jar_kwargs s' kw =
     (deref_jar_kwargs s kw)
        \<lparr>default_args := map_option (get_dict s') (default_args kw)\<rparr>"
    and "jar_kwargs_ok s' kw"
proof -
  from assms have "get_list s' (optional_components kw) = get_list s (optional_components kw)"
    by (simp add: jar_kwargs_ok_def runner_kwargs_ok_def extends_but_get_list)
  moreover from assms
  have "map_option (get_list s') (jar_urls kw) = map_option (get_list s) (jar_urls kw)"
    by (cases "jar_urls kw") (simp_all add: jar_kwargs_ok_def extends_but_get_list)
  moreover from assms
  have "map_option (get_list s') (jar_args kw) = map_option (get_list s) (jar_args kw)"
    by (cases "jar_args kw") (simp_all add: jar_kwargs_ok_def extends_but_get_list)
  ultimately show "deref_jar_kwargs s' kw =
     (deref_jar_kwargs s kw)
        \<lparr>default_args := map_option (get_dict s') (default_args kw)\<rparr>"
    by (simp add: deref_jar_kwargs_def)
  from assms show "jar_kwargs_ok s' kw"
    by (auto simp: jar_kwargs_ok_def runner_kwargs_ok_def extends_but_list_ok
          extends_but_dict_ok split: option.splits)
qed

lemma script_two_builds:
  assumes ok: "script_kwargs_ok s kw"
      and na: "env kw = None \<or> env kw \<noteq> default_args kw"
      and b1: "moz_dataproc_scriptrunner_ref ext s kw = (Inr d1, s1)"
      and b2: "moz_dataproc_scriptrunner_ref ext s1 kw = (Inr d2, s2)"
  shows "deref_dag s2 d1 = deref_dag s2 d2"
    and "moz_dataproc_scriptrunner ext (deref_script_kwargs s2 kw) = Inr (deref_dag s2 d2)"
    and "dag_list_refs d1 \<inter> dag_list_refs d2 = {optional_components kw}"
    and "dag_dict_refs d1 \<inter> dag_dict_refs d2 = set_option (default_args kw)"
proof -
  let ?D = "set_option (default_args kw)"
  let ?Y = "map_option (get_dict s2) (default_args kw)"
  note f1 = scriptrunner_ref_refines [OF b1 ok]
  have ok1: "script_kwargs_ok s1 kw" using f1(2) ok by (rule script_kwargs_ok_extends)
  note f2 = scriptrunner_ref_refines [OF b2 ok1]
  have x1: "deref_script_kwargs s1 kw =
      (deref_script_kwargs s kw)\<lparr>default_args := map_option (get_dict s1) (default_args kw)\<rparr>"
    using f1(2) ok na by (rule deref_script_kwargs_extends)
  have x2: "deref_script_kwargs s2 kw = (deref_script_kwargs s1 kw)\<lparr>default_args := ?Y\<rparr>"
    using f2(2) ok1 na by (rule deref_script_kwargs_extends)
  note g1 = f1(3) [OF refl]
  note g2 = f2(3) [OF refl]
  have k: "\<forall>x \<in> {optional_components kw}. list_ok s x"
    using ok by (auto simp: script_kwargs_ok_def runner_kwargs_ok_def split: option.splits)
  have d: "\<forall>x \<in> ?D. dict_ok s x"
    using ok by (auto simp: script_kwargs_ok_def runner_kwargs_ok_def split: option.splits)
  have p1: "moz_dataproc_scriptrunner ext (deref_script_kwargs s1 kw) = Inr (deref_dag s1 d1)"
    using f1(1) x1 by simp
  show p2: "moz_dataproc_scriptrunner ext (deref_script_kwargs s2 kw) = Inr (deref_dag s2 d2)"
    using f2(1) x2 by simp
  have l1: "\<forall>r \<in> dag_list_refs d1. list_ok s1 r"
    using g1 k by (auto simp: list_ok_def split: list_ref.splits)
  have t1: "\<forall>t \<in> set (tasks d1). \<forall>r \<in> operator_dict_refs (operator t).
      dict_ok s1 r \<and> r \<notin> ?D"
  proof (intro ballI)
    fix t r assume "t \<in> set (tasks d1)" "r \<in> operator_dict_refs (operator t)"
    then have "r \<in> (\<Union>t \<in> set (tasks d1). operator_dict_refs (operator t))" by blast
    with g1 have "r = DictRef (next_dict s) \<or> r = DictRef (Suc (next_dict s))" by simp
    with g1 d show "dict_ok s1 r \<and> r \<notin> ?D" by (auto simp: dict_ok_def)
  qed
  from extends_but_deref_dag [OF f2(2) l1 t1] g1
  have fr: "deref_dag s2 d1 = (deref_dag s1 d1)\<lparr>dag_default_args := ?Y\<rparr>" by simp
  have "moz_dataproc_scriptrunner ext (deref_script_kwargs s2 kw) =
      map_sum id (\<lambda>d. d\<lparr>dag_default_args := ?Y\<rparr>)
        (moz_dataproc_scriptrunner ext (deref_script_kwargs s1 kw))"
    unfolding x2 by (rule scriptrunner_default_args)
  with p1 p2 fr show "deref_dag s2 d1 = deref_dag s2 d2" by simp
  show "dag_list_refs d1 \<inter> dag_list_refs d2 = {optional_components kw}"
    using g1 g2 k by (auto simp: list_ok_def split: list_ref.splits)
  show "dag_dict_refs d1 \<inter> dag_dict_refs d2 = set_option (default_args kw)"
    using g1 g2 d by (auto simp: dict_ok_def split: dict_ref.splits)
qed

lemma pyspark_two_builds:
  assumes ok: "pyspark_kwargs_ok s kw"
      and b1: "moz_dataproc_pyspark_runner_ref ext s kw = (Inr d1, s1)"
      and b2: "moz_dataproc_pyspark_runner_ref ext s1 kw = (Inr d2, s2)"
  shows "deref_dag s2 d1 = deref_dag s2 d2"
    and "moz_dataproc_pyspark_runner ext (deref_pyspark_kwargs s2 kw) = Inr (deref_dag s2 d2)"
    and "dag_list_refs d1 \<inter> dag_list_refs d2 = {optional_components kw} \<union> set_option (py_args kw)"
    and "dag_dict_refs d1 \<inter> dag_dict_refs d2 = set_option (default_args kw)"
proof -
  let ?D = "set_option (default_args kw)"
  let ?Y = "map_option (get_dict s2) (default_args kw)"
  note f1 = pyspark_ref_refines [OF b1 ok]
  have ok1: "pyspark_kwargs_ok s1 kw" using f1(2) ok by (rule deref_pyspark_kwargs_extends(2))
  note f2 = pyspark_ref_refines [OF b2 ok1]
  have x1: "deref_pyspark_kwargs s1 kw =
      (deref_pyspark_kwargs s kw)\<lparr>default_args := map_option (get_dict s1) (default_args kw)\<rparr>"
    using f1(2) ok by (rule deref_pyspark_kwargs_extends(1))
  have x2: "deref_pyspark_kwargs s2 kw = (deref_pyspark_kwargs s1 kw)\<lparr>default_args := ?Y\<rparr>"
    using f2(2) ok1 by (rule deref_pyspark_kwargs_extends(1))
  note g1 = f1(3) [OF refl]
  note g2 = f2(3) [OF refl]
  have k: "\<forall>x \<in> {optional_components kw} \<union> set_option (py_args kw). list_ok s x"
    using ok by (auto simp: pyspark_kwargs_ok_def runner_kwargs_ok_def split: option.splits)
  have d: "\<forall>x \<in> ?D. dict_ok s x"
    using ok by (auto simp: pyspark_kwargs_ok_def runner_kwargs_ok_def split: option.splits)
  have p1: "moz_dataproc_pyspark_runner ext (deref_pyspark_kwargs s1 kw) = Inr (deref_dag s1 d1)"
    using f1(1) x1 by simp
  show p2: "moz_dataproc_pyspark_runner ext (deref_pyspark_kwargs s2 kw) = Inr (deref_dag s2 d2)"
    using f2(1) x2 by simp
  have l1: "\<forall>r \<in> dag_list_refs d1. list_ok s1 r"
    using g1 k by (auto simp: list_ok_def split: list_ref.splits)
  have t1: "\<forall>t \<in> set (tasks d1). \<forall>r \<in> operator_dict_refs (operator t).
      dict_ok s1 r \<and> r \<notin> ?D"
  proof (intro ballI)
    fix t r assume "t \<in> set (tasks d1)" "r \<in> operator_dict_refs (operator t)"
    then have "r \<in> (\<Union>t \<in> set (tasks d1). operator_dict_refs (operator t))" by blast
    with g1 have "r = DictRef (next_dict s) \<or> r = DictRef (Suc (next_dict s))" by simp
    with g1 d show "dict_ok s1 r \<and> r \<notin> ?D" by (auto simp: dict_ok_def)
  qed
  from extends_but_deref_dag [OF f2(2) l1 t1] g1
  have fr: "deref_dag s2 d1 = (deref_dag s1 d1)\<lparr>dag_default_args := ?Y\<rparr>" by simp
  have "moz_dataproc_pyspark_runner ext (deref_pyspark_kwargs s2 kw) =
      map_sum id (\<lambda>d. d\<lparr>dag_default_args := ?Y\<rparr>)
        (moz_dataproc_pyspark_runner ext (deref_pyspark_kwargs s1 kw))"
    unfolding x2 by (rule pyspark_default_args)
  with p1 p2 fr show "deref_dag s2 d1 = deref_dag s2 d2" by simp
  show "dag_list_refs d1 \<inter> dag_list_refs d2 = {optional_components kw} \<union> set_option (py_args kw)"
    using g1 g2 k by (auto simp: list_ok_def split: list_ref.splits)
  show "dag_dict_refs d1 \<inter> dag_dict_refs d2 = set_option (default_args kw)"
    using g1 g2 d by (auto simp: dict_ok_def split: dict_ref.splits)
qed

lemma jar_two_builds:
  assumes ok: "jar_kwargs_ok s kw"
      and b1: "moz_dataproc_jar_runner_ref ext s kw = (Inr d1, s1)"
      and b2: "moz_dataproc_jar_runner_ref ext s1 kw = (Inr d2, s2)"
  shows "deref_dag s2 d1 = deref_dag s2 d2"
    and "moz_dataproc_jar_runner ext (deref_jar_kwargs s2 kw) = Inr (deref_dag s2 d2)"
    and "dag_list_refs d1 \<inter> dag_list_refs d2 = {optional_components kw} \<union> set_option (jar_urls kw) \<union> set_option (jar_args kw)"
    and "dag_dict_refs d1 \<inter> dag_dict_refs d2 = set_option (default_args kw)"
proof -
  let ?D = "set_option (default_args kw)"
  let ?Y = "map_option (get_dict s2) (default_args kw)"
  note f1 = jar_ref_refines [OF b1 ok]
  have ok1: "jar_kwargs_ok s1 kw" using f1(2) ok by (rule deref_jar_kwargs_extends(2))
  note f2 = jar_ref_refines [OF b2 ok1]
  have x1: "deref_jar_kwargs s1 kw =
      (deref_jar_kwargs s kw)\<lparr>default_args := map_option (get_dict s1) (default_args kw)\<rparr>"
    using f1(2) ok by (rule deref_jar_kwargs_extends(1))
  have x2: "deref_jar_kwargs s2 kw = (deref_jar_kwargs s1 kw)\<lparr>default_args := ?Y\<rparr>"
    using f2(2) ok1 by (rule deref_jar_kwargs_extends(1))
  note g1 = f1(3) [OF refl]
  note g2 = f2(3) [OF refl]
  have k: "\<forall>x \<in> {optional_components kw} \<union> set_option (jar_urls kw) \<union> set_option (jar_args kw). list_ok s x"
    using ok by (auto simp: jar_kwargs_ok_def runner_kwargs_ok_def split: option.splits)
  have d: "\<forall>x \<in> ?D. dict_ok s x"
    using ok by (auto simp: jar_kwargs_ok_def runner_kwargs_ok_def split: option.splits)
  have p1: "moz_dataproc_jar_runner ext (deref_jar_kwargs s1 kw) = Inr (deref_dag s1 d1)"
    using f1(1) x1 by simp
  show p2: "moz_dataproc_jar_runner ext (deref_jar_kwargs s2 kw) = Inr (deref_dag s2 d2)"
    using f2(1) x2 by simp
  have l1: "\<forall>r \<in> dag_list_refs d1. list_ok s1 r"
    using g1 k by (auto simp: list_ok_def split: list_ref.splits)
  have t1: "\<forall>t \<in> set (tasks d1). \<forall>r \<in> operator_dict_refs (operator t).
      dict_ok s1 r \<and> r \<notin> ?D"
  proof (intro ballI)
    fix t r assume "t \<in> set (tasks d1)" "r \<in> operator_dict_refs (operator t)"
    then have "r \<in> (\<Union>t \<in> set (tasks d1). operator_dict_refs (operator t))" by blast
    with g1 have "r = DictRef (next_dict s) \<or> r = DictRef (Suc (next_dict s))" by simp
    with g1 d show "dict_ok s1 r \<and> r \<notin> ?D" by (auto simp: dict_ok_def)
  qed
  from extends_but_deref_dag [OF f2(2) l1 t1] g1
  have fr: "deref_dag s2 d1 = (deref_dag s1 d1)\<lparr>dag_default_args := ?Y\<rparr>" by simp
  have "moz_dataproc_jar_runner ext (deref_jar_kwargs s2 kw) =
      map_sum id (\<lambda>d. d\<lparr>dag_default_args := ?Y\<rparr>)
        (moz_dataproc_jar_runner ext (deref_jar_kwargs s1 kw))"
    unfolding x2 by (rule jar_default_args)
  with p1 p2 fr show "deref_dag s2 d1 = deref_dag s2 d2" by simp
  show "dag_list_refs d1 \<inter> dag_list_refs d2 = {optional_components kw} \<union> set_option (jar_urls kw) \<union> set_option (jar_args kw)"
    using g1 g2 k by (auto simp: list_ok_def split: list_ref.splits)
  show "dag_dict_refs d1 \<inter> dag_dict_refs d2 = set_option (default_args kw)"
    using g1 g2 d by (auto simp: dict_ok_def split: dict_ref.splits)
qed

section \<open>The example calls of the Python and the jar builder\<close>

lemma pyspark_example_ref_ok: "pyspark_kwargs_ok caller_store pyspark_example_ref"
  by (simp add: pyspark_kwargs_ok_def runner_kwargs_ok_def pyspark_example_ref_def
        pyspark_defaults_ref_def caller_store_def module_store_def list_ok_def dict_ok_def)

lemma jar_example_ref_ok: "jar_kwargs_ok caller_store jar_example_ref"
  by (simp add: jar_kwargs_ok_def runner_kwargs_ok_def jar_example_ref_def
        jar_defaults_ref_def caller_store_def module_store_def list_ok_def dict_ok_def)

lemma pyspark_example_ref_pure:
  "\<not> isl (moz_dataproc_pyspark_runner ext_ok
            ((deref_pyspark_kwargs s pyspark_example_ref)\<lparr>default_args := x\<rparr>))"
proof -
  have "\<exists>dag. moz_dataproc_pyspark_runner ext_ok
      ((deref_pyspark_kwargs s pyspark_example_ref)\<lparr>default_args := x\<rparr>) = Inr dag"
    by (rule pyspark_succeeds)
       (simp_all add: deref_pyspark_kwargs_def pyspark_example_ref_def pyspark_defaults_ref_def
          ext_ok_gcp credentials_ok_def)
  then show ?thesis by auto
qed

lemma jar_example_ref_pure:
  "\<not> isl (moz_dataproc_jar_runner ext_ok
            ((deref_jar_kwargs s jar_example_ref)\<lparr>default_args := x\<rparr>))"
proof -
  have "\<exists>dag. moz_dataproc_jar_runner ext_ok
      ((deref_jar_kwargs s jar_example_ref)\<lparr>default_args := x\<rparr>) = Inr dag"
    by (rule jar_succeeds)
       (simp_all add: deref_jar_kwargs_def jar_example_ref_def jar_defaults_ref_def
          ext_ok_gcp credentials_ok_def)
  then show ?thesis by auto
qed

lemma not_isl_map_sum: "\<not> isl (map_sum f g r) \<Longrightarrow> r = Inr (projr r)"
  by (cases r) simp_all

lemma pyspark_builds_pair:
  "moz_dataproc_pyspark_runner_ref ext_ok caller_store pyspark_example_ref =
     (fst pyspark_first_build, snd pyspark_first_build)"
  "moz_dataproc_pyspark_runner_ref ext_ok (snd pyspark_first_build) pyspark_example_ref =
     (fst pyspark_second_build, snd pyspark_second_build)"
  by (simp_all add: pyspark_first_build_def pyspark_second_build_def)

lemma jar_builds_pair:
  "moz_dataproc_jar_runner_ref ext_ok caller_store jar_example_ref =
     (fst jar_first_build, snd jar_first_build)"
  "moz_dataproc_jar_runner_ref ext_ok (snd jar_first_build) jar_example_ref =
     (fst jar_second_build, snd jar_second_build)"
  by (simp_all add: jar_first_build_def jar_second_build_def)

lemma pyspark_builds_Inr:
  "fst pyspark_first_build = Inr (projr (fst pyspark_first_build))"
  "fst pyspark_second_build = Inr (projr (fst pyspark_second_build))"
proof -
  note f1 = pyspark_ref_refines [OF pyspark_builds_pair(1) pyspark_example_ref_ok]
  have "\<not> isl (map_sum id (deref_dag (snd pyspark_first_build)) (fst pyspark_first_build))"
    unfolding f1(1) by (rule pyspark_example_ref_pure)
  then show "fst pyspark_first_build = Inr (projr (fst pyspark_first_build))"
    by (rule not_isl_map_sum)
  have ok1: "pyspark_kwargs_ok (snd pyspark_first_build) pyspark_example_ref"
    using f1(2) pyspark_example_ref_ok by (rule deref_pyspark_kwargs_extends(2))
  have "\<not> isl (map_sum id (deref_dag (snd pyspark_second_build)) (fst pyspark_second_build))"
    unfolding pyspark_ref_refines(1) [OF pyspark_builds_pair(2) ok1]
    by (rule pyspark_example_ref_pure)
  then show "fst pyspark_second_build = Inr (projr (fst pyspark_second_build))"
    by (rule not_isl_map_sum)
qed

lemma jar_builds_Inr:
  "fst jar_first_build = Inr (projr (fst jar_first_build))"
  "fst jar_second_build = Inr (projr (fst jar_second_build))"
proof -
  note f1 = jar_ref_refines [OF jar_builds_pair(1) jar_example_ref_ok]
  have "\<not> isl (map_sum id (deref_dag (snd jar_first_build)) (fst jar_first_build))"
    unfolding f1(1) by (rule jar_example_ref_pure)
  then show "fst jar_first_build = Inr (projr (fst jar_first_build))"
    by (rule not_isl_map_sum)
  have ok1: "jar_kwargs_ok (snd jar_first_build) jar_example_ref"
    using f1(2) jar_example_ref_ok by (rule deref_jar_kwargs_extends(2))
  have "\<not> isl (map_sum id (deref_dag (snd jar_second_build)) (fst jar_second_build))"
    unfolding jar_ref_refines(1) [OF jar_builds_pair(2) ok1]
    by (rule jar_example_ref_pure)
  then show "fst jar_second_build = Inr (projr (fst jar_second_build))"
    by (rule not_isl_map_sum)
qed

lemma example_ref_fields:
  "optional_components pyspark_example_ref = ListRef 1"
  "py_args pyspark_example_ref = Some (ListRef 4)"
  "default_args pyspark_example_ref = Some (DictRef 0)"
  "optional_components jar_example_ref = ListRef 2"
  "jar_urls jar_example_ref = Some (ListRef 5)"
  "jar_args jar_example_ref = Some (ListRef 4)"
  "default_args jar_example_ref = Some (DictRef 0)"
  by (simp_all add: pyspark_example_ref_def pyspark_defaults_ref_def jar_example_ref_def
        jar_defaults_ref_def)

lemma script_example_uri_builds:
  "moz_dataproc_scriptrunner ext_ok (script_example\<lparr>arguments := a, uri := Some u\<rparr>) =
     Inr (projr (moz_dataproc_scriptrunner ext_ok
            (script_example\<lparr>arguments := a, uri := Some u\<rparr>)))"
proof -
  have "\<exists>dag. moz_dataproc_scriptrunner ext_ok
      (script_example\<lparr>arguments := a, uri := Some u\<rparr>) = Inr dag"
    by (rule scriptrunner_succeeds)
       (simp_all add: script_example_fields ext_ok_gcp credentials_ok_def)
  then show ?thesis by auto
qed

section \<open>The claims\<close>

text \<open>
  C1. When the script builder is called with \<open>job_name="J"\<close>, \<open>uri="gs://b/s.py"\<close>,
  \<open>env={"k": "v"}\<close> and returns a DAG, the run task's argument list is exactly the
  bootstrap script \<open>gs://<artifact_bucket>/bootstrap/airflow_gcp.sh\<close>, \<open>--job-name J\<close>,
  \<open>--uri gs://b/s.py\<close>, \<open>--environment k=v\<close>, followed by \<open>--arguments "-d 1"\<close> when
  \<open>arguments="-d 1"\<close>, and by nothing when \<open>arguments\<close> is omitted.
\<close>

theorem scriptrunner_arguments_example:
  assumes "moz_dataproc_scriptrunner ext kw = Inr dag"
      and "job_name kw = Some ''J''" and "uri kw = Some ''gs://b/s.py''"
      and "env kw = Some [(''k'', ''v'')]"
  shows "(arguments kw = Some ''-d 1'' \<longrightarrow>
            Option.bind (spark_operator dag ''run_script_on_dataproc'') spark_arguments =
              Some [''gs://'' @ artifact_bucket kw @ ''/bootstrap/airflow_gcp.sh'',
                    ''--job-name'', ''J'', ''--uri'', ''gs://b/s.py'',
                    ''--environment'', ''k=v'', ''--arguments'', ''-d 1''])
       \<and> (arguments kw = None \<longrightarrow>
            Option.bind (spark_operator dag ''run_script_on_dataproc'') spark_arguments =
              Some [''gs://'' @ artifact_bucket kw @ ''/bootstrap/airflow_gcp.sh'',
                    ''--job-name'', ''J'', ''--uri'', ''gs://b/s.py'',
                    ''--environment'', ''k=v''])"
  using spark_operator_scriptrunner [OF assms(1)] assms(2-4)
  by (simp add: script_run_def py_str_def format_envvar_def truthy_def)

theorem scriptrunner_arguments_example_witness:
  "moz_dataproc_scriptrunner ext_ok (script_example\<lparr>arguments := Some ''-d 1''\<rparr>) =
     Inr (projr (moz_dataproc_scriptrunner ext_ok
            (script_example\<lparr>arguments := Some ''-d 1''\<rparr>)))
   \<and> Option.bind (spark_operator (projr (moz_dataproc_scriptrunner ext_ok
            (script_example\<lparr>arguments := Some ''-d 1''\<rparr>)))
          ''run_script_on_dataproc'') spark_arguments =
       Some [''gs://moz-fx-data-prod-airflow-dataproc-artifacts/bootstrap/airflow_gcp.sh'',
             ''--job-name'', ''J'', ''--uri'', ''gs://b/s.py'',
             ''--environment'', ''k=v'', ''--arguments'', ''-d 1'']
   \<and> moz_dataproc_scriptrunner ext_ok (script_example\<lparr>arguments := None\<rparr>) =
     Inr (projr (moz_dataproc_scriptrunner ext_ok (script_example\<lparr>arguments := None\<rparr>)))
   \<and> Option.bind (spark_operator (projr (moz_dataproc_scriptrunner ext_ok
            (script_example\<lparr>arguments := None\<rparr>)))
          ''run_script_on_dataproc'') spark_arguments =
       Some [''gs://moz-fx-data-prod-airflow-dataproc-artifacts/bootstrap/airflow_gcp.sh'',
             ''--job-name'', ''J'', ''--uri'', ''gs://b/s.py'',
             ''--environment'', ''k=v'']"
  using
    scriptrunner_arguments_example [OF script_example_builds [of "Some ''-d 1''"]]
    scriptrunner_arguments_example [OF script_example_builds [of None]]
    script_example_builds [of "Some ''-d 1''"] script_example_builds [of None]
  by (simp add: script_example_fields)

text \<open>
  C2. A DAG returned by any of the three builders holds exactly three tasks, in the
  order create, run, delete: a cluster-create operator with no predecessor, the run
  operator of the job kind whose only predecessor is the create task, and a
  cluster-delete operator whose only predecessor is the run task.
\<close>

theorem builders_chain:
  "(moz_dataproc_pyspark_runner ext kp = Inr dag1 \<longrightarrow>
      (\<exists>c r d. map operator (tasks dag1) = [ClusterCreate c, PySpark r, ClusterDelete d]) \<and>
      map (\<lambda>t. (task_id (operator t), upstream_task_ids t)) (tasks dag1) =
        [(''create_dataproc_cluster'', []),
         (''run_dataproc_pyspark'', [''create_dataproc_cluster'']),
         (''delete_dataproc_cluster'', [''run_dataproc_pyspark''])])
   \<and> (moz_dataproc_jar_runner ext kj = Inr dag2 \<longrightarrow>
      (\<exists>c r d. map operator (tasks dag2) = [ClusterCreate c, Spark r, ClusterDelete d]) \<and>
      map (\<lambda>t. (task_id (operator t), upstream_task_ids t)) (tasks dag2) =
        [(''create_dataproc_cluster'', []),
         (''run_jar_on_dataproc'', [''create_dataproc_cluster'']),
         (''delete_dataproc_cluster'', [''run_jar_on_dataproc''])])
   \<and> (moz_dataproc_scriptrunner ext ks = Inr dag3 \<longrightarrow>
      (\<exists>c r d. map operator (tasks dag3) = [ClusterCreate c, Spark r, ClusterDelete d]) \<and>
      map (\<lambda>t. (task_id (operator t), upstream_task_ids t)) (tasks dag3) =
        [(''create_dataproc_cluster'', []),
         (''run_script_on_dataproc'', [''create_dataproc_cluster'']),
         (''delete_dataproc_cluster'', [''run_script_on_dataproc''])])"
proof (intro conjI impI)
  assume "moz_dataproc_pyspark_runner ext kp = Inr dag1"
  from pyspark_Inr [OF this] obtain h c where c: "create_cluster ext h = Inr c" and
    t: "tasks dag1 = chain (ClusterCreate c) (PySpark (pyspark_run kp))
                      (ClusterDelete (delete_cluster h))"
    by blast
  from chain_shape(1) [OF t]
  show "\<exists>c r d. map operator (tasks dag1) = [ClusterCreate c, PySpark r, ClusterDelete d]"
    by (intro exI)
  from chain_shape(2) [OF t] create_cluster_Inr(1) [OF c] delete_cluster_task_id [of h]
  show "map (\<lambda>t. (task_id (operator t), upstream_task_ids t)) (tasks dag1) =
        [(''create_dataproc_cluster'', []),
         (''run_dataproc_pyspark'', [''create_dataproc_cluster'']),
         (''delete_dataproc_cluster'', [''run_dataproc_pyspark''])]"
    by (simp add: pyspark_run_def)
next
  assume "moz_dataproc_jar_runner ext kj = Inr dag2"
  from jar_Inr [OF this] obtain h c where c: "create_cluster ext h = Inr c" and
    t: "tasks dag2 = chain (ClusterCreate c) (Spark (jar_run kj))
                      (ClusterDelete (delete_cluster h))"
    by blast
  from chain_shape(1) [OF t]
  show "\<exists>c r d. map operator (tasks dag2) = [ClusterCreate c, Spark r, ClusterDelete d]"
    by (intro exI)
  from chain_shape(2) [OF t] create_cluster_Inr(1) [OF c] delete_cluster_task_id [of h]
  show "map (\<lambda>t. (task_id (operator t), upstream_task_ids t)) (tasks dag2) =
        [(''create_dataproc_cluster'', []),
         (''run_jar_on_dataproc'', [''create_dataproc_cluster'']),
         (''delete_dataproc_cluster'', [''run_jar_on_dataproc''])]"
    by (simp add: jar_run_def)
next
  assume "moz_dataproc_scriptrunner ext ks = Inr dag3"
  from scriptrunner_Inr [OF this] obtain h c where c: "create_cluster ext h = Inr c" and
    t: "tasks dag3 = chain (ClusterCreate c) (Spark (script_run ks))
                      (ClusterDelete (delete_cluster h))"
    by blast
  from chain_shape(1) [OF t]
  show "\<exists>c r d. map operator (tasks dag3) = [ClusterCreate c, Spark r, ClusterDelete d]"
    by (intro exI)
  from chain_shape(2) [OF t] create_cluster_Inr(1) [OF c] delete_cluster_task_id [of h]
  show "map (\<lambda>t. (task_id (operator t), upstream_task_ids t)) (tasks dag3) =
        [(''create_dataproc_cluster'', []),
         (''run_script_on_dataproc'', [''create_dataproc_cluster'']),
         (''delete_dataproc_cluster'', [''run_script_on_dataproc''])]"
    by (simp add: script_run_def)
qed

theorem builders_chain_witness:
  "moz_dataproc_pyspark_runner ext_ok pyspark_example =
     Inr (projr (moz_dataproc_pyspark_runner ext_ok pyspark_example))
   \<and> map (\<lambda>t. (task_id (operator t), upstream_task_ids t))
         (tasks (projr (moz_dataproc_pyspark_runner ext_ok pyspark_example))) =
        [(''create_dataproc_cluster'', []),
         (''run_dataproc_pyspark'', [''create_dataproc_cluster'']),
         (''delete_dataproc_cluster'', [''run_dataproc_pyspark''])]
   \<and> moz_dataproc_jar_runner ext_ok (jar_example\<lparr>jar_urls := Some [''gs://b/j.jar'']\<rparr>) =
     Inr (projr (moz_dataproc_jar_runner ext_ok
            (jar_example\<lparr>jar_urls := Some [''gs://b/j.jar'']\<rparr>)))
   \<and> map (\<lambda>t. (task_id (operator t), upstream_task_ids t))
         (tasks (projr (moz_dataproc_jar_runner ext_ok
            (jar_example\<lparr>jar_urls := Some [''gs://b/j.jar'']\<rparr>)))) =
        [(''create_dataproc_cluster'', []),
         (''run_jar_on_dataproc'', [''create_dataproc_cluster'']),
         (''delete_dataproc_cluster'', [''run_jar_on_dataproc''])]
   \<and> moz_dataproc_scriptrunner ext_ok (script_example\<lparr>arguments := None\<rparr>) =
     Inr (projr (moz_dataproc_scriptrunner ext_ok (script_example\<lparr>arguments := None\<rparr>)))
   \<and> map (\<lambda>t. (task_id (operator t), upstream_task_ids t))
         (tasks (projr (moz_dataproc_scriptrunner ext_ok
            (script_example\<lparr>arguments := None\<rparr>)))) =
        [(''create_dataproc_cluster'', []),
         (''run_script_on_dataproc'', [''create_dataproc_cluster'']),
         (''delete_dataproc_cluster'', [''run_script_on_dataproc''])]"
  using builders_chain
    [of ext_ok pyspark_example "projr (moz_dataproc_pyspark_runner ext_ok pyspark_example)"
        "jar_example\<lparr>jar_urls := Some [''gs://b/j.jar'']\<rparr>"
        "projr (moz_dataproc_jar_runner ext_ok
            (jar_example\<lparr>jar_urls := Some [''gs://b/j.jar'']\<rparr>))"
        "script_example\<lparr>arguments := None\<rparr>"
        "projr (moz_dataproc_scriptrunner ext_ok (script_example\<lparr>arguments := None\<rparr>))"]
    pyspark_example_builds jar_example_builds [of "[''gs://b/j.jar'']"]
    script_example_builds [of None]
  by blast

text \<open>
  C3. Each builder raises its \<open>AirflowException\<close> when a required argument is \<open>None\<close>:
  \<open>cluster_name\<close> or \<open>python_driver_code\<close> for the Python builder, \<open>cluster_name\<close>,
  \<open>jar_urls\<close> or \<open>main_class\<close> for the jar builder, \<open>job_name\<close>, \<open>uri\<close> or
  \<open>cluster_name\<close> for the script builder. The result is the exception whatever the
  external services would answer, so they are not consulted, and no DAG is returned.
\<close>

theorem missing_required_field:
  "moz_dataproc_pyspark_runner ext (kp\<lparr>cluster_name := None\<rparr>) =
     Inl (AirflowException ''Please specify cluster_name and/or python_driver_code.'')
   \<and> moz_dataproc_pyspark_runner ext (kp\<lparr>python_driver_code := None\<rparr>) =
     Inl (AirflowException ''Please specify cluster_name and/or python_driver_code.'')
   \<and> moz_dataproc_jar_runner ext (kj\<lparr>cluster_name := None\<rparr>) =
     Inl (AirflowException ''Please specify cluster_name, jar_urls, and/or main_class.'')
   \<and> moz_dataproc_jar_runner ext (kj\<lparr>jar_urls := None\<rparr>) =
     Inl (AirflowException ''Please specify cluster_name, jar_urls, and/or main_class.'')
   \<and> moz_dataproc_jar_runner ext (kj\<lparr>main_class := None\<rparr>) =
     Inl (AirflowException ''Please specify cluster_name, jar_urls, and/or main_class.'')
   \<and> moz_dataproc_scriptrunner ext (ks\<lparr>job_name := None\<rparr>) =
     Inl (AirflowException ''Please specify job_name, uri, and cluster_name.'')
   \<and> moz_dataproc_scriptrunner ext (ks\<lparr>uri := None\<rparr>) =
     Inl (AirflowException ''Please specify job_name, uri, and cluster_name.'')
   \<and> moz_dataproc_scriptrunner ext (ks\<lparr>cluster_name := None\<rparr>) =
     Inl (AirflowException ''Please specify job_name, uri, and cluster_name.'')"
  by (simp add: pyspark_unfold jar_unfold scriptrunner_unfold)

theorem missing_required_field_witness:
  "moz_dataproc_pyspark_runner ext_down (pyspark_example\<lparr>python_driver_code := None\<rparr>) =
     Inl (AirflowException ''Please specify cluster_name and/or python_driver_code.'')
   \<and> moz_dataproc_jar_runner ext_ok (jar_example\<lparr>main_class := None\<rparr>) =
     Inl (AirflowException ''Please specify cluster_name, jar_urls, and/or main_class.'')
   \<and> moz_dataproc_scriptrunner ext_ok (script_example\<lparr>uri := None\<rparr>) =
     Inl (AirflowException ''Please specify job_name, uri, and cluster_name.'')"
  using missing_required_field [of ext_down pyspark_example]
    missing_required_field [of ext_ok _ jar_example script_example]
  by blast

text \<open>
  C4. In the create operator \<open>create_cluster\<close> returns, the properties hold, for a
  connection id that is given and credentials (access key, secret key, session token),
  exactly the fields that are not \<open>None\<close>, under \<open>core:fs.s3a.access.key\<close>,
  \<open>core:fs.s3a.secret.key\<close> and \<open>core:fs.s3a.session.token\<close>: for (key, secret, None)
  the properties are the entry of the access key and the entry of the secret key, and
  nothing else. Without a connection id the properties are empty.
\<close>

theorem credential_injection:
  assumes "create_cluster ext self = Inr c"
  shows "(aws_conn_id self = Some conn \<and> conn \<noteq> [] \<and>
          AwsHook_get_credentials ext conn = Inr [Some k, Some s, None] \<longrightarrow>
            create_properties c =
              [(''core:fs.s3a.access.key'', k), (''core:fs.s3a.secret.key'', s)])
       \<and> (aws_conn_id self = Some conn \<and> conn \<noteq> [] \<and>
          AwsHook_get_credentials ext conn = Inr [a, b, t] \<longrightarrow>
            map_of (create_properties c) n =
              (if n = ''core:fs.s3a.access.key'' then a
               else if n = ''core:fs.s3a.secret.key'' then b
               else if n = ''core:fs.s3a.session.token'' then t
               else None))
       \<and> (aws_conn_id self = None \<or> aws_conn_id self = Some [] \<longrightarrow>
            create_properties c = [])"
proof (intro conjI impI)
  assume h: "aws_conn_id self = Some conn \<and> conn \<noteq> [] \<and>
          AwsHook_get_credentials ext conn = Inr [Some k, Some s, None]"
  with create_cluster_properties [OF assms]
  show "create_properties c =
      [(''core:fs.s3a.access.key'', k), (''core:fs.s3a.secret.key'', s)]"
    by simp
next
  assume "aws_conn_id self = Some conn \<and> conn \<noteq> [] \<and>
          AwsHook_get_credentials ext conn = Inr [a, b, t]"
  with create_cluster_properties [OF assms] s3_properties_three [of a b t n]
  show "map_of (create_properties c) n =
              (if n = ''core:fs.s3a.access.key'' then a
               else if n = ''core:fs.s3a.secret.key'' then b
               else if n = ''core:fs.s3a.session.token'' then t
               else None)"
    by (simp del: s3_properties.simps zip_Cons_Cons)
next
  assume "aws_conn_id self = None \<or> aws_conn_id self = Some []"
  with create_cluster_properties [OF assms]
  show "create_properties c = []"
    by auto
qed

theorem credential_injection_witness:
  "create_cluster ext_ok (helper_of (DataProcHelper_defaults\<lparr>aws_conn_id := Some ''aws''\<rparr>)) =
     Inr (projr (create_cluster ext_ok
            (helper_of (DataProcHelper_defaults\<lparr>aws_conn_id := Some ''aws''\<rparr>))))
   \<and> AwsHook_get_credentials ext_ok ''aws'' = Inr [Some ''AK'', Some ''SK'', None]
   \<and> create_properties (projr (create_cluster ext_ok
            (helper_of (DataProcHelper_defaults\<lparr>aws_conn_id := Some ''aws''\<rparr>)))) =
       [(''core:fs.s3a.access.key'', ''AK''), (''core:fs.s3a.secret.key'', ''SK'')]
   \<and> map_of (create_properties (projr (create_cluster ext_ok
            (helper_of (DataProcHelper_defaults\<lparr>aws_conn_id := Some ''aws''\<rparr>)))))
         ''core:fs.s3a.session.token'' = None
   \<and> create_cluster ext_ok (helper_of DataProcHelper_defaults) =
     Inr (projr (create_cluster ext_ok (helper_of DataProcHelper_defaults)))
   \<and> create_properties (projr (create_cluster ext_ok (helper_of DataProcHelper_defaults))) =
       []"
proof -
  let ?h = "helper_of (DataProcHelper_defaults\<lparr>aws_conn_id := Some ''aws''\<rparr>)"
  let ?c = "projr (create_cluster ext_ok ?h)"
  let ?g = "helper_of DataProcHelper_defaults"
  let ?d = "projr (create_cluster ext_ok ?g)"
  have g: "AwsHook_get_credentials ext_ok ''aws'' = Inr [Some ''AK'', Some ''SK'', None]"
    by (simp add: ext_ok_def)
  have a: "aws_conn_id ?h = Some ''aws'' \<and> ''aws'' \<noteq> [] \<and>
      AwsHook_get_credentials ext_ok ''aws'' = Inr [Some ''AK'', Some ''SK'', None]"
  proof (intro conjI)
    show "aws_conn_id ?h = Some ''aws''" by (simp add: helper_of_fields)
    show "''aws'' \<noteq> []" by simp
    show "AwsHook_get_credentials ext_ok ''aws'' = Inr [Some ''AK'', Some ''SK'', None]"
      by (rule g)
  qed
  have n: "aws_conn_id ?g = None \<or> aws_conn_id ?g = Some []"
    by (simp add: helper_of_fields DataProcHelper_defaults_def)
  have b: "create_cluster ext_ok ?h = Inr ?c" by (rule helper_of_builds)
  have b0: "create_cluster ext_ok ?g = Inr ?d" by (rule helper_of_builds)
  have 1: "create_properties ?c =
       [(''core:fs.s3a.access.key'', ''AK''), (''core:fs.s3a.secret.key'', ''SK'')]"
    using credential_injection [OF b, of "''aws''" "''AK''" "''SK''", THEN conjunct1] a
    by blast
  have "map_of (create_properties ?c) ''core:fs.s3a.session.token'' =
      (if ''core:fs.s3a.session.token'' = ''core:fs.s3a.access.key'' then Some ''AK''
       else if ''core:fs.s3a.session.token'' = ''core:fs.s3a.secret.key'' then Some ''SK''
       else if ''core:fs.s3a.session.token'' = ''core:fs.s3a.session.token'' then None
       else None)"
    using credential_injection [OF b, where conn = "''aws''" and a = "Some ''AK''"
        and b = "Some ''SK''" and t = None and n = "''core:fs.s3a.session.token''",
        THEN conjunct2, THEN conjunct1] a
    by blast
  then have 3: "map_of (create_properties ?c) ''core:fs.s3a.session.token'' = None"
    by simp
  have 2: "create_properties ?d = []"
    using credential_injection [OF b0, THEN conjunct2, THEN conjunct2] n
    by blast
  from b g 1 3 b0 2 show ?thesis by (intro conjI)
qed

text \<open>
  C5. Flattening the environment gives the empty string for no mapping and for the
  empty mapping, \<open>key=value\<close> for one entry (\<open>date=20200101\<close> for
  \<open>{"date": "20200101"}\<close>), and keeps iteration order with one space between
  entries: the flattening of two non-empty runs of entries, one after the other, is
  the two flattenings with one space between them.
\<close>

theorem format_envvar_flatten:
  "format_envvar None = []
   \<and> format_envvar (Some []) = []
   \<and> format_envvar (Some [(''date'', ''20200101'')]) = ''date=20200101''
   \<and> format_envvar (Some [(k, v)]) = k @ ''='' @ v
   \<and> (xs \<noteq> [] \<and> ys \<noteq> [] \<longrightarrow>
        format_envvar (Some (xs @ ys)) =
          format_envvar (Some xs) @ '' '' @ format_envvar (Some ys))"
  by (simp add: format_envvar_def join_append)

theorem format_envvar_flatten_witness:
  "[(''a'', ''1'')] \<noteq> [] \<and> [(''b'', ''2''), (''c'', ''3'')] \<noteq> []
   \<and> format_envvar (Some ([(''a'', ''1'')] @ [(''b'', ''2''), (''c'', ''3'')])) = ''a=1 b=2 c=3''"
  using format_envvar_flatten
    [of "''b''" "''2''" "[(''a'', ''1'')]" "[(''b'', ''2''), (''c'', ''3'')]"]
  by (simp add: format_envvar_def)

text \<open>
  C6. Whatever the \<open>uri\<close>, the run task of a DAG the script builder returns submits
  the one jar \<open>gs://<artifact_bucket>/bin/script-runner.jar\<close> with the main class
  \<open>com.amazon.elasticmapreduce.scriptrunner.ScriptRunner\<close>, and its first argument is
  \<open>gs://<artifact_bucket>/bootstrap/airflow_gcp.sh\<close>: a call that differs in the \<open>uri\<close>
  alone submits the same jar list and main class.
\<close>

theorem scriptrunner_fixed_jar:
  assumes "moz_dataproc_scriptrunner ext kw = Inr dag"
  shows "(\<exists>sp rest. spark_operator dag ''run_script_on_dataproc'' = Some sp
     \<and> spark_dataproc_spark_jars sp =
           Some [''gs://'' @ artifact_bucket kw @ ''/bin/script-runner.jar'']
     \<and> spark_main_class sp = Some ''com.amazon.elasticmapreduce.scriptrunner.ScriptRunner''
     \<and> spark_arguments sp =
           Some ((''gs://'' @ artifact_bucket kw @ ''/bootstrap/airflow_gcp.sh'') # rest))
   \<and> (moz_dataproc_scriptrunner ext (kw\<lparr>uri := Some u\<rparr>) = Inr dag' \<longrightarrow>
        Option.bind (spark_operator dag' ''run_script_on_dataproc'') spark_dataproc_spark_jars =
          Option.bind (spark_operator dag ''run_script_on_dataproc'') spark_dataproc_spark_jars
        \<and> Option.bind (spark_operator dag' ''run_script_on_dataproc'') spark_main_class =
          Option.bind (spark_operator dag ''run_script_on_dataproc'') spark_main_class)"
proof (intro conjI impI)
  show "\<exists>sp rest. spark_operator dag ''run_script_on_dataproc'' = Some sp
     \<and> spark_dataproc_spark_jars sp =
           Some [''gs://'' @ artifact_bucket kw @ ''/bin/script-runner.jar'']
     \<and> spark_main_class sp = Some ''com.amazon.elasticmapreduce.scriptrunner.ScriptRunner''
     \<and> spark_arguments sp =
           Some ((''gs://'' @ artifact_bucket kw @ ''/bootstrap/airflow_gcp.sh'') # rest)"
    using spark_operator_scriptrunner [OF assms] by (simp add: script_run_def)
next
  assume b: "moz_dataproc_scriptrunner ext (kw\<lparr>uri := Some u\<rparr>) = Inr dag'"
  from spark_operator_scriptrunner [OF assms] spark_operator_scriptrunner [OF b]
  show "Option.bind (spark_operator dag' ''run_script_on_dataproc'') spark_dataproc_spark_jars =
          Option.bind (spark_operator dag ''run_script_on_dataproc'') spark_dataproc_spark_jars"
    and "Option.bind (spark_operator dag' ''run_script_on_dataproc'') spark_main_class =
          Option.bind (spark_operator dag ''run_script_on_dataproc'') spark_main_class"
    by (simp_all add: script_run_def)
qed

theorem scriptrunner_fixed_jar_witness:
  "moz_dataproc_scriptrunner ext_ok (script_example\<lparr>arguments := None\<rparr>) =
     Inr (projr (moz_dataproc_scriptrunner ext_ok (script_example\<lparr>arguments := None\<rparr>)))
   \<and> moz_dataproc_scriptrunner ext_ok
       (script_example\<lparr>arguments := None, uri := Some ''https://h/job.sh''\<rparr>) =
     Inr (projr (moz_dataproc_scriptrunner ext_ok
       (script_example\<lparr>arguments := None, uri := Some ''https://h/job.sh''\<rparr>)))
   \<and> Option.bind (spark_operator
          (projr (moz_dataproc_scriptrunner ext_ok (script_example\<lparr>arguments := None\<rparr>)))
          ''run_script_on_dataproc'') spark_dataproc_spark_jars =
       Some [''gs://moz-fx-data-prod-airflow-dataproc-artifacts/bin/script-runner.jar'']
   \<and> Option.bind (spark_operator
          (projr (moz_dataproc_scriptrunner ext_ok
             (script_example\<lparr>arguments := None, uri := Some ''https://h/job.sh''\<rparr>)))
          ''run_script_on_dataproc'') spark_dataproc_spark_jars =
       Some [''gs://moz-fx-data-prod-airflow-dataproc-artifacts/bin/script-runner.jar'']"
proof -
  let ?kw = "script_example\<lparr>arguments := None\<rparr>"
  let ?d = "projr (moz_dataproc_scriptrunner ext_ok ?kw)"
  let ?d' = "projr (moz_dataproc_scriptrunner ext_ok (?kw\<lparr>uri := Some ''https://h/job.sh''\<rparr>))"
  have b: "moz_dataproc_scriptrunner ext_ok ?kw = Inr ?d" by (rule script_example_builds)
  have b': "moz_dataproc_scriptrunner ext_ok (?kw\<lparr>uri := Some ''https://h/job.sh''\<rparr>) = Inr ?d'"
    by (rule script_example_uri_builds)
  note t = scriptrunner_fixed_jar [OF b, of "''https://h/job.sh''" ?d']
  from t have 1: "Option.bind (spark_operator ?d ''run_script_on_dataproc'')
        spark_dataproc_spark_jars =
      Some [''gs://moz-fx-data-prod-airflow-dataproc-artifacts/bin/script-runner.jar'']"
    by (auto simp: script_example_fields)
  from t b' have "Option.bind (spark_operator ?d' ''run_script_on_dataproc'')
        spark_dataproc_spark_jars =
      Option.bind (spark_operator ?d ''run_script_on_dataproc'') spark_dataproc_spark_jars"
    by blast
  with 1 b b' show ?thesis by simp
qed







text \<open>
  C9. Two DAGs built by the same builder from the same arguments are not independent.
  Two calls of the script builder that omit \<open>optional_components\<close> and pass
  \<open>default_args\<close> with a start date both return a DAG, and both create operators hold
  the one default list of the signature: after appending \<open>JUPYTER\<close> to the list the
  first DAG's create task refers to, the second DAG's create task reads
  \<open>['ANACONDA', 'JUPYTER']\<close>.
\<close>

theorem builds_share_default_list_counterexample:
  "map_option (get_dict caller_store) (default_args script_example_ref) =
     Some [(''start_date'', ''2020-01-01'')]
   \<and> first_build = (Inr (projr (fst first_build)), snd first_build)
   \<and> second_build = (Inr (projr (fst second_build)), snd second_build)
   \<and> map_option create_optional_components (create_operator (projr (fst first_build))) =
     Some (ListRef 3)
   \<and> map_option create_optional_components (create_operator (projr (fst second_build))) =
     Some (ListRef 3)
   \<and> map_option create_optional_components
        (create_operator (deref_dag (snd second_build) (projr (fst second_build)))) =
     Some [''ANACONDA'']
   \<and> map_option create_optional_components
        (create_operator
           (deref_dag (set_list (snd second_build) (ListRef 3) [''ANACONDA'', ''JUPYTER''])
              (projr (fst second_build)))) =
     Some [''ANACONDA'', ''JUPYTER'']"
proof -
  have 0: "map_option (get_dict caller_store) (default_args script_example_ref) =
     Some [(''start_date'', ''2020-01-01'')]"
    by (simp add: script_example_ref_fields caller_store_def)
  have b1: "first_build = (Inr (projr (fst first_build)), snd first_build)"
    using first_build_Inr by (cases first_build) simp
  have b2: "second_build = (Inr (projr (fst second_build)), snd second_build)"
    using second_build_Inr by (cases second_build) simp
  have 1: "map_option create_optional_components (create_operator (projr (fst first_build))) =
     Some (ListRef 3)"
    using scriptrunner_ref_create_operator [of ext_ok caller_store script_example_ref
        "projr (fst first_build)" "snd first_build"]
      builds_pair(1) first_build_Inr script_example_ref_fields(1)
    by simp
  have 2: "map_option create_optional_components (create_operator (projr (fst second_build))) =
     Some (ListRef 3)"
    using scriptrunner_ref_create_operator [of ext_ok "snd first_build" script_example_ref
        "projr (fst second_build)" "snd second_build"]
      builds_pair(2) second_build_Inr script_example_ref_fields(1)
    by simp
  have g: "get_list (snd second_build) (ListRef 3) = [''ANACONDA'']"
    using second_build_extends
    by (simp add: extends_but_def caller_store_def module_store_def)
  have d: "map_option create_optional_components (create_operator (deref_dag t d)) =
      map_option (get_list t) (map_option create_optional_components (create_operator d))"
    for t and d :: "(list_ref, dict_ref) DAG"
    by (cases "create_operator d") (simp_all add: create_operator_deref deref_create_def)
  have 3: "map_option create_optional_components
        (create_operator (deref_dag (snd second_build) (projr (fst second_build)))) =
     Some [''ANACONDA'']"
    unfolding d 2 using g by simp
  have 4: "map_option create_optional_components
        (create_operator
           (deref_dag (set_list (snd second_build) (ListRef 3) [''ANACONDA'', ''JUPYTER''])
              (projr (fst second_build)))) =
     Some [''ANACONDA'', ''JUPYTER'']"
    unfolding d 2 by simp
  from 0 b1 b2 1 2 3 4 show ?thesis by (intro conjI)
qed

text \<open>
  C9, as the code has it. Two consecutive calls of one builder with the same arguments,
  whose list and dict arguments exist before the first call, that both return a DAG
  return DAGs that read the same once both calls are over (for the script builder,
  when \<open>env\<close> is not the very dict passed as \<open>default_args\<close>, which the DAG constructor
  rewrites in place). The lists and dicts a builder itself displays are new in each
  call. The lists the two DAGs share are exactly those the caller passed or left to the
  default: \<open>optional_components\<close> for the script builder, \<open>optional_components\<close> and
  \<open>py_args\<close> for the Python builder, \<open>optional_components\<close>, \<open>jar_urls\<close> and \<open>jar_args\<close>
  for the jar builder; the only dict they share is \<open>default_args\<close>.
\<close>

theorem builds_share_arguments_only:
  "(script_kwargs_ok s ks \<and> (env ks = None \<or> env ks \<noteq> default_args ks) \<and>
    moz_dataproc_scriptrunner_ref ext s ks = (Inr d1, s1) \<and>
    moz_dataproc_scriptrunner_ref ext s1 ks = (Inr d2, s2) \<longrightarrow>
      deref_dag s2 d1 = deref_dag s2 d2 \<and>
      dag_list_refs d1 \<inter> dag_list_refs d2 = {optional_components ks} \<and>
      dag_dict_refs d1 \<inter> dag_dict_refs d2 = set_option (default_args ks))
   \<and> (pyspark_kwargs_ok s kp \<and>
    moz_dataproc_pyspark_runner_ref ext s kp = (Inr d1, s1) \<and>
    moz_dataproc_pyspark_runner_ref ext s1 kp = (Inr d2, s2) \<longrightarrow>
      deref_dag s2 d1 = deref_dag s2 d2 \<and>
      dag_list_refs d1 \<inter> dag_list_refs d2 =
        {optional_components kp} \<union> set_option (py_args kp) \<and>
      dag_dict_refs d1 \<inter> dag_dict_refs d2 = set_option (default_args kp))
   \<and> (jar_kwargs_ok s kj \<and>
    moz_dataproc_jar_runner_ref ext s kj = (Inr d1, s1) \<and>
    moz_dataproc_jar_runner_ref ext s1 kj = (Inr d2, s2) \<longrightarrow>
      deref_dag s2 d1 = deref_dag s2 d2 \<and>
      dag_list_refs d1 \<inter> dag_list_refs d2 =
        {optional_components kj} \<union> set_option (jar_urls kj) \<union> set_option (jar_args kj) \<and>
      dag_dict_refs d1 \<inter> dag_dict_refs d2 = set_option (default_args kj))"
proof (intro conjI impI; (elim conjE)?)
  assume "script_kwargs_ok s ks" "env ks = None \<or> env ks \<noteq> default_args ks"
    "moz_dataproc_scriptrunner_ref ext s ks = (Inr d1, s1)"
    "moz_dataproc_scriptrunner_ref ext s1 ks = (Inr d2, s2)"
  note t = script_two_builds [OF this]
  show "deref_dag s2 d1 = deref_dag s2 d2" by (rule t(1))
  show "dag_list_refs d1 \<inter> dag_list_refs d2 = {optional_components ks}" by (rule t(3))
  show "dag_dict_refs d1 \<inter> dag_dict_refs d2 = set_option (default_args ks)" by (rule t(4))
next
  assume "pyspark_kwargs_ok s kp"
    "moz_dataproc_pyspark_runner_ref ext s kp = (Inr d1, s1)"
    "moz_dataproc_pyspark_runner_ref ext s1 kp = (Inr d2, s2)"
  note t = pyspark_two_builds [OF this]
  show "deref_dag s2 d1 = deref_dag s2 d2" by (rule t(1))
  show "dag_list_refs d1 \<inter> dag_list_refs d2 =
        {optional_components kp} \<union> set_option (py_args kp)" by (rule t(3))
  show "dag_dict_refs d1 \<inter> dag_dict_refs d2 = set_option (default_args kp)" by (rule t(4))
next
  assume "jar_kwargs_ok s kj"
    "moz_dataproc_jar_runner_ref ext s kj = (Inr d1, s1)"
    "moz_dataproc_jar_runner_ref ext s1 kj = (Inr d2, s2)"
  note t = jar_two_builds [OF this]
  show "deref_dag s2 d1 = deref_dag s2 d2" by (rule t(1))
  show "dag_list_refs d1 \<inter> dag_list_refs d2 =
        {optional_components kj} \<union> set_option (jar_urls kj) \<union> set_option (jar_args kj)"
    by (rule t(3))
  show "dag_dict_refs d1 \<inter> dag_dict_refs d2 = set_option (default_args kj)" by (rule t(4))
qed

theorem builds_share_arguments_only_witness:
  "script_kwargs_ok caller_store script_example_ref
   \<and> (env script_example_ref = None \<or>
        env script_example_ref \<noteq> default_args script_example_ref)
   \<and> moz_dataproc_scriptrunner_ref ext_ok caller_store script_example_ref =
       (Inr (projr (fst first_build)), snd first_build)
   \<and> moz_dataproc_scriptrunner_ref ext_ok (snd first_build) script_example_ref =
       (Inr (projr (fst second_build)), snd second_build)
   \<and> deref_dag (snd second_build) (projr (fst first_build)) =
       deref_dag (snd second_build) (projr (fst second_build))
   \<and> dag_list_refs (projr (fst first_build)) \<inter> dag_list_refs (projr (fst second_build)) =
       {ListRef 3}
   \<and> dag_dict_refs (projr (fst first_build)) \<inter> dag_dict_refs (projr (fst second_build)) =
       {DictRef 0}
   \<and> pyspark_kwargs_ok caller_store pyspark_example_ref
   \<and> moz_dataproc_pyspark_runner_ref ext_ok caller_store pyspark_example_ref =
       (Inr (projr (fst pyspark_first_build)), snd pyspark_first_build)
   \<and> moz_dataproc_pyspark_runner_ref ext_ok (snd pyspark_first_build) pyspark_example_ref =
       (Inr (projr (fst pyspark_second_build)), snd pyspark_second_build)
   \<and> deref_dag (snd pyspark_second_build) (projr (fst pyspark_first_build)) =
       deref_dag (snd pyspark_second_build) (projr (fst pyspark_second_build))
   \<and> dag_list_refs (projr (fst pyspark_first_build)) \<inter>
       dag_list_refs (projr (fst pyspark_second_build)) = {ListRef 1, ListRef 4}
   \<and> dag_dict_refs (projr (fst pyspark_first_build)) \<inter>
       dag_dict_refs (projr (fst pyspark_second_build)) = {DictRef 0}
   \<and> jar_kwargs_ok caller_store jar_example_ref
   \<and> moz_dataproc_jar_runner_ref ext_ok caller_store jar_example_ref =
       (Inr (projr (fst jar_first_build)), snd jar_first_build)
   \<and> moz_dataproc_jar_runner_ref ext_ok (snd jar_first_build) jar_example_ref =
       (Inr (projr (fst jar_second_build)), snd jar_second_build)
   \<and> deref_dag (snd jar_second_build) (projr (fst jar_first_build)) =
       deref_dag (snd jar_second_build) (projr (fst jar_second_build))
   \<and> dag_list_refs (projr (fst jar_first_build)) \<inter>
       dag_list_refs (projr (fst jar_second_build)) = {ListRef 2, ListRef 5, ListRef 4}
   \<and> dag_dict_refs (projr (fst jar_first_build)) \<inter>
       dag_dict_refs (projr (fst jar_second_build)) = {DictRef 0}"
proof -
  have na: "env script_example_ref = None \<or>
      env script_example_ref \<noteq> default_args script_example_ref"
    by (simp add: script_example_ref_fields)
  have sb: "moz_dataproc_scriptrunner_ref ext_ok caller_store script_example_ref =
       (Inr (projr (fst first_build)), snd first_build)"
    "moz_dataproc_scriptrunner_ref ext_ok (snd first_build) script_example_ref =
       (Inr (projr (fst second_build)), snd second_build)"
    using builds_pair first_build_Inr second_build_Inr by simp_all
  have pb: "moz_dataproc_pyspark_runner_ref ext_ok caller_store pyspark_example_ref =
       (Inr (projr (fst pyspark_first_build)), snd pyspark_first_build)"
    "moz_dataproc_pyspark_runner_ref ext_ok (snd pyspark_first_build) pyspark_example_ref =
       (Inr (projr (fst pyspark_second_build)), snd pyspark_second_build)"
    using pyspark_builds_pair pyspark_builds_Inr by simp_all
  have jb: "moz_dataproc_jar_runner_ref ext_ok caller_store jar_example_ref =
       (Inr (projr (fst jar_first_build)), snd jar_first_build)"
    "moz_dataproc_jar_runner_ref ext_ok (snd jar_first_build) jar_example_ref =
       (Inr (projr (fst jar_second_build)), snd jar_second_build)"
    using jar_builds_pair jar_builds_Inr by simp_all
  note ts = builds_share_arguments_only
      [where s = caller_store and ks = script_example_ref and ext = ext_ok
         and ?s1.0 = "snd first_build" and ?s2.0 = "snd second_build"
         and ?d1.0 = "projr (fst first_build)" and ?d2.0 = "projr (fst second_build)",
       THEN conjunct1]
  from ts script_example_ref_ok na sb
  have S: "deref_dag (snd second_build) (projr (fst first_build)) =
         deref_dag (snd second_build) (projr (fst second_build)) \<and>
       dag_list_refs (projr (fst first_build)) \<inter> dag_list_refs (projr (fst second_build)) =
         {optional_components script_example_ref} \<and>
       dag_dict_refs (projr (fst first_build)) \<inter> dag_dict_refs (projr (fst second_build)) =
         set_option (default_args script_example_ref)"
    by blast
  note tp = builds_share_arguments_only
      [where s = caller_store and kp = pyspark_example_ref and ext = ext_ok
         and ?s1.0 = "snd pyspark_first_build" and ?s2.0 = "snd pyspark_second_build"
         and ?d1.0 = "projr (fst pyspark_first_build)"
         and ?d2.0 = "projr (fst pyspark_second_build)",
       THEN conjunct2, THEN conjunct1]
  from tp pyspark_example_ref_ok pb
  have P: "deref_dag (snd pyspark_second_build) (projr (fst pyspark_first_build)) =
         deref_dag (snd pyspark_second_build) (projr (fst pyspark_second_build)) \<and>
       dag_list_refs (projr (fst pyspark_first_build)) \<inter>
       dag_list_refs (projr (fst pyspark_second_build)) =
         {optional_components pyspark_example_ref} \<union>
         set_option (py_args pyspark_example_ref) \<and>
       dag_dict_refs (projr (fst pyspark_first_build)) \<inter>
       dag_dict_refs (projr (fst pyspark_second_build)) =
         set_option (default_args pyspark_example_ref)"
    by blast
  note tj = builds_share_arguments_only
      [where s = caller_store and kj = jar_example_ref and ext = ext_ok
         and ?s1.0 = "snd jar_first_build" and ?s2.0 = "snd jar_second_build"
         and ?d1.0 = "projr (fst jar_first_build)"
         and ?d2.0 = "projr (fst jar_second_build)",
       THEN conjunct2, THEN conjunct2]
  from tj jar_example_ref_ok jb
  have J: "deref_dag (snd jar_second_build) (projr (fst jar_first_build)) =
         deref_dag (snd jar_second_build) (projr (fst jar_second_build)) \<and>
       dag_list_refs (projr (fst jar_first_build)) \<inter>
       dag_list_refs (projr (fst jar_second_build)) =
         {optional_components jar_example_ref} \<union> set_option (jar_urls jar_example_ref) \<union>
         set_option (jar_args jar_example_ref) \<and>
       dag_dict_refs (projr (fst jar_first_build)) \<inter>
       dag_dict_refs (projr (fst jar_second_build)) =
         set_option (default_args jar_example_ref)"
    by blast
  from S have S3: "deref_dag (snd second_build) (projr (fst first_build)) =
         deref_dag (snd second_build) (projr (fst second_build))"
    "dag_list_refs (projr (fst first_build)) \<inter>
      dag_list_refs (projr (fst second_build)) = {ListRef 3}"
    "dag_dict_refs (projr (fst first_build)) \<inter> dag_dict_refs (projr (fst second_build)) =
      {DictRef 0}"
    by (simp_all add: script_example_ref_fields)
  from P have P3: "deref_dag (snd pyspark_second_build) (projr (fst pyspark_first_build)) =
         deref_dag (snd pyspark_second_build) (projr (fst pyspark_second_build))"
    "dag_list_refs (projr (fst pyspark_first_build)) \<inter>
       dag_list_refs (projr (fst pyspark_second_build)) = {ListRef 1, ListRef 4}"
    "dag_dict_refs (projr (fst pyspark_first_build)) \<inter>
       dag_dict_refs (projr (fst pyspark_second_build)) = {DictRef 0}"
    by (auto simp: example_ref_fields)
  from J have J3: "deref_dag (snd jar_second_build) (projr (fst jar_first_build)) =
         deref_dag (snd jar_second_build) (projr (fst jar_second_build))"
    "dag_list_refs (projr (fst jar_first_build)) \<inter>
       dag_list_refs (projr (fst jar_second_build)) = {ListRef 2, ListRef 5, ListRef 4}"
    "dag_dict_refs (projr (fst jar_first_build)) \<inter>
       dag_dict_refs (projr (fst jar_second_build)) = {DictRef 0}"
    by (auto simp: example_ref_fields)
  from script_example_ref_ok na sb S3 pyspark_example_ref_ok pb P3 jar_example_ref_ok jb J3
  show ?thesis by (intro conjI)
qed

text \<open>
  C10. For the script builder the empty string as \<open>arguments\<close> gives the same result
  as \<open>None\<close>: in both cases the run task's argument list ends after the
  \<open>--environment\<close> value, with no \<open>--arguments\<close> flag.
\<close>

theorem scriptrunner_empty_arguments:
  "moz_dataproc_scriptrunner ext (kw\<lparr>arguments := Some []\<rparr>) =
     moz_dataproc_scriptrunner ext (kw\<lparr>arguments := None\<rparr>)
   \<and> (moz_dataproc_scriptrunner ext kw = Inr dag \<and>
        (arguments kw = None \<or> arguments kw = Some []) \<longrightarrow>
        Option.bind (spark_operator dag ''run_script_on_dataproc'') spark_arguments =
          Some [''gs://'' @ artifact_bucket kw @ ''/bootstrap/airflow_gcp.sh'',
                ''--job-name'', py_str (job_name kw), ''--uri'', py_str (uri kw),
                ''--environment'', format_envvar (env kw)])"
proof
  show "moz_dataproc_scriptrunner ext (kw\<lparr>arguments := Some []\<rparr>) =
     moz_dataproc_scriptrunner ext (kw\<lparr>arguments := None\<rparr>)"
  proof -
    have "script_run (kw\<lparr>arguments := Some []\<rparr>) = script_run (kw\<lparr>arguments := None\<rparr>)"
      by (simp add: script_run_def truthy_def)
    moreover have "helper_kwargs (kw\<lparr>arguments := Some []\<rparr>) =
        helper_kwargs (kw\<lparr>arguments := None\<rparr>)"
      by (simp add: helper_kwargs_def)
    ultimately show ?thesis
      by (simp add: scriptrunner_unfold cong: sum.case_cong if_cong)
  qed
next
  show "moz_dataproc_scriptrunner ext kw = Inr dag \<and>
        (arguments kw = None \<or> arguments kw = Some []) \<longrightarrow>
        Option.bind (spark_operator dag ''run_script_on_dataproc'') spark_arguments =
          Some [''gs://'' @ artifact_bucket kw @ ''/bootstrap/airflow_gcp.sh'',
                ''--job-name'', py_str (job_name kw), ''--uri'', py_str (uri kw),
                ''--environment'', format_envvar (env kw)]"
  proof
    assume a: "moz_dataproc_scriptrunner ext kw = Inr dag \<and>
        (arguments kw = None \<or> arguments kw = Some [])"
    then have "\<not> truthy (arguments kw)" by (auto simp: truthy_def)
    with spark_operator_scriptrunner [of ext kw dag] a
    show "Option.bind (spark_operator dag ''run_script_on_dataproc'') spark_arguments =
          Some [''gs://'' @ artifact_bucket kw @ ''/bootstrap/airflow_gcp.sh'',
                ''--job-name'', py_str (job_name kw), ''--uri'', py_str (uri kw),
                ''--environment'', format_envvar (env kw)]"
      by (simp add: script_run_def)
  qed
qed

theorem scriptrunner_empty_arguments_witness:
  "moz_dataproc_scriptrunner ext_ok (script_example\<lparr>arguments := Some []\<rparr>) =
     Inr (projr (moz_dataproc_scriptrunner ext_ok (script_example\<lparr>arguments := Some []\<rparr>)))
   \<and> arguments (script_example\<lparr>arguments := Some []\<rparr>) = Some []
   \<and> Option.bind (spark_operator
          (projr (moz_dataproc_scriptrunner ext_ok (script_example\<lparr>arguments := Some []\<rparr>)))
          ''run_script_on_dataproc'') spark_arguments =
       Some [''gs://moz-fx-data-prod-airflow-dataproc-artifacts/bootstrap/airflow_gcp.sh'',
             ''--job-name'', ''J'', ''--uri'', ''gs://b/s.py'', ''--environment'', ''k=v'']"
proof -
  let ?kw = "script_example\<lparr>arguments := Some []\<rparr>"
  let ?dag = "projr (moz_dataproc_scriptrunner ext_ok ?kw)"
  have b: "moz_dataproc_scriptrunner ext_ok ?kw = Inr ?dag"
    by (rule script_example_builds)
  have e: "arguments ?kw = Some []" by simp
  from scriptrunner_empty_arguments [of ext_ok ?kw ?dag, THEN conjunct2] b e
  have "Option.bind (spark_operator ?dag ''run_script_on_dataproc'') spark_arguments =
          Some [''gs://'' @ artifact_bucket ?kw @ ''/bootstrap/airflow_gcp.sh'',
                ''--job-name'', py_str (job_name ?kw), ''--uri'', py_str (uri ?kw),
                ''--environment'', format_envvar (env ?kw)]"
    by blast
  with b e show ?thesis
    by (simp add: script_example_fields py_str_def format_envvar_def)
qed

end
